theory Spec2Isabelle
  imports Main "HOL-Library.Word" "HOL-Library.Sublist"
begin

unbundle bit_operations_syntax

section \<open>Machine types and status codes\<close>

type_synonym UINT8 = "8 word"
type_synonym UINT16 = "16 word"
type_synonym UINT32 = "32 word"
type_synonym UINT64 = "64 word"
type_synonym bytes = "UINT8 list"

text \<open>
  The RETURN_STATUS values the modelled functions produce or pass on. RETURN_ERROR is true of
  every value but RETURN_SUCCESS.
\<close>

datatype RETURN_STATUS =
    RETURN_SUCCESS
  | RETURN_INVALID_PARAMETER
  | RETURN_UNSUPPORTED
  | RETURN_BUFFER_TOO_SMALL
  | RETURN_DEVICE_ERROR
  | RETURN_SECURITY_VIOLATION
  | RETURN_NO_RESPONSE
  | RETURN_ACCESS_DENIED
  | RETURN_NOT_READY
  | RETURN_NOT_FOUND

definition RETURN_ERROR :: "RETURN_STATUS \<Rightarrow> bool" where
  "RETURN_ERROR Status = (Status \<noteq> RETURN_SUCCESS)"

text \<open>Little-endian reads and writes of the scalar types, as the casts \<open>*(UINT16 *)Ptr\<close> and
  \<open>*(UINT32 *)Data\<close> do on the little-endian targets of the library.\<close>

definition ReadUint16 :: "bytes \<Rightarrow> UINT16" where
  "ReadUint16 bs = word_rcat (rev (take 2 bs))"

definition ReadUint32 :: "bytes \<Rightarrow> UINT32" where
  "ReadUint32 bs = word_rcat (rev (take 4 bs))"

definition WriteUint16 :: "UINT16 \<Rightarrow> bytes" where
  "WriteUint16 w = [ucast w, ucast (drop_bit 8 w)]"

definition WriteUint32 :: "UINT32 \<Rightarrow> bytes" where
  "WriteUint32 w = [ucast w, ucast (drop_bit 8 w), ucast (drop_bit 16 w), ucast (drop_bit 24 w)]"

section \<open>Constants declared outside the modelled sources\<close>

text \<open>
  Modelled from the spec: the compile-time maxima (section 6, "Configurable constants") are
  declared in a configuration header that is not among the sources. They are taken as a
  parameter of every function that uses one.
\<close>

text \<open>
  The enumerators of SPDM_DATA_TYPE that SpdmSetData and SpdmGetData name; SpdmDataOther
  stands for every other value of the enumeration. The enumeration is declared in the
  public header, which is not among the sources, so the numeric value of each enumerator
  (what IsDebugOnlyData compares with 0x80000000) is a parameter, SPDM_DATA_TYPE_VALUE.
\<close>

datatype SPDM_DATA_TYPE =
    SpdmDataCapabilityFlags
  | SpdmDataCapabilityCTExponent
  | SpdmDataMeasurementHashAlgo
  | SpdmDataBaseAsymAlgo
  | SpdmDataBaseHashAlgo
  | SpdmDataDHENamedGroup
  | SpdmDataAEADCipherSuite
  | SpdmDataReqBaseAsymAlg
  | SpdmDataKeySchedule
  | SpdmDataConnectionState
  | SpdmDataResponseState
  | SpdmDataPeerPublicRootCertHash
  | SpdmDataPeerPublicCertChains
  | SpdmDataSlotCount
  | SpdmDataPublicCertChains
  | SpdmDataBasicMutAuthRequested
  | SpdmDataMutAuthRequested
  | SpdmDataPskHint
  | SpdmDataOther UINT32

record SPDM_CONFIG =
  SPDM_DATA_TYPE_VALUE :: "SPDM_DATA_TYPE \<Rightarrow> UINT32"
  MAX_SPDM_SESSION_COUNT :: nat
  MAX_SPDM_VERSION_COUNT :: nat
  MAX_SPDM_MESSAGE_BUFFER_SIZE :: nat
  MAX_SPDM_MESSAGE_SMALL_BUFFER_SIZE :: nat
  MAX_SPDM_SLOT_COUNT :: nat
  MAX_SPDM_PSK_HINT_LENGTH :: nat
  MAX_SPDM_MEASUREMENT_RECORD_SIZE :: nat
  MAX_HASH_SIZE :: nat
  MAX_ASYM_KEY_SIZE :: nat
  MAX_SPDM_OPAQUE_DATA_SIZE :: nat
  MAX_SPDM_REQUEST_RETRY_TIMES :: UINT8

text \<open>
  Modelled from the spec: the wire constants of DMTF SPDM 1.0/1.1 (section 6, "Wire
  formats"); the protocol header that defines them is not among the sources.
\<close>

definition INVALID_SESSION_ID :: UINT32 where "INVALID_SESSION_ID = 0"

definition SPDM_NONCE_SIZE :: nat where "SPDM_NONCE_SIZE = 32"
definition SPDM_MESSAGE_VERSION_10 :: UINT8 where "SPDM_MESSAGE_VERSION_10 = 0x10"
definition SPDM_MESSAGE_VERSION_11 :: UINT8 where "SPDM_MESSAGE_VERSION_11 = 0x11"
definition SPDM_CHALLENGE :: UINT8 where "SPDM_CHALLENGE = 0x83"
definition SPDM_CHALLENGE_AUTH :: UINT8 where "SPDM_CHALLENGE_AUTH = 0x03"
definition SPDM_ERROR :: UINT8 where "SPDM_ERROR = 0x7F"
definition SPDM_ERROR_CODE_INVALID_REQUEST :: UINT8 where "SPDM_ERROR_CODE_INVALID_REQUEST = 0x01"
definition SPDM_ERROR_CODE_UNSUPPORTED_REQUEST :: UINT8 where
  "SPDM_ERROR_CODE_UNSUPPORTED_REQUEST = 0x07"

definition SPDM_CHALLENGE_REQUEST_NO_MEASUREMENT_SUMMARY_HASH :: UINT8 where
  "SPDM_CHALLENGE_REQUEST_NO_MEASUREMENT_SUMMARY_HASH = 0"
definition SPDM_CHALLENGE_REQUEST_TCB_COMPONENT_MEASUREMENT_HASH :: UINT8 where
  "SPDM_CHALLENGE_REQUEST_TCB_COMPONENT_MEASUREMENT_HASH = 1"
definition SPDM_CHALLENGE_REQUEST_ALL_MEASUREMENTS_HASH :: UINT8 where
  "SPDM_CHALLENGE_REQUEST_ALL_MEASUREMENTS_HASH = 0xFF"

definition SPDM_MEASUREMENT_BLOCK_MEASUREMENT_TYPE_IMMUTABLE_ROM :: UINT8 where
  "SPDM_MEASUREMENT_BLOCK_MEASUREMENT_TYPE_IMMUTABLE_ROM = 0"
definition SPDM_MEASUREMENT_BLOCK_MEASUREMENT_TYPE_MASK :: UINT8 where
  "SPDM_MEASUREMENT_BLOCK_MEASUREMENT_TYPE_MASK = 0x7"

definition SPDM_GET_CAPABILITIES_RESPONSE_FLAGS_CHAL_CAP :: UINT32 where
  "SPDM_GET_CAPABILITIES_RESPONSE_FLAGS_CHAL_CAP = 0x04"
definition SPDM_GET_CAPABILITIES_REQUEST_FLAGS_ENCRYPT_CAP :: UINT32 where
  "SPDM_GET_CAPABILITIES_REQUEST_FLAGS_ENCRYPT_CAP = 0x40"
definition SPDM_GET_CAPABILITIES_REQUEST_FLAGS_MAC_CAP :: UINT32 where
  "SPDM_GET_CAPABILITIES_REQUEST_FLAGS_MAC_CAP = 0x80"
definition SPDM_GET_CAPABILITIES_REQUEST_FLAGS_MUT_AUTH_CAP :: UINT32 where
  "SPDM_GET_CAPABILITIES_REQUEST_FLAGS_MUT_AUTH_CAP = 0x100"

definition SPDM_KEY_EXCHANGE_RESPONSE_MUT_AUTH_REQUESTED :: UINT8 where
  "SPDM_KEY_EXCHANGE_RESPONSE_MUT_AUTH_REQUESTED = 0x01"
definition SPDM_KEY_EXCHANGE_RESPONSE_MUT_AUTH_REQUESTED_WITH_ENCAP_REQUEST :: UINT8 where
  "SPDM_KEY_EXCHANGE_RESPONSE_MUT_AUTH_REQUESTED_WITH_ENCAP_REQUEST = 0x02"
definition SPDM_KEY_EXCHANGE_RESPONSE_MUT_AUTH_REQUESTED_WITH_GET_DIGESTS :: UINT8 where
  "SPDM_KEY_EXCHANGE_RESPONSE_MUT_AUTH_REQUESTED_WITH_GET_DIGESTS = 0x04"

definition SPDM_NEGOTIATE_ALGORITHMS_RECEIVE_FLAG :: UINT64 where
  "SPDM_NEGOTIATE_ALGORITHMS_RECEIVE_FLAG = 0x04"
definition SPDM_GET_CAPABILITIES_RECEIVE_FLAG :: UINT64 where
  "SPDM_GET_CAPABILITIES_RECEIVE_FLAG = 0x02"
definition SPDM_GET_DIGESTS_RECEIVE_FLAG :: UINT64 where
  "SPDM_GET_DIGESTS_RECEIVE_FLAG = 0x08"
definition SPDM_CHALLENGE_RECEIVE_FLAG :: UINT64 where
  "SPDM_CHALLENGE_RECEIVE_FLAG = 0x20"

definition SIZEOF_SPDM_MESSAGE_HEADER :: nat where "SIZEOF_SPDM_MESSAGE_HEADER = 4"
definition SIZEOF_SPDM_CHALLENGE_REQUEST :: nat where
  "SIZEOF_SPDM_CHALLENGE_REQUEST = SIZEOF_SPDM_MESSAGE_HEADER + SPDM_NONCE_SIZE"
definition SIZEOF_SPDM_CHALLENGE_AUTH_RESPONSE :: nat where
  "SIZEOF_SPDM_CHALLENGE_AUTH_RESPONSE = SIZEOF_SPDM_MESSAGE_HEADER"

definition SpdmConnectionStateAuthenticated :: UINT32 where
  "SpdmConnectionStateAuthenticated = 6"

definition SPDM_STATUS_SUCCESS :: UINT32 where "SPDM_STATUS_SUCCESS = 0"
definition SPDM_STATUS_ERROR_DEVICE_NO_CAPABILITIES :: UINT32 where
  "SPDM_STATUS_ERROR_DEVICE_NO_CAPABILITIES = 0x80000002"
definition SPDM_STATUS_ERROR_CERTIFICATE_FAILURE :: UINT32 where
  "SPDM_STATUS_ERROR_CERTIFICATE_FAILURE = 0x80000004"

section \<open>Managed buffer\<close>

text \<open>
  The header declares MANAGED_BUFFER as MaxBufferSize, BufferSize and the inline storage.
  The model keeps the bytes currently held as a list, so BufferSize is its length.
\<close>

record MANAGED_BUFFER =
  MaxBufferSize :: nat
  Buffer :: bytes

text \<open>
  Modelled from the spec: the bodies of InitManagedBuffer, AppendManagedBuffer,
  ResetManagedBuffer, GetManagedBufferSize and GetManagedBuffer are not among the sources
  (the header only declares them). Section 4.1: append fails when size + n exceeds the
  capacity; reset zeroes the length only. The header's comments give the status codes.
\<close>

definition InitManagedBuffer :: "nat \<Rightarrow> MANAGED_BUFFER" where
  "InitManagedBuffer MaxSize = \<lparr>MaxBufferSize = MaxSize, Buffer = []\<rparr>"

definition AppendManagedBuffer :: "MANAGED_BUFFER \<Rightarrow> bytes \<Rightarrow> RETURN_STATUS \<times> MANAGED_BUFFER" where
  "AppendManagedBuffer ManagedBuffer Data =
     (if length (Buffer ManagedBuffer) + length Data > MaxBufferSize ManagedBuffer
      then (RETURN_BUFFER_TOO_SMALL, ManagedBuffer)
      else (RETURN_SUCCESS, ManagedBuffer\<lparr>Buffer := Buffer ManagedBuffer @ Data\<rparr>))"

definition ResetManagedBuffer :: "MANAGED_BUFFER \<Rightarrow> MANAGED_BUFFER" where
  "ResetManagedBuffer ManagedBuffer = ManagedBuffer\<lparr>Buffer := []\<rparr>"

definition GetManagedBufferSize :: "MANAGED_BUFFER \<Rightarrow> nat" where
  "GetManagedBufferSize ManagedBuffer = length (Buffer ManagedBuffer)"

definition GetManagedBuffer :: "MANAGED_BUFFER \<Rightarrow> bytes" where
  "GetManagedBuffer ManagedBuffer = Buffer ManagedBuffer"

section \<open>The device context\<close>

record SPDM_DEVICE_CAPABILITY =
  CTExponent :: UINT8
  Flags :: UINT32

text \<open>MeasurementSpec is read by SpdmGenerateMeasurementSummaryHash; the structure has the
  seven fields of the header besides.\<close>

record SPDM_DEVICE_ALGORITHM =
  MeasurementSpec :: UINT8
  MeasurementHashAlgo :: UINT32
  BaseAsymAlgo :: UINT32
  BaseHashAlgo :: UINT32
  DHENamedGroup :: UINT16
  AEADCipherSuite :: UINT16
  ReqBaseAsymAlg :: UINT16
  KeySchedule :: UINT16

text \<open>
  A host buffer (pointer and size) is the list of its bytes; the empty list stands for
  size 0, where the pointer is never read. CertificateChain holds one entry per slot of the
  array, MAX_SPDM_SLOT_COUNT of them.
\<close>

record SPDM_LOCAL_CONTEXT =
  Local_Capability :: SPDM_DEVICE_CAPABILITY
  Local_Algorithm :: SPDM_DEVICE_ALGORITHM
  CertificateChain :: "bytes list"
  SlotCount :: UINT8
  ProvisionedSlotNum :: UINT8
  PeerRootCertHashProvision :: bytes
  PeerCertChainProvision :: bytes
  PskHint :: bytes
  OpaqueChallengeAuthRsp :: bytes
  OpaqueMeasurementRsp :: bytes
  BasicMutAuthRequested :: UINT8
  Local_MutAuthRequested :: UINT8

record SPDM_CONNECTION_INFO =
  ConnectionState :: UINT32
  Version :: "UINT8 list"
  Conn_Capability :: SPDM_DEVICE_CAPABILITY
  Conn_Algorithm :: SPDM_DEVICE_ALGORITHM
  PeerCertChainBuffer :: bytes
  LocalUsedCertChainBuffer :: bytes

record SPDM_TRANSCRIPT =
  MessageA :: MANAGED_BUFFER
  MessageB :: MANAGED_BUFFER
  MessageC :: MANAGED_BUFFER
  MessageMutB :: MANAGED_BUFFER
  MessageMutC :: MANAGED_BUFFER
  M1M2 :: MANAGED_BUFFER
  L1L2 :: MANAGED_BUFFER

datatype SPDM_SESSION_TYPE =
    SpdmSessionTypeNone
  | SpdmSessionTypeMacOnly
  | SpdmSessionTypeEncMac
  | SpdmSessionTypeMax

text \<open>
  Modelled from the spec: the secured-message context and its setters live in the secured
  message library, of which only the public header is among the sources. Section 3 lists
  what the context records; only the fields that SpdmSessionInfoInit sets are kept.
\<close>

record SPDM_SECURED_MESSAGE_CONTEXT =
  Secured_UsePsk :: bool
  Secured_SessionType :: SPDM_SESSION_TYPE
  Secured_BaseHashAlgo :: UINT32
  Secured_DHENamedGroup :: UINT16
  Secured_AEADCipherSuite :: UINT16
  Secured_KeySchedule :: UINT16
  Secured_PskHint :: bytes

definition SpdmSecuredMessageInitContext :: SPDM_SECURED_MESSAGE_CONTEXT where
  "SpdmSecuredMessageInitContext =
     \<lparr>Secured_UsePsk = False, Secured_SessionType = SpdmSessionTypeNone,
      Secured_BaseHashAlgo = 0, Secured_DHENamedGroup = 0, Secured_AEADCipherSuite = 0,
      Secured_KeySchedule = 0, Secured_PskHint = []\<rparr>"

record SPDM_SESSION_INFO =
  SessionId :: UINT32
  UsePsk :: bool
  MutAuthRequested :: UINT8
  MessageK :: MANAGED_BUFFER
  MessageF :: MANAGED_BUFFER
  SecuredMessageContext :: SPDM_SECURED_MESSAGE_CONTEXT

record SPDM_ENCAP_CONTEXT =
  Encap_ErrorState :: UINT32
  EncapState :: UINT32
  RequestId :: UINT8
  Encap_SlotNum :: UINT8
  Encap_MeasurementHashType :: UINT8
  CertificateChainBuffer :: MANAGED_BUFFER

text \<open>
  SPDM_DEVICE_CONTEXT without the callback pointers and the request caches, which none of
  the modelled functions reads or writes. SessionInfo is the array of
  MAX_SPDM_SESSION_COUNT slots: the loops over it run over the indices of the list.
\<close>

record SPDM_DEVICE_CONTEXT =
  ErrorState :: UINT32
  EncapContext :: SPDM_ENCAP_CONTEXT
  LocalContext :: SPDM_LOCAL_CONTEXT
  ConnectionInfo :: SPDM_CONNECTION_INFO
  Transcript :: SPDM_TRANSCRIPT
  SessionInfo :: "SPDM_SESSION_INFO list"
  LatestSessionId :: UINT32
  SpdmCmdReceiveState :: UINT64
  ResponseState :: UINT32
  CurrentToken :: UINT8
  RetryTimes :: UINT8

section \<open>Session registry (SpdmCommonLibContextData.c)\<close>

definition SpdmSessionInfoInit ::
  "SPDM_CONFIG \<Rightarrow> SPDM_DEVICE_CONTEXT \<Rightarrow> SPDM_SESSION_INFO \<Rightarrow> UINT32 \<Rightarrow> bool \<Rightarrow> SPDM_SESSION_INFO" where
  "SpdmSessionInfoInit Cfg SpdmContext Info Sid Psk =
     (let CapFlags = Flags (Conn_Capability (ConnectionInfo SpdmContext)) AND
            (SPDM_GET_CAPABILITIES_REQUEST_FLAGS_ENCRYPT_CAP OR
             SPDM_GET_CAPABILITIES_REQUEST_FLAGS_MAC_CAP);
          SessionType =
            (if CapFlags = 0 then SpdmSessionTypeNone
             else if CapFlags = (SPDM_GET_CAPABILITIES_REQUEST_FLAGS_ENCRYPT_CAP OR
                                 SPDM_GET_CAPABILITIES_REQUEST_FLAGS_MAC_CAP)
             then SpdmSessionTypeEncMac
             else if CapFlags = SPDM_GET_CAPABILITIES_REQUEST_FLAGS_MAC_CAP
             then SpdmSessionTypeMacOnly
             else SpdmSessionTypeMax);
          Alg = Conn_Algorithm (ConnectionInfo SpdmContext)
      in \<lparr>SessionId = Sid,
          UsePsk = Psk,
          MutAuthRequested = 0,
          MessageK = \<lparr>MaxBufferSize = MAX_SPDM_MESSAGE_BUFFER_SIZE Cfg, Buffer = []\<rparr>,
          MessageF = \<lparr>MaxBufferSize = MAX_SPDM_MESSAGE_BUFFER_SIZE Cfg, Buffer = []\<rparr>,
          SecuredMessageContext = SpdmSecuredMessageInitContext
            \<lparr>Secured_UsePsk := Psk,
             Secured_SessionType := SessionType,
             Secured_BaseHashAlgo := BaseHashAlgo Alg,
             Secured_DHENamedGroup := DHENamedGroup Alg,
             Secured_AEADCipherSuite := AEADCipherSuite Alg,
             Secured_KeySchedule := KeySchedule Alg,
             Secured_PskHint := PskHint (LocalContext SpdmContext)\<rparr>\<rparr>)"

text \<open>
  The loops \<open>for (Index = 0; Index < MAX_SPDM_SESSION_COUNT; Index++) if (...) return\<close>:
  the first index from \<open>Index\<close> on whose slot passes the test, or None when the loop runs
  to its end.
\<close>

fun FirstIndexFrom :: "nat \<Rightarrow> ('a \<Rightarrow> bool) \<Rightarrow> 'a list \<Rightarrow> nat option" where
  "FirstIndexFrom Index P [] = None"
| "FirstIndexFrom Index P (x # xs) =
     (if P x then Some Index else FirstIndexFrom (Suc Index) P xs)"

text \<open>
  The three ways SpdmAssignSessionId and SpdmFreeSessionId return NULL, named after the
  debug message of each; SpdmFreeSessionId prints "MAX SessionId" when the id is not found.
\<close>

datatype SESSION_ERROR = InvalidSessionId | DuplicatedSessionId | MaxSessionId

definition SpdmGetSessionInfoViaSessionId :: "SPDM_DEVICE_CONTEXT \<Rightarrow> UINT32 \<Rightarrow> nat option" where
  "SpdmGetSessionInfoViaSessionId SpdmContext Sid =
     (if Sid = INVALID_SESSION_ID then None
      else FirstIndexFrom 0 (\<lambda>s. SessionId s = Sid) (SessionInfo SpdmContext))"

definition SpdmAssignSessionId ::
  "SPDM_CONFIG \<Rightarrow> SPDM_DEVICE_CONTEXT \<Rightarrow> UINT32 \<Rightarrow> bool \<Rightarrow> (SESSION_ERROR + nat) \<times> SPDM_DEVICE_CONTEXT" where
  "SpdmAssignSessionId Cfg SpdmContext Sid Psk =
     (if Sid = INVALID_SESSION_ID then (Inl InvalidSessionId, SpdmContext)
      else case FirstIndexFrom 0 (\<lambda>s. SessionId s = Sid) (SessionInfo SpdmContext) of
        Some _ \<Rightarrow> (Inl DuplicatedSessionId, SpdmContext)
      | None \<Rightarrow>
          (case FirstIndexFrom 0 (\<lambda>s. SessionId s = INVALID_SESSION_ID) (SessionInfo SpdmContext) of
             Some Index \<Rightarrow>
               (Inr Index,
                SpdmContext
                  \<lparr>SessionInfo := (SessionInfo SpdmContext)
                     [Index := SpdmSessionInfoInit Cfg SpdmContext (SessionInfo SpdmContext ! Index) Sid Psk],
                   LatestSessionId := Sid\<rparr>)
           | None \<Rightarrow> (Inl MaxSessionId, SpdmContext)))"

text \<open>
  The allocators return a UINT16. When the loop finds no slot they assert (in a debug build)
  and return the matching half of INVALID_SESSION_ID; the model gives the returned value.
  \<open>(UINT16)(0xFFFF - Index)\<close> is the subtraction modulo 2^16.
\<close>

definition SpdmAllocateReqSessionId :: "SPDM_DEVICE_CONTEXT \<Rightarrow> UINT16" where
  "SpdmAllocateReqSessionId SpdmContext =
     (case FirstIndexFrom 0
             (\<lambda>s. SessionId s AND 0xFFFF0000 = INVALID_SESSION_ID AND 0xFFFF0000)
             (SessionInfo SpdmContext) of
        Some Index \<Rightarrow> 0xFFFF - of_nat Index
      | None \<Rightarrow> ucast (drop_bit 16 (INVALID_SESSION_ID AND 0xFFFF0000)))"

definition SpdmAllocateRspSessionId :: "SPDM_DEVICE_CONTEXT \<Rightarrow> UINT16" where
  "SpdmAllocateRspSessionId SpdmContext =
     (case FirstIndexFrom 0
             (\<lambda>s. SessionId s AND 0xFFFF = INVALID_SESSION_ID AND 0xFFFF)
             (SessionInfo SpdmContext) of
        Some Index \<Rightarrow> 0xFFFF - of_nat Index
      | None \<Rightarrow> ucast (INVALID_SESSION_ID AND 0xFFFF))"

definition SpdmFreeSessionId ::
  "SPDM_CONFIG \<Rightarrow> SPDM_DEVICE_CONTEXT \<Rightarrow> UINT32 \<Rightarrow> (SESSION_ERROR + nat) \<times> SPDM_DEVICE_CONTEXT" where
  "SpdmFreeSessionId Cfg SpdmContext Sid =
     (if Sid = INVALID_SESSION_ID then (Inl InvalidSessionId, SpdmContext)
      else case FirstIndexFrom 0 (\<lambda>s. SessionId s = Sid) (SessionInfo SpdmContext) of
        Some Index \<Rightarrow>
          (Inr Index,
           SpdmContext
             \<lparr>SessionInfo := (SessionInfo SpdmContext)
                [Index := SpdmSessionInfoInit Cfg SpdmContext (SessionInfo SpdmContext ! Index)
                            INVALID_SESSION_ID False]\<rparr>)
      | None \<Rightarrow> (Inl MaxSessionId, SpdmContext))"

section \<open>The get/set data API (SpdmCommonLibContextData.c)\<close>

definition SpdmInitEncapEnv ::
  "SPDM_DEVICE_CONTEXT \<Rightarrow> UINT8 \<Rightarrow> UINT8 \<Rightarrow> UINT8 \<Rightarrow> SPDM_DEVICE_CONTEXT" where
  "SpdmInitEncapEnv SpdmContext MutAuth SlotNum MeasurementHashType =
     SpdmContext\<lparr>EncapContext := (EncapContext SpdmContext)
       \<lparr>Encap_ErrorState := 0, EncapState := 0, RequestId := 0,
        Encap_SlotNum := SlotNum, Encap_MeasurementHashType := MeasurementHashType\<rparr>\<rparr>"

definition IsDebugOnlyData :: "SPDM_CONFIG \<Rightarrow> SPDM_DATA_TYPE \<Rightarrow> bool" where
  "IsDebugOnlyData Cfg DataType = (SPDM_DATA_TYPE_VALUE Cfg DataType \<ge> 0x80000000)"

definition NeedSessionInfoForData :: "SPDM_DATA_TYPE \<Rightarrow> bool" where
  "NeedSessionInfoForData DataType = False"

datatype SPDM_DATA_LOCATION =
    SpdmDataLocationLocal
  | SpdmDataLocationConnection
  | SpdmDataLocationSession
  | SpdmDataLocationMax

text \<open>SPDM_DATA_PARAMETER: the location and the four bytes of AdditionalData.\<close>

record SPDM_DATA_PARAMETER =
  Location :: SPDM_DATA_LOCATION
  AdditionalData :: "UINT8 \<times> UINT8 \<times> UINT8 \<times> UINT8"

definition AdditionalData0 :: "SPDM_DATA_PARAMETER \<Rightarrow> UINT8" where
  "AdditionalData0 Parameter = (case AdditionalData Parameter of (a, b, c, d) \<Rightarrow> a)"

definition AdditionalData1 :: "SPDM_DATA_PARAMETER \<Rightarrow> UINT8" where
  "AdditionalData1 Parameter = (case AdditionalData Parameter of (a, b, c, d) \<Rightarrow> b)"

definition AdditionalDataUint32 :: "SPDM_DATA_PARAMETER \<Rightarrow> UINT32" where
  "AdditionalDataUint32 Parameter =
     (case AdditionalData Parameter of (a, b, c, d) \<Rightarrow> ReadUint32 [a, b, c, d])"

text \<open>
  The test on the session that opens both SpdmSetData and SpdmGetData; None when it lets
  the call go on. NeedSessionInfoForData is constantly FALSE, so it always does.
\<close>

definition SessionInfoCheck ::
  "SPDM_DEVICE_CONTEXT \<Rightarrow> SPDM_DATA_TYPE \<Rightarrow> SPDM_DATA_PARAMETER \<Rightarrow> RETURN_STATUS option" where
  "SessionInfoCheck SpdmContext DataType Parameter =
     (if NeedSessionInfoForData DataType then
        (if Location Parameter \<noteq> SpdmDataLocationSession then Some RETURN_INVALID_PARAMETER
         else if SpdmGetSessionInfoViaSessionId SpdmContext (AdditionalDataUint32 Parameter) = None
         then Some RETURN_INVALID_PARAMETER
         else None)
      else None)"

definition SetLocalAlgorithm ::
  "SPDM_DEVICE_CONTEXT \<Rightarrow> (SPDM_DEVICE_ALGORITHM \<Rightarrow> SPDM_DEVICE_ALGORITHM) \<Rightarrow> SPDM_DEVICE_CONTEXT" where
  "SetLocalAlgorithm SpdmContext f =
     SpdmContext\<lparr>LocalContext := (LocalContext SpdmContext)
       \<lparr>Local_Algorithm := f (Local_Algorithm (LocalContext SpdmContext))\<rparr>\<rparr>"

definition SetLocalCapability ::
  "SPDM_DEVICE_CONTEXT \<Rightarrow> (SPDM_DEVICE_CAPABILITY \<Rightarrow> SPDM_DEVICE_CAPABILITY) \<Rightarrow> SPDM_DEVICE_CONTEXT" where
  "SetLocalCapability SpdmContext f =
     SpdmContext\<lparr>LocalContext := (LocalContext SpdmContext)
       \<lparr>Local_Capability := f (Local_Capability (LocalContext SpdmContext))\<rparr>\<rparr>"

text \<open>
  SpdmSetData. Data is the buffer of DataSize bytes the caller passes, so DataSize is its
  length; the scalar cases read it through a cast of the pointer.
\<close>

fun SpdmSetDataSwitch ::
  "SPDM_CONFIG \<Rightarrow> SPDM_DEVICE_CONTEXT \<Rightarrow> SPDM_DATA_TYPE \<Rightarrow> SPDM_DATA_PARAMETER \<Rightarrow> bytes
     \<Rightarrow> RETURN_STATUS \<times> SPDM_DEVICE_CONTEXT" where
  "SpdmSetDataSwitch Cfg c SpdmDataCapabilityFlags Parameter Data =
     (if length Data \<noteq> 4 then (RETURN_INVALID_PARAMETER, c)
      else (RETURN_SUCCESS, SetLocalCapability c (\<lambda>cap. cap\<lparr>Flags := ReadUint32 Data\<rparr>)))"
| "SpdmSetDataSwitch Cfg c SpdmDataCapabilityCTExponent Parameter Data =
     (if length Data \<noteq> 1 then (RETURN_INVALID_PARAMETER, c)
      else (RETURN_SUCCESS, SetLocalCapability c (\<lambda>cap. cap\<lparr>CTExponent := hd Data\<rparr>)))"
| "SpdmSetDataSwitch Cfg c SpdmDataMeasurementHashAlgo Parameter Data =
     (if length Data \<noteq> 4 then (RETURN_INVALID_PARAMETER, c)
      else (RETURN_SUCCESS, SetLocalAlgorithm c (\<lambda>a. a\<lparr>MeasurementHashAlgo := ReadUint32 Data\<rparr>)))"
| "SpdmSetDataSwitch Cfg c SpdmDataBaseAsymAlgo Parameter Data =
     (if length Data \<noteq> 4 then (RETURN_INVALID_PARAMETER, c)
      else (RETURN_SUCCESS, SetLocalAlgorithm c (\<lambda>a. a\<lparr>BaseAsymAlgo := ReadUint32 Data\<rparr>)))"
| "SpdmSetDataSwitch Cfg c SpdmDataBaseHashAlgo Parameter Data =
     (if length Data \<noteq> 4 then (RETURN_INVALID_PARAMETER, c)
      else (RETURN_SUCCESS, SetLocalAlgorithm c (\<lambda>a. a\<lparr>BaseHashAlgo := ReadUint32 Data\<rparr>)))"
| "SpdmSetDataSwitch Cfg c SpdmDataDHENamedGroup Parameter Data =
     (if length Data \<noteq> 2 then (RETURN_INVALID_PARAMETER, c)
      else (RETURN_SUCCESS, SetLocalAlgorithm c (\<lambda>a. a\<lparr>DHENamedGroup := ReadUint16 Data\<rparr>)))"
| "SpdmSetDataSwitch Cfg c SpdmDataAEADCipherSuite Parameter Data =
     (if length Data \<noteq> 2 then (RETURN_INVALID_PARAMETER, c)
      else (RETURN_SUCCESS, SetLocalAlgorithm c (\<lambda>a. a\<lparr>AEADCipherSuite := ReadUint16 Data\<rparr>)))"
| "SpdmSetDataSwitch Cfg c SpdmDataReqBaseAsymAlg Parameter Data =
     (if length Data \<noteq> 2 then (RETURN_INVALID_PARAMETER, c)
      else (RETURN_SUCCESS, SetLocalAlgorithm c (\<lambda>a. a\<lparr>ReqBaseAsymAlg := ReadUint16 Data\<rparr>)))"
| "SpdmSetDataSwitch Cfg c SpdmDataKeySchedule Parameter Data =
     (if length Data \<noteq> 2 then (RETURN_INVALID_PARAMETER, c)
      else (RETURN_SUCCESS, SetLocalAlgorithm c (\<lambda>a. a\<lparr>KeySchedule := ReadUint16 Data\<rparr>)))"
| "SpdmSetDataSwitch Cfg c SpdmDataResponseState Parameter Data =
     (if length Data \<noteq> 4 then (RETURN_INVALID_PARAMETER, c)
      else (RETURN_SUCCESS, c\<lparr>ResponseState := ReadUint32 Data\<rparr>))"
| "SpdmSetDataSwitch Cfg c SpdmDataPeerPublicRootCertHash Parameter Data =
     (RETURN_SUCCESS, c\<lparr>LocalContext := (LocalContext c)\<lparr>PeerRootCertHashProvision := Data\<rparr>\<rparr>)"
| "SpdmSetDataSwitch Cfg c SpdmDataPeerPublicCertChains Parameter Data =
     (RETURN_SUCCESS, c\<lparr>LocalContext := (LocalContext c)\<lparr>PeerCertChainProvision := Data\<rparr>\<rparr>)"
| "SpdmSetDataSwitch Cfg c SpdmDataSlotCount Parameter Data =
     (if length Data \<noteq> 1 then (RETURN_INVALID_PARAMETER, c)
      else if unat (hd Data) > MAX_SPDM_SLOT_COUNT Cfg then (RETURN_INVALID_PARAMETER, c)
      else (RETURN_SUCCESS, c\<lparr>LocalContext := (LocalContext c)\<lparr>SlotCount := hd Data\<rparr>\<rparr>))"
| "SpdmSetDataSwitch Cfg c SpdmDataPublicCertChains Parameter Data =
     (if AdditionalData0 Parameter \<ge> SlotCount (LocalContext c) then (RETURN_INVALID_PARAMETER, c)
      else (RETURN_SUCCESS,
            c\<lparr>LocalContext := (LocalContext c)
              \<lparr>CertificateChain :=
                 (CertificateChain (LocalContext c))[unat (AdditionalData0 Parameter) := Data]\<rparr>\<rparr>))"
| "SpdmSetDataSwitch Cfg c SpdmDataBasicMutAuthRequested Parameter Data =
     (if length Data \<noteq> 1 then (RETURN_INVALID_PARAMETER, c)
      else (RETURN_SUCCESS, c\<lparr>LocalContext := (LocalContext c)\<lparr>BasicMutAuthRequested := hd Data\<rparr>\<rparr>))"
| "SpdmSetDataSwitch Cfg c SpdmDataMutAuthRequested Parameter Data =
     (if length Data \<noteq> 1 then (RETURN_INVALID_PARAMETER, c)
      else if \<not> (hd Data = 0 \<or>
                  hd Data = (SPDM_KEY_EXCHANGE_RESPONSE_MUT_AUTH_REQUESTED OR
                             SPDM_KEY_EXCHANGE_RESPONSE_MUT_AUTH_REQUESTED_WITH_ENCAP_REQUEST) \<or>
                  hd Data = (SPDM_KEY_EXCHANGE_RESPONSE_MUT_AUTH_REQUESTED OR
                             SPDM_KEY_EXCHANGE_RESPONSE_MUT_AUTH_REQUESTED_WITH_GET_DIGESTS))
      then (RETURN_INVALID_PARAMETER, c)
      else (RETURN_SUCCESS,
            SpdmInitEncapEnv
              (c\<lparr>LocalContext := (LocalContext c)\<lparr>Local_MutAuthRequested := hd Data\<rparr>\<rparr>)
              (hd Data) (AdditionalData0 Parameter) (AdditionalData1 Parameter)))"
| "SpdmSetDataSwitch Cfg c SpdmDataPskHint Parameter Data =
     (if length Data > MAX_SPDM_PSK_HINT_LENGTH Cfg then (RETURN_INVALID_PARAMETER, c)
      else (RETURN_SUCCESS, c\<lparr>LocalContext := (LocalContext c)\<lparr>PskHint := Data\<rparr>\<rparr>))"
| "SpdmSetDataSwitch Cfg c SpdmDataConnectionState Parameter Data = (RETURN_UNSUPPORTED, c)"
| "SpdmSetDataSwitch Cfg c (SpdmDataOther v) Parameter Data = (RETURN_UNSUPPORTED, c)"

definition SpdmSetData ::
  "SPDM_CONFIG \<Rightarrow> SPDM_DEVICE_CONTEXT \<Rightarrow> SPDM_DATA_TYPE \<Rightarrow> SPDM_DATA_PARAMETER \<Rightarrow> bytes
     \<Rightarrow> RETURN_STATUS \<times> SPDM_DEVICE_CONTEXT" where
  "SpdmSetData Cfg SpdmContext DataType Parameter Data =
     (if IsDebugOnlyData Cfg DataType then (RETURN_UNSUPPORTED, SpdmContext)
      else case SessionInfoCheck SpdmContext DataType Parameter of
        Some Status \<Rightarrow> (Status, SpdmContext)
      | None \<Rightarrow> SpdmSetDataSwitch Cfg SpdmContext DataType Parameter Data)"

text \<open>
  SpdmGetData: the switch selects the target field, returned here as its bytes, or the
  status with which the switch leaves the function.
\<close>

definition ConnectionTarget ::
  "SPDM_DATA_PARAMETER \<Rightarrow> bytes \<Rightarrow> RETURN_STATUS + bytes" where
  "ConnectionTarget Parameter Target =
     (if Location Parameter \<noteq> SpdmDataLocationConnection then Inl RETURN_INVALID_PARAMETER
      else Inr Target)"

fun SpdmGetDataSwitch ::
  "SPDM_DEVICE_CONTEXT \<Rightarrow> SPDM_DATA_TYPE \<Rightarrow> SPDM_DATA_PARAMETER \<Rightarrow> RETURN_STATUS + bytes" where
  "SpdmGetDataSwitch c SpdmDataCapabilityFlags Parameter =
     ConnectionTarget Parameter (WriteUint32 (Flags (Conn_Capability (ConnectionInfo c))))"
| "SpdmGetDataSwitch c SpdmDataCapabilityCTExponent Parameter =
     ConnectionTarget Parameter [CTExponent (Conn_Capability (ConnectionInfo c))]"
| "SpdmGetDataSwitch c SpdmDataMeasurementHashAlgo Parameter =
     ConnectionTarget Parameter (WriteUint32 (MeasurementHashAlgo (Conn_Algorithm (ConnectionInfo c))))"
| "SpdmGetDataSwitch c SpdmDataBaseAsymAlgo Parameter =
     ConnectionTarget Parameter (WriteUint32 (BaseAsymAlgo (Conn_Algorithm (ConnectionInfo c))))"
| "SpdmGetDataSwitch c SpdmDataBaseHashAlgo Parameter =
     ConnectionTarget Parameter (WriteUint32 (BaseHashAlgo (Conn_Algorithm (ConnectionInfo c))))"
| "SpdmGetDataSwitch c SpdmDataDHENamedGroup Parameter =
     ConnectionTarget Parameter (WriteUint16 (DHENamedGroup (Conn_Algorithm (ConnectionInfo c))))"
| "SpdmGetDataSwitch c SpdmDataAEADCipherSuite Parameter =
     ConnectionTarget Parameter (WriteUint16 (AEADCipherSuite (Conn_Algorithm (ConnectionInfo c))))"
| "SpdmGetDataSwitch c SpdmDataReqBaseAsymAlg Parameter =
     ConnectionTarget Parameter (WriteUint16 (ReqBaseAsymAlg (Conn_Algorithm (ConnectionInfo c))))"
| "SpdmGetDataSwitch c SpdmDataKeySchedule Parameter =
     ConnectionTarget Parameter (WriteUint16 (KeySchedule (Conn_Algorithm (ConnectionInfo c))))"
| "SpdmGetDataSwitch c SpdmDataConnectionState Parameter =
     ConnectionTarget Parameter (WriteUint32 (ConnectionState (ConnectionInfo c)))"
| "SpdmGetDataSwitch c SpdmDataResponseState Parameter = Inr (WriteUint32 (ResponseState c))"
| "SpdmGetDataSwitch c SpdmDataPeerPublicRootCertHash Parameter = Inl RETURN_UNSUPPORTED"
| "SpdmGetDataSwitch c SpdmDataPeerPublicCertChains Parameter = Inl RETURN_UNSUPPORTED"
| "SpdmGetDataSwitch c SpdmDataSlotCount Parameter = Inl RETURN_UNSUPPORTED"
| "SpdmGetDataSwitch c SpdmDataPublicCertChains Parameter = Inl RETURN_UNSUPPORTED"
| "SpdmGetDataSwitch c SpdmDataBasicMutAuthRequested Parameter = Inl RETURN_UNSUPPORTED"
| "SpdmGetDataSwitch c SpdmDataMutAuthRequested Parameter = Inl RETURN_UNSUPPORTED"
| "SpdmGetDataSwitch c SpdmDataPskHint Parameter = Inl RETURN_UNSUPPORTED"
| "SpdmGetDataSwitch c (SpdmDataOther v) Parameter = Inl RETURN_UNSUPPORTED"

text \<open>
  The result of SpdmGetData: the status, the bytes copied to Data (None when nothing is
  copied) and the value left in *DataSize. DataSize is the value of *DataSize on entry.
\<close>

definition SpdmGetData ::
  "SPDM_CONFIG \<Rightarrow> SPDM_DEVICE_CONTEXT \<Rightarrow> SPDM_DATA_TYPE \<Rightarrow> SPDM_DATA_PARAMETER \<Rightarrow> nat
     \<Rightarrow> RETURN_STATUS \<times> bytes option \<times> nat" where
  "SpdmGetData Cfg SpdmContext DataType Parameter DataSize =
     (if IsDebugOnlyData Cfg DataType then (RETURN_UNSUPPORTED, None, DataSize)
      else case SessionInfoCheck SpdmContext DataType Parameter of
        Some Status \<Rightarrow> (Status, None, DataSize)
      | None \<Rightarrow>
          (case SpdmGetDataSwitch SpdmContext DataType Parameter of
             Inl Status \<Rightarrow> (Status, None, DataSize)
           | Inr TargetData \<Rightarrow>
               (if DataSize < length TargetData
                then (RETURN_BUFFER_TOO_SMALL, None, length TargetData)
                else (RETURN_SUCCESS, Some TargetData, length TargetData))))"

definition SpdmIsVersionSupported :: "SPDM_DEVICE_CONTEXT \<Rightarrow> UINT8 \<Rightarrow> bool" where
  "SpdmIsVersionSupported SpdmContext V = (V \<in> set (Version (ConnectionInfo SpdmContext)))"

section \<open>Crypto services (SpdmCommonLibCryptoService.c)\<close>

text \<open>
  A measurement block as SpdmMeasurementCollectionFunc returns it: the common header
  (index, measurement specification, MeasurementSize) and the DMTF header (value type,
  value size) followed by the value. The blocks are well formed, as the function asserts:
  DMTFSpecMeasurementValueSize is the length of the value and MeasurementSize is the size of
  the DMTF header, 3 bytes, plus the value.
\<close>

record SPDM_MEASUREMENT_BLOCK_DMTF =
  Block_Index :: UINT8
  Block_MeasurementSpecification :: UINT8
  DMTFSpecMeasurementValueType :: UINT8
  DMTFSpecMeasurementValue :: bytes

definition MeasurementSize :: "SPDM_MEASUREMENT_BLOCK_DMTF \<Rightarrow> nat" where
  "MeasurementSize Block = 3 + length (DMTFSpecMeasurementValue Block)"

text \<open>The MeasurementSize bytes that start at the DMTF header of the block.\<close>

definition MeasurementBlockDmtfBytes :: "SPDM_MEASUREMENT_BLOCK_DMTF \<Rightarrow> bytes" where
  "MeasurementBlockDmtfBytes Block =
     DMTFSpecMeasurementValueType Block #
     WriteUint16 (of_nat (length (DMTFSpecMeasurementValue Block))) @
     DMTFSpecMeasurementValue Block"

text \<open>
  Modelled from the spec: the crypto capability interface of section 4.2 and the host
  callbacks, whose implementations are not among the sources. A sign or key-extraction
  function gives None where the C function returns FALSE; the measurement collection gives
  the blocks it wrote, or None for FALSE. X509GetCertFromCertChain is given its pointer
  argument as the buffer the pointer was derived from and the offset added to it, and its
  size argument as the UINTN the caller computed: with these it sees a pointer past the
  buffer and a wrapped size as the caller passes them.
\<close>

record SPDM_CRYPTO =
  GetSpdmHashSize :: "UINT32 \<Rightarrow> nat"
  SpdmHashAll :: "UINT32 \<Rightarrow> bytes \<Rightarrow> bytes"
  GetSpdmAsymSize :: "UINT32 \<Rightarrow> nat"
  GetSpdmReqAsymSize :: "UINT16 \<Rightarrow> nat"
  SpdmRequesterDataSignFunc :: "UINT16 \<Rightarrow> bytes \<Rightarrow> bytes option"
  SpdmResponderDataSignFunc :: "UINT32 \<Rightarrow> bytes \<Rightarrow> bytes option"
  X509GetCertFromCertChain :: "bytes \<Rightarrow> nat \<Rightarrow> nat \<Rightarrow> bytes option"
  SpdmAsymGetPublicKeyFromX509 :: "UINT32 \<Rightarrow> bytes \<Rightarrow> bytes option"
  SpdmAsymVerify :: "UINT32 \<Rightarrow> bytes \<Rightarrow> bytes \<Rightarrow> bytes \<Rightarrow> bool"
  SpdmReqAsymGetPublicKeyFromX509 :: "UINT16 \<Rightarrow> bytes \<Rightarrow> bytes option"
  SpdmReqAsymVerify :: "UINT16 \<Rightarrow> bytes \<Rightarrow> bytes \<Rightarrow> bytes \<Rightarrow> bool"
  SpdmMeasurementCollectionFunc :: "UINT8 \<Rightarrow> UINT32 \<Rightarrow> SPDM_MEASUREMENT_BLOCK_DMTF list option"
  SpdmHmacAllWithResponseFinishedKey :: "SPDM_SECURED_MESSAGE_CONTEXT \<Rightarrow> bytes \<Rightarrow> bytes"

text \<open>sizeof(SPDM_CERT_CHAIN): the two 16-bit fields Length and Reserved.\<close>

definition SIZEOF_SPDM_CERT_CHAIN :: nat where "SIZEOF_SPDM_CERT_CHAIN = 4"

text \<open>
  The pattern \<open>SpdmHashAll (Algo, Msg, Size, HashData)\<close> followed by a use of the first
  HashSize bytes of HashData. A hash function of the interface writes exactly HashSize
  bytes, and then these are its output.
\<close>

definition HashData :: "SPDM_CRYPTO \<Rightarrow> SPDM_DEVICE_CONTEXT \<Rightarrow> bytes \<Rightarrow> bytes" where
  "HashData Crypto SpdmContext Msg =
     (let Algo = BaseHashAlgo (Conn_Algorithm (ConnectionInfo SpdmContext))
      in take (GetSpdmHashSize Crypto Algo) (SpdmHashAll Crypto Algo Msg))"

text \<open>SpdmGenerateCertChainHash: None where SlotIndex lies outside the array
  CertificateChain, a read the C code leaves undefined.\<close>

definition SpdmGenerateCertChainHash ::
  "SPDM_CRYPTO \<Rightarrow> SPDM_DEVICE_CONTEXT \<Rightarrow> nat \<Rightarrow> bytes option" where
  "SpdmGenerateCertChainHash Crypto SpdmContext SlotIndex =
     (if SlotIndex < length (CertificateChain (LocalContext SpdmContext))
      then Some (SpdmHashAll Crypto (BaseHashAlgo (Conn_Algorithm (ConnectionInfo SpdmContext)))
                   (CertificateChain (LocalContext SpdmContext) ! SlotIndex))
      else None)"

definition SetTranscript ::
  "SPDM_DEVICE_CONTEXT \<Rightarrow> (SPDM_TRANSCRIPT \<Rightarrow> SPDM_TRANSCRIPT) \<Rightarrow> SPDM_DEVICE_CONTEXT" where
  "SetTranscript SpdmContext f = SpdmContext\<lparr>Transcript := f (Transcript SpdmContext)\<rparr>"

text \<open>
  SpdmGenerateChallengeAuthSignature returns the signature, or None for FALSE, and the
  context with the transcript as the appends left it. Each append that fails ends the
  function with the buffers appended so far.
\<close>

definition SpdmGenerateChallengeAuthSignature ::
  "SPDM_CRYPTO \<Rightarrow> SPDM_DEVICE_CONTEXT \<Rightarrow> bool \<Rightarrow> bytes \<Rightarrow> bytes option \<times> SPDM_DEVICE_CONTEXT" where
  "SpdmGenerateChallengeAuthSignature Crypto c IsRequester ResponseMessage =
     (if IsRequester then
        (case AppendManagedBuffer (MessageMutC (Transcript c)) ResponseMessage of (Status1, MutC1) \<Rightarrow>
         if RETURN_ERROR Status1 then (None, c) else
         let c1 = SetTranscript c (\<lambda>t. t\<lparr>MessageMutC := MutC1\<rparr>) in
         case AppendManagedBuffer (M1M2 (Transcript c1))
                (GetManagedBuffer (MessageMutB (Transcript c1))) of (Status2, M1) \<Rightarrow>
         if RETURN_ERROR Status2 then (None, c1) else
         let c2 = SetTranscript c1 (\<lambda>t. t\<lparr>M1M2 := M1\<rparr>) in
         case AppendManagedBuffer (M1M2 (Transcript c2))
                (GetManagedBuffer (MessageMutC (Transcript c2))) of (Status3, M2) \<Rightarrow>
         if RETURN_ERROR Status3 then (None, c2) else
         let c3 = SetTranscript c2 (\<lambda>t. t\<lparr>M1M2 := M2\<rparr>) in
         (SpdmRequesterDataSignFunc Crypto (ReqBaseAsymAlg (Conn_Algorithm (ConnectionInfo c3)))
            (HashData Crypto c3 (GetManagedBuffer (M1M2 (Transcript c3)))), c3))
      else
        (case AppendManagedBuffer (MessageC (Transcript c)) ResponseMessage of (Status1, C1) \<Rightarrow>
         if RETURN_ERROR Status1 then (None, c) else
         let c1 = SetTranscript c (\<lambda>t. t\<lparr>MessageC := C1\<rparr>) in
         case AppendManagedBuffer (M1M2 (Transcript c1))
                (GetManagedBuffer (MessageA (Transcript c1))) of (Status2, M1) \<Rightarrow>
         if RETURN_ERROR Status2 then (None, c1) else
         let c2 = SetTranscript c1 (\<lambda>t. t\<lparr>M1M2 := M1\<rparr>) in
         case AppendManagedBuffer (M1M2 (Transcript c2))
                (GetManagedBuffer (MessageB (Transcript c2))) of (Status3, M2) \<Rightarrow>
         if RETURN_ERROR Status3 then (None, c2) else
         let c3 = SetTranscript c2 (\<lambda>t. t\<lparr>M1M2 := M2\<rparr>) in
         case AppendManagedBuffer (M1M2 (Transcript c3))
                (GetManagedBuffer (MessageC (Transcript c3))) of (Status4, M3) \<Rightarrow>
         if RETURN_ERROR Status4 then (None, c3) else
         let c4 = SetTranscript c3 (\<lambda>t. t\<lparr>M1M2 := M3\<rparr>) in
         (SpdmResponderDataSignFunc Crypto (BaseAsymAlgo (Conn_Algorithm (ConnectionInfo c4)))
            (HashData Crypto c4 (GetManagedBuffer (M1M2 (Transcript c4)))), c4)))"

text \<open>The peer certificate chain the verification functions use: the one received, else
  the one provisioned, else none.\<close>

definition PeerCertChain :: "SPDM_DEVICE_CONTEXT \<Rightarrow> bytes option" where
  "PeerCertChain SpdmContext =
     (if length (PeerCertChainBuffer (ConnectionInfo SpdmContext)) \<noteq> 0
      then Some (PeerCertChainBuffer (ConnectionInfo SpdmContext))
      else if length (PeerCertChainProvision (LocalContext SpdmContext)) \<noteq> 0
      then Some (PeerCertChainProvision (LocalContext SpdmContext))
      else None)"

definition SpdmVerifyCertificateChainHash ::
  "SPDM_CRYPTO \<Rightarrow> SPDM_DEVICE_CONTEXT \<Rightarrow> bytes \<Rightarrow> bool" where
  "SpdmVerifyCertificateChainHash Crypto SpdmContext CertificateChainHash =
     (case PeerCertChain SpdmContext of
        None \<Rightarrow> False
      | Some CertBuffer \<Rightarrow>
          (let Algo = BaseHashAlgo (Conn_Algorithm (ConnectionInfo SpdmContext));
               HashSize = GetSpdmHashSize Crypto Algo;
               CertBufferHash = SpdmHashAll Crypto Algo CertBuffer
           in if HashSize \<noteq> length CertificateChainHash then False
              else if CertificateChainHash \<noteq> take (length CertificateChainHash) CertBufferHash
              then False
              else True))"

text \<open>Subtraction of UINTN values, which are 64 bits wide on the X64 target: the
  difference wraps where the second operand is the larger.\<close>

definition UINTN_Sub :: "nat \<Rightarrow> nat \<Rightarrow> nat" where
  "UINTN_Sub a b = nat ((int a - int b) mod 2 ^ 64)"

text \<open>
  SpdmVerifyChallengeAuthSignature hashes M1M2 as it stands. The X.509 chain is the peer
  chain after its header of sizeof(SPDM_CERT_CHAIN) + HashSize bytes: the code adds the
  header size to the pointer and subtracts it from the size with no test that the chain
  is that long.
\<close>

definition SpdmVerifyChallengeAuthSignature ::
  "SPDM_CRYPTO \<Rightarrow> SPDM_DEVICE_CONTEXT \<Rightarrow> bool \<Rightarrow> bytes \<Rightarrow> bool" where
  "SpdmVerifyChallengeAuthSignature Crypto c IsRequester SignData =
     (let Alg = Conn_Algorithm (ConnectionInfo c);
          HashSize = GetSpdmHashSize Crypto (BaseHashAlgo Alg);
          Hash = HashData Crypto c (GetManagedBuffer (M1M2 (Transcript c)))
      in case PeerCertChain c of
           None \<Rightarrow> False
         | Some Chain \<Rightarrow>
             (case X509GetCertFromCertChain Crypto Chain (SIZEOF_SPDM_CERT_CHAIN + HashSize)
                     (UINTN_Sub (length Chain) (SIZEOF_SPDM_CERT_CHAIN + HashSize)) of
                None \<Rightarrow> False
              | Some CertBuffer \<Rightarrow>
                  (if IsRequester then
                     (case SpdmAsymGetPublicKeyFromX509 Crypto (BaseAsymAlgo Alg) CertBuffer of
                        None \<Rightarrow> False
                      | Some Key \<Rightarrow> SpdmAsymVerify Crypto (BaseAsymAlgo Alg) Key Hash SignData)
                   else
                     (case SpdmReqAsymGetPublicKeyFromX509 Crypto (ReqBaseAsymAlg Alg) CertBuffer of
                        None \<Rightarrow> False
                      | Some Key \<Rightarrow> SpdmReqAsymVerify Crypto (ReqBaseAsymAlg Alg) Key Hash SignData))))"

text \<open>
  SpdmGenerateMeasurementSummaryHash. MeasurementData is an array of
  MAX_SPDM_MEASUREMENT_RECORD_SIZE bytes on the stack that the function does not
  initialise: its content on entry is the parameter Stack. CopyMem writes Src at Offset;
  the function asserts that the total stays within the array.
\<close>

definition CopyMem :: "bytes \<Rightarrow> nat \<Rightarrow> bytes \<Rightarrow> bytes" where
  "CopyMem Dst Offset Src = take Offset Dst @ Src @ drop (Offset + length Src) Dst"

fun MeasurementCopyLoop ::
  "UINT8 \<Rightarrow> SPDM_MEASUREMENT_BLOCK_DMTF list \<Rightarrow> bytes \<Rightarrow> nat \<Rightarrow> bytes \<times> nat" where
  "MeasurementCopyLoop HashType [] MeasurementData MeasurmentDataSize =
     (MeasurementData, MeasurmentDataSize)"
| "MeasurementCopyLoop HashType (Block # Blocks) MeasurementData MeasurmentDataSize =
     MeasurementCopyLoop HashType Blocks
       (if HashType = SPDM_CHALLENGE_REQUEST_ALL_MEASUREMENTS_HASH \<or>
           DMTFSpecMeasurementValueType Block AND SPDM_MEASUREMENT_BLOCK_MEASUREMENT_TYPE_MASK =
             SPDM_MEASUREMENT_BLOCK_MEASUREMENT_TYPE_IMMUTABLE_ROM
        then CopyMem MeasurementData MeasurmentDataSize (MeasurementBlockDmtfBytes Block)
        else MeasurementData)
       (MeasurmentDataSize + MeasurementSize Block)"

definition SpdmGenerateMeasurementSummaryHash ::
  "SPDM_CRYPTO \<Rightarrow> SPDM_DEVICE_CONTEXT \<Rightarrow> UINT8 \<Rightarrow> bytes \<Rightarrow> bytes option" where
  "SpdmGenerateMeasurementSummaryHash Crypto c HashType Stack =
     (let Alg = Conn_Algorithm (ConnectionInfo c) in
      if HashType = SPDM_CHALLENGE_REQUEST_NO_MEASUREMENT_SUMMARY_HASH
      then Some (replicate (GetSpdmHashSize Crypto (BaseHashAlgo Alg)) 0)
      else if HashType = SPDM_CHALLENGE_REQUEST_TCB_COMPONENT_MEASUREMENT_HASH \<or>
              HashType = SPDM_CHALLENGE_REQUEST_ALL_MEASUREMENTS_HASH
      then (case SpdmMeasurementCollectionFunc Crypto (MeasurementSpec Alg) (MeasurementHashAlgo Alg) of
              None \<Rightarrow> None
            | Some Blocks \<Rightarrow>
                (case MeasurementCopyLoop HashType Blocks Stack 0 of
                   (MeasurementData, MeasurmentDataSize) \<Rightarrow>
                     Some (SpdmHashAll Crypto (BaseHashAlgo Alg)
                             (take MeasurmentDataSize MeasurementData))))
      else None)"

text \<open>
  SpdmCalculateTHCurrAK: the result and the buffer THCurr. CertBuffer is the optional
  pointer, None for NULL.
\<close>

definition SpdmCalculateTHCurrAK ::
  "SPDM_CONFIG \<Rightarrow> SPDM_CRYPTO \<Rightarrow> SPDM_DEVICE_CONTEXT \<Rightarrow> SPDM_SESSION_INFO \<Rightarrow> bytes option
     \<Rightarrow> bool \<times> MANAGED_BUFFER" where
  "SpdmCalculateTHCurrAK Cfg Crypto c Info CertBuffer =
     (let TH0 = InitManagedBuffer (MAX_SPDM_MESSAGE_BUFFER_SIZE Cfg) in
      case AppendManagedBuffer TH0 (GetManagedBuffer (MessageA (Transcript c))) of (Status1, TH1) \<Rightarrow>
      if RETURN_ERROR Status1 then (False, TH1) else
      case (case CertBuffer of
              None \<Rightarrow> (RETURN_SUCCESS, TH1)
            | Some Cert \<Rightarrow> AppendManagedBuffer TH1 (HashData Crypto c Cert)) of (Status2, TH2) \<Rightarrow>
      if RETURN_ERROR Status2 then (False, TH2) else
      case AppendManagedBuffer TH2 (GetManagedBuffer (MessageK Info)) of (Status3, TH3) \<Rightarrow>
      if RETURN_ERROR Status3 then (False, TH3) else (True, TH3))"

definition SpdmGeneratePskExchangeRspHmac ::
  "SPDM_CONFIG \<Rightarrow> SPDM_CRYPTO \<Rightarrow> SPDM_DEVICE_CONTEXT \<Rightarrow> SPDM_SESSION_INFO \<Rightarrow> bytes option" where
  "SpdmGeneratePskExchangeRspHmac Cfg Crypto c Info =
     (case SpdmCalculateTHCurrAK Cfg Crypto c Info None of (Result, THCurr) \<Rightarrow>
      if \<not> Result then None
      else Some (take (GetSpdmHashSize Crypto (BaseHashAlgo (Conn_Algorithm (ConnectionInfo c))))
                   (SpdmHmacAllWithResponseFinishedKey Crypto (SecuredMessageContext Info)
                      (GetManagedBuffer THCurr))))"

section \<open>Messages\<close>

text \<open>
  A request or response is the list of its bytes: SPDMVersion, RequestResponseCode, Param1
  and Param2 are the bytes 0 to 3 of the header. A field of a response buffer that was
  zeroed before: the first n bytes written to it, zero where nothing was written.
\<close>

definition WriteField :: "nat \<Rightarrow> bytes \<Rightarrow> bytes" where
  "WriteField n Src = take n Src @ replicate (n - length Src) 0"

text \<open>
  Modelled from the spec: SPDM_CHALLENGE_AUTH_RESPONSE_ATTRIBUTE is declared in the
  protocol header, which is not among the sources. By DMTF SPDM 1.1 the slot number is in
  bits 0 to 3 of Param1 and BasicMutAuthReq is bit 7.
\<close>

definition AuthAttribute_SlotNum :: "UINT8 \<Rightarrow> UINT8" where
  "AuthAttribute_SlotNum Param1 = Param1 AND 0xF"

definition AuthAttribute_BasicMutAuthReq :: "UINT8 \<Rightarrow> UINT8" where
  "AuthAttribute_BasicMutAuthReq Param1 = drop_bit 7 Param1"

text \<open>
  \<open>(1 << SlotNum)\<close> stored in the byte Param2: the bit leaves the byte from a shift of 8
  on. (C leaves a shift of 31 or more undefined; the encapsulated handler overwrites the
  value for slot 0xFF, and the responder reaches such a count only with a SlotCount of 31
  or more.) Where the code compares Param2 with \<open>(1 << SlotNum)\<close> the
  comparison is on integers.
\<close>

definition SlotMask :: "UINT8 \<Rightarrow> UINT8" where
  "SlotMask SlotNum = push_bit (unat SlotNum) 1"

text \<open>
  What a handler returns in the response buffer: the message it built, or the ERROR
  message of SpdmGenerateErrorResponse / SpdmGenerateEncapErrorResponse, functions that are
  not among the sources, kept as the error code and error data they are called with.
\<close>

datatype SPDM_RESPONSE =
    SpdmErrorResponse UINT8 UINT8
  | SpdmMessageResponse bytes

section \<open>Encapsulated CHALLENGE_AUTH (SpdmRequesterLibEncapChallengeAuth.c)\<close>

text \<open>
  SpdmGetEncapResponseChallengeAuth. Nonce is what SpdmGetRandomNumber writes, Stack the
  content of the stack array of SpdmGenerateMeasurementSummaryHash on entry. The response
  buffer is large enough, as the function asserts. The result is None where the function
  reads CertificateChain outside the array.
\<close>

definition SpdmGetEncapResponseChallengeAuth ::
  "SPDM_CRYPTO \<Rightarrow> SPDM_DEVICE_CONTEXT \<Rightarrow> bytes \<Rightarrow> bytes \<Rightarrow> bytes
     \<Rightarrow> (SPDM_RESPONSE \<times> SPDM_DEVICE_CONTEXT) option" where
  "SpdmGetEncapResponseChallengeAuth Crypto c Request Nonce Stack =
     (if length Request \<noteq> SIZEOF_SPDM_CHALLENGE_REQUEST
      then Some (SpdmErrorResponse SPDM_ERROR_CODE_INVALID_REQUEST 0, c)
      else case AppendManagedBuffer (MessageMutC (Transcript c)) Request of (Status, MutC1) \<Rightarrow>
      if RETURN_ERROR Status
      then Some (SpdmErrorResponse SPDM_ERROR_CODE_INVALID_REQUEST 0, c)
      else
      let c1 = SetTranscript c (\<lambda>t. t\<lparr>MessageMutC := MutC1\<rparr>);
          SlotNum = Request ! 2
      in
      if SlotNum \<noteq> 0xFF \<and> SlotNum \<ge> SlotCount (LocalContext c1)
      then Some (SpdmErrorResponse SPDM_ERROR_CODE_INVALID_REQUEST 0, c1)
      else
      let Alg = Conn_Algorithm (ConnectionInfo c1);
          SignatureSize = GetSpdmReqAsymSize Crypto (ReqBaseAsymAlg Alg);
          HashSize = GetSpdmHashSize Crypto (BaseHashAlgo Alg);
          Header = [if SpdmIsVersionSupported c1 SPDM_MESSAGE_VERSION_11
                    then SPDM_MESSAGE_VERSION_11 else SPDM_MESSAGE_VERSION_10,
                    SPDM_CHALLENGE_AUTH,
                    SlotNum AND 0xF,
                    if SlotNum = 0xFF then 0 else SlotMask SlotNum];
          SlotNum2 = (if SlotNum = 0xFF then ProvisionedSlotNum (LocalContext c1) else SlotNum)
      in
      case SpdmGenerateCertChainHash Crypto c1 (unat SlotNum2) of
        None \<Rightarrow> None
      | Some CertChainHash \<Rightarrow>
      (case SpdmGenerateMeasurementSummaryHash Crypto c1 (Request ! 3) Stack of
         None \<Rightarrow> Some (SpdmErrorResponse SPDM_ERROR_CODE_INVALID_REQUEST 0, c1)
       | Some MeasurementSummaryHash \<Rightarrow>
      let Message = Header @ WriteField HashSize CertChainHash @ WriteField SPDM_NONCE_SIZE Nonce @
                    WriteField HashSize MeasurementSummaryHash @
                    WriteUint16 (of_nat (length (OpaqueChallengeAuthRsp (LocalContext c1)))) @
                    OpaqueChallengeAuthRsp (LocalContext c1)
      in
      (case SpdmGenerateChallengeAuthSignature Crypto c1 True Message of
         (None, c2) \<Rightarrow>
           Some (SpdmErrorResponse SPDM_ERROR_CODE_UNSUPPORTED_REQUEST SPDM_CHALLENGE_AUTH, c2)
       | (Some Signature, c2) \<Rightarrow>
           Some (SpdmMessageResponse (Message @ WriteField SignatureSize Signature),
                 SetTranscript c2 (\<lambda>t. t\<lparr>M1M2 := ResetManagedBuffer (M1M2 t)\<rparr>)))))"

section \<open>Responder CHALLENGE handler (SpdmResponderLibChallengeAuth.c)\<close>

text \<open>
  The responder library under SpdmLib reads fields that the context header among the
  sources does not declare (DeviceMeasurement, DeviceMeasurementCount, PrivatePem), and
  gets sizes and hash functions from the context through helpers that are not among the
  sources. The model keeps the fields the handler uses in a record of their own and takes
  the helpers, the RSA functions and the default opaque data as parameters. A cached
  measurement block is a DMTF block whose value has the measurement hash size.
\<close>

record SPDM_RESPONDER_CONTEXT =
  Responder_CertificateChain :: "bytes list"
  Responder_SlotCount :: UINT8
  DeviceMeasurement :: "SPDM_MEASUREMENT_BLOCK_DMTF list"
  PrivatePem :: "bytes option"
  Responder_Transcript :: SPDM_TRANSCRIPT

record SPDM_RESPONDER_LIB =
  Responder_HashSize :: nat
  Responder_HashFunc :: "bytes \<Rightarrow> bytes"
  Responder_MeasurementHashSize :: nat
  Responder_MeasurementHashFunc :: "bytes \<Rightarrow> bytes"
  Responder_AsymSize :: nat
  RsaGetPrivateKeyFromPem :: "bytes \<Rightarrow> bytes option"
  RsaPkcs1Sign :: "bytes \<Rightarrow> bytes \<Rightarrow> bytes option"
  DEFAULT_OPAQUE_LENGTH :: nat
  DEFAULT_OPAQUE_DATA :: UINT8

definition SpdmCalculateCertChainHash ::
  "SPDM_RESPONDER_LIB \<Rightarrow> SPDM_RESPONDER_CONTEXT \<Rightarrow> UINT8 \<Rightarrow> bytes option" where
  "SpdmCalculateCertChainHash Lib c SlotNum =
     (if unat SlotNum < length (Responder_CertificateChain c)
      then Some (Responder_HashFunc Lib (Responder_CertificateChain c ! unat SlotNum))
      else None)"

text \<open>CalculateMeasurementSummaryHash: the summary hash, or None for FALSE. The TCB case
  compares the value type itself with the immutable-ROM type.\<close>

definition CalculateMeasurementSummaryHash ::
  "SPDM_RESPONDER_LIB \<Rightarrow> SPDM_RESPONDER_CONTEXT \<Rightarrow> UINT8 \<Rightarrow> bytes option" where
  "CalculateMeasurementSummaryHash Lib c HashType =
     (let HashSize = Responder_MeasurementHashSize Lib in
      if HashType = SPDM_CHALLENGE_REQUEST_NO_MEASUREMENT_SUMMARY_HASH
      then Some (replicate HashSize 0)
      else if HashType = SPDM_CHALLENGE_REQUEST_TCB_COMPONENT_MEASUREMENT_HASH
      then Some (Responder_MeasurementHashFunc Lib
                   (concat (map (\<lambda>Block. WriteField HashSize (DMTFSpecMeasurementValue Block))
                      (filter (\<lambda>Block. DMTFSpecMeasurementValueType Block =
                                  SPDM_MEASUREMENT_BLOCK_MEASUREMENT_TYPE_IMMUTABLE_ROM)
                         (DeviceMeasurement c)))))
      else if HashType = SPDM_CHALLENGE_REQUEST_ALL_MEASUREMENTS_HASH
      then Some (Responder_MeasurementHashFunc Lib
                   (concat (map (\<lambda>Block. WriteField HashSize (DMTFSpecMeasurementValue Block))
                      (DeviceMeasurement c))))
      else None)"

text \<open>SpdmGenerateChallengeSignature ignores the status of its appends.\<close>

definition SpdmGenerateChallengeSignature ::
  "SPDM_RESPONDER_LIB \<Rightarrow> SPDM_RESPONDER_CONTEXT \<Rightarrow> bytes
     \<Rightarrow> bytes option \<times> SPDM_RESPONDER_CONTEXT" where
  "SpdmGenerateChallengeSignature Lib c ResponseMessage =
     (case PrivatePem c of
        None \<Rightarrow> (None, c)
      | Some Pem \<Rightarrow>
          (case RsaGetPrivateKeyFromPem Lib Pem of
             None \<Rightarrow> (None, c)
           | Some RsaContext \<Rightarrow>
               (let T = Responder_Transcript c;
                    C1 = snd (AppendManagedBuffer (MessageC T) ResponseMessage);
                    M1 = snd (AppendManagedBuffer (M1M2 T) (GetManagedBuffer (MessageA T)));
                    M2 = snd (AppendManagedBuffer M1 (GetManagedBuffer (MessageB T)));
                    M3 = snd (AppendManagedBuffer M2 (GetManagedBuffer C1));
                    c1 = c\<lparr>Responder_Transcript := T\<lparr>MessageC := C1, M1M2 := M3\<rparr>\<rparr>
                in (RsaPkcs1Sign Lib RsaContext
                      (take (Responder_HashSize Lib) (Responder_HashFunc Lib (GetManagedBuffer M3))),
                    c1))))"

text \<open>SpdmGetResponseChallenge reads Param1 and Param2 of the request without a test of
  its size. The result is None where CertificateChain is read outside the array.\<close>

definition SpdmGetResponseChallenge ::
  "SPDM_RESPONDER_LIB \<Rightarrow> SPDM_RESPONDER_CONTEXT \<Rightarrow> bytes \<Rightarrow> bytes
     \<Rightarrow> (SPDM_RESPONSE \<times> SPDM_RESPONDER_CONTEXT) option" where
  "SpdmGetResponseChallenge Lib c Request Nonce =
     (let SlotNum = Request ! 2 in
      if SlotNum > Responder_SlotCount c
      then Some (SpdmErrorResponse SPDM_ERROR_CODE_INVALID_REQUEST 0, c)
      else
      let SignatureSize = Responder_AsymSize Lib;
          HashSize = Responder_HashSize Lib;
          Header = [SPDM_MESSAGE_VERSION_10, SPDM_CHALLENGE_AUTH, SlotNum, SlotMask SlotNum]
      in
      case SpdmCalculateCertChainHash Lib c SlotNum of
        None \<Rightarrow> None
      | Some CertChainHash \<Rightarrow>
      (case CalculateMeasurementSummaryHash Lib c (Request ! 3) of
         None \<Rightarrow> Some (SpdmErrorResponse SPDM_ERROR_CODE_INVALID_REQUEST 0, c)
       | Some MeasurementSummaryHash \<Rightarrow>
      let Message = Header @ WriteField HashSize CertChainHash @ WriteField SPDM_NONCE_SIZE Nonce @
                    WriteField HashSize MeasurementSummaryHash @
                    WriteUint16 (of_nat (DEFAULT_OPAQUE_LENGTH Lib)) @
                    replicate (DEFAULT_OPAQUE_LENGTH Lib) (DEFAULT_OPAQUE_DATA Lib)
      in
      (case SpdmGenerateChallengeSignature Lib c Message of
         (None, c1) \<Rightarrow>
           Some (SpdmErrorResponse SPDM_ERROR_CODE_UNSUPPORTED_REQUEST SPDM_CHALLENGE_AUTH, c1)
       | (Some Signature, c1) \<Rightarrow>
           Some (SpdmMessageResponse (Message @ WriteField SignatureSize Signature), c1))))"

section \<open>Requester CHALLENGE (SpdmRequesterLibChallenge.c)\<close>

text \<open>
  Modelled from the spec: the collaborators of the requester that are not among the
  sources. SpdmSendSpdmRequest and SpdmReceiveSpdmResponse are the transport and I/O of
  section 6: the status of sending a request, and the status and the bytes received for a
  buffer of the given size. SpdmHandleErrorResponseMain is given the context and the ERROR
  response and leaves a status, a context and the response it obtained instead.
  SpdmEncapsulatedRequest runs the encapsulated flow of section 4.7 on the context. The
  requester's GetSpdmHashSize and GetSpdmAsymSize take the context.
\<close>

record SPDM_REQUESTER_ENV =
  SpdmSendSpdmRequest :: "bytes \<Rightarrow> RETURN_STATUS"
  SpdmReceiveSpdmResponse :: "nat \<Rightarrow> RETURN_STATUS \<times> bytes"
  SpdmHandleErrorResponseMain ::
    "SPDM_DEVICE_CONTEXT \<Rightarrow> bytes \<Rightarrow> RETURN_STATUS \<times> SPDM_DEVICE_CONTEXT \<times> bytes"
  SpdmEncapsulatedRequest :: "SPDM_DEVICE_CONTEXT \<Rightarrow> RETURN_STATUS \<times> SPDM_DEVICE_CONTEXT"
  Requester_GetSpdmHashSize :: "SPDM_DEVICE_CONTEXT \<Rightarrow> nat"
  Requester_GetSpdmAsymSize :: "SPDM_DEVICE_CONTEXT \<Rightarrow> nat"

text \<open>sizeof(SPDM_CHALLENGE_AUTH_RESPONSE_MAX), the size of the local response buffer.\<close>

definition SIZEOF_SPDM_CHALLENGE_AUTH_RESPONSE_MAX :: "SPDM_CONFIG \<Rightarrow> nat" where
  "SIZEOF_SPDM_CHALLENGE_AUTH_RESPONSE_MAX Cfg =
     SIZEOF_SPDM_MESSAGE_HEADER + MAX_HASH_SIZE Cfg + SPDM_NONCE_SIZE + MAX_HASH_SIZE Cfg + 2 +
     MAX_SPDM_OPAQUE_DATA_SIZE Cfg + MAX_ASYM_KEY_SIZE Cfg"

text \<open>
  The part of TrySpdmChallenge from the test of the response size against
  sizeof(SPDM_CHALLENGE_AUTH_RESPONSE) to the reset of M1M2. Response holds the
  SpdmResponseSize bytes received; the buffer SpdmResponse was zeroed before. The result is
  the status of an early return, or, when the function goes on to the mutual
  authentication, the BasicMutAuthReq bit and the measurement summary hash.
\<close>

definition TrySpdmChallengeAuth ::
  "SPDM_CONFIG \<Rightarrow> SPDM_CRYPTO \<Rightarrow> SPDM_REQUESTER_ENV \<Rightarrow> SPDM_DEVICE_CONTEXT \<Rightarrow> UINT8 \<Rightarrow> bytes
     \<Rightarrow> (RETURN_STATUS + UINT8 \<times> bytes) \<times> SPDM_DEVICE_CONTEXT" where
  "TrySpdmChallengeAuth Cfg Crypto Env c SlotNum Response =
     (let SpdmResponseSize = length Response;
          SpdmResponse = Response @
            replicate (SIZEOF_SPDM_CHALLENGE_AUTH_RESPONSE_MAX Cfg - length Response) 0
      in
      if SpdmResponseSize < SIZEOF_SPDM_CHALLENGE_AUTH_RESPONSE then (Inl RETURN_DEVICE_ERROR, c)
      else if SpdmResponseSize > SIZEOF_SPDM_CHALLENGE_AUTH_RESPONSE_MAX Cfg
      then (Inl RETURN_DEVICE_ERROR, c)
      else
      let Param1 = SpdmResponse ! 2; Param2 = SpdmResponse ! 3 in
      if SlotNum = 0xFF \<and> AuthAttribute_SlotNum Param1 \<noteq> 0xF then (Inl RETURN_DEVICE_ERROR, c)
      else if SlotNum = 0xFF \<and> Param2 \<noteq> 0 then (Inl RETURN_DEVICE_ERROR, c)
      else if SlotNum \<noteq> 0xFF \<and> AuthAttribute_SlotNum Param1 \<noteq> SlotNum
      then (Inl RETURN_DEVICE_ERROR, c)
      else if SlotNum \<noteq> 0xFF \<and> unat Param2 \<noteq> 2 ^ unat SlotNum then (Inl RETURN_DEVICE_ERROR, c)
      else if AuthAttribute_BasicMutAuthReq Param1 = 1 \<and>
              Flags (Conn_Capability (ConnectionInfo c)) AND
                SPDM_GET_CAPABILITIES_REQUEST_FLAGS_MUT_AUTH_CAP = 0
      then (Inl RETURN_DEVICE_ERROR, c)
      else
      let HashSize = Requester_GetSpdmHashSize Env c;
          SignatureSize = Requester_GetSpdmAsymSize Env c;
          Fixed = SIZEOF_SPDM_CHALLENGE_AUTH_RESPONSE + HashSize + SPDM_NONCE_SIZE + HashSize + 2
      in
      if SpdmResponseSize \<le> Fixed then (Inl RETURN_DEVICE_ERROR, c)
      else if \<not> SpdmVerifyCertificateChainHash Crypto c
                  (take HashSize (drop SIZEOF_SPDM_CHALLENGE_AUTH_RESPONSE SpdmResponse))
      then (Inl RETURN_SECURITY_VIOLATION, c\<lparr>ErrorState := SPDM_STATUS_ERROR_CERTIFICATE_FAILURE\<rparr>)
      else
      let MeasurementSummaryHash = take HashSize
            (drop (SIZEOF_SPDM_CHALLENGE_AUTH_RESPONSE + HashSize + SPDM_NONCE_SIZE) SpdmResponse);
          OpaqueLength = unat (ReadUint16 (drop (Fixed - 2) SpdmResponse));
          Total = Fixed + OpaqueLength + SignatureSize
      in
      if SpdmResponseSize < Total then (Inl RETURN_DEVICE_ERROR, c)
      else
      let T = Transcript c;
          C1 = snd (AppendManagedBuffer (MessageC T) (take (Total - SignatureSize) SpdmResponse));
          M1 = snd (AppendManagedBuffer (M1M2 T) (GetManagedBuffer (MessageA T)));
          M2 = snd (AppendManagedBuffer M1 (GetManagedBuffer (MessageB T)));
          M3 = snd (AppendManagedBuffer M2 (GetManagedBuffer C1));
          c1 = c\<lparr>Transcript := T\<lparr>MessageC := C1, M1M2 := M3\<rparr>\<rparr>;
          Signature = take SignatureSize (drop (Fixed + OpaqueLength) SpdmResponse)
      in
      if \<not> SpdmVerifyChallengeAuthSignature Crypto c1 True Signature
      then (Inl RETURN_SECURITY_VIOLATION, c1\<lparr>ErrorState := SPDM_STATUS_ERROR_CERTIFICATE_FAILURE\<rparr>)
      else (Inr (AuthAttribute_BasicMutAuthReq Param1, MeasurementSummaryHash),
            SetTranscript (c1\<lparr>ErrorState := SPDM_STATUS_SUCCESS\<rparr>)
              (\<lambda>t. t\<lparr>M1M2 := ResetManagedBuffer (M1M2 t)\<rparr>)))"

text \<open>TrySpdmChallenge from its start to the reset of M1M2: the tests of the state and of
  the parameters, the request, the response and its error handling.\<close>

definition TrySpdmChallengeExchange ::
  "SPDM_CONFIG \<Rightarrow> SPDM_CRYPTO \<Rightarrow> SPDM_REQUESTER_ENV \<Rightarrow> SPDM_DEVICE_CONTEXT \<Rightarrow> UINT8 \<Rightarrow> UINT8
     \<Rightarrow> bytes \<Rightarrow> (RETURN_STATUS + UINT8 \<times> bytes) \<times> SPDM_DEVICE_CONTEXT" where
  "TrySpdmChallengeExchange Cfg Crypto Env c SlotNum MeasurementHashType Nonce =
     (if SpdmCmdReceiveState c AND SPDM_NEGOTIATE_ALGORITHMS_RECEIVE_FLAG = 0 \<or>
         SpdmCmdReceiveState c AND SPDM_GET_CAPABILITIES_RECEIVE_FLAG = 0 \<or>
         SpdmCmdReceiveState c AND SPDM_GET_DIGESTS_RECEIVE_FLAG = 0
      then (Inl RETURN_DEVICE_ERROR, c)
      else if Flags (Conn_Capability (ConnectionInfo c)) AND
                SPDM_GET_CAPABILITIES_RESPONSE_FLAGS_CHAL_CAP = 0
      then (Inl RETURN_DEVICE_ERROR, c)
      else if unat SlotNum \<ge> MAX_SPDM_SLOT_COUNT Cfg \<and> SlotNum \<noteq> 0xFF
      then (Inl RETURN_INVALID_PARAMETER, c)
      else if SlotNum = 0xFF \<and> length (PeerCertChainProvision (LocalContext c)) = 0
      then (Inl RETURN_INVALID_PARAMETER, c)
      else
      let c1 = c\<lparr>ErrorState := SPDM_STATUS_ERROR_DEVICE_NO_CAPABILITIES\<rparr>;
          SpdmRequest =
            [if SpdmIsVersionSupported c1 SPDM_MESSAGE_VERSION_11
             then SPDM_MESSAGE_VERSION_11 else SPDM_MESSAGE_VERSION_10,
             SPDM_CHALLENGE, SlotNum, MeasurementHashType] @ WriteField SPDM_NONCE_SIZE Nonce
      in
      if RETURN_ERROR (SpdmSendSpdmRequest Env SpdmRequest) then (Inl RETURN_DEVICE_ERROR, c1)
      else
      let c2 = SetTranscript c1
                 (\<lambda>t. t\<lparr>MessageC := snd (AppendManagedBuffer (MessageC t) SpdmRequest)\<rparr>)
      in
      case SpdmReceiveSpdmResponse Env (SIZEOF_SPDM_CHALLENGE_AUTH_RESPONSE_MAX Cfg) of
        (Status, Response) \<Rightarrow>
      if RETURN_ERROR Status then (Inl RETURN_DEVICE_ERROR, c2)
      else if length Response < SIZEOF_SPDM_MESSAGE_HEADER then (Inl RETURN_DEVICE_ERROR, c2)
      else if Response ! 1 = SPDM_ERROR then
        (case SpdmHandleErrorResponseMain Env c2 Response of
           (Status2, c3, Response2) \<Rightarrow>
             if RETURN_ERROR Status2 then (Inl Status2, c3)
             else TrySpdmChallengeAuth Cfg Crypto Env c3 SlotNum Response2)
      else if Response ! 1 \<noteq> SPDM_CHALLENGE_AUTH then (Inl RETURN_DEVICE_ERROR, c2)
      else TrySpdmChallengeAuth Cfg Crypto Env c2 SlotNum Response)"

text \<open>
  TrySpdmChallenge: the status, the context and what was copied to MeasurementHash
  (nothing when the pointer is NULL or the function returned before the copy).
  SpdmEncapsulatedRequest is called here and nowhere else.
\<close>

definition ChallengeReceived :: "SPDM_DEVICE_CONTEXT \<Rightarrow> SPDM_DEVICE_CONTEXT" where
  "ChallengeReceived c =
     c\<lparr>SpdmCmdReceiveState := SpdmCmdReceiveState c OR SPDM_CHALLENGE_RECEIVE_FLAG,
       ConnectionInfo := (ConnectionInfo c)\<lparr>ConnectionState := SpdmConnectionStateAuthenticated\<rparr>\<rparr>"

definition TrySpdmChallenge ::
  "SPDM_CONFIG \<Rightarrow> SPDM_CRYPTO \<Rightarrow> SPDM_REQUESTER_ENV \<Rightarrow> SPDM_DEVICE_CONTEXT \<Rightarrow> UINT8 \<Rightarrow> UINT8
     \<Rightarrow> bool \<Rightarrow> bytes \<Rightarrow> RETURN_STATUS \<times> SPDM_DEVICE_CONTEXT \<times> bytes option" where
  "TrySpdmChallenge Cfg Crypto Env c SlotNum MeasurementHashType WantMeasurementHash Nonce =
     (case TrySpdmChallengeExchange Cfg Crypto Env c SlotNum MeasurementHashType Nonce of
        (Inl Status, c1) \<Rightarrow> (Status, c1, None)
      | (Inr (BasicMutAuthReq, MeasurementSummaryHash), c1) \<Rightarrow>
          (let MeasurementHash = (if WantMeasurementHash then Some MeasurementSummaryHash else None)
           in if BasicMutAuthReq = 1 then
                (case SpdmEncapsulatedRequest Env c1 of
                   (Status, c2) \<Rightarrow>
                     if RETURN_ERROR Status
                     then (RETURN_SECURITY_VIOLATION,
                           c2\<lparr>ErrorState := SPDM_STATUS_ERROR_CERTIFICATE_FAILURE\<rparr>,
                           MeasurementHash)
                     else (RETURN_SUCCESS, ChallengeReceived c2, MeasurementHash))
              else (RETURN_SUCCESS, ChallengeReceived c1, MeasurementHash)))"

text \<open>
  SpdmChallenge: the do-while loop that repeats TrySpdmChallenge while it returns
  RETURN_NO_RESPONSE, RetryTimes more times at most. Env and Nonce give the collaborators
  and the random bytes of each attempt, counted from Attempt.
\<close>

fun SpdmChallengeLoop ::
  "SPDM_CONFIG \<Rightarrow> SPDM_CRYPTO \<Rightarrow> (nat \<Rightarrow> SPDM_REQUESTER_ENV) \<Rightarrow> (nat \<Rightarrow> bytes) \<Rightarrow> UINT8 \<Rightarrow> UINT8
     \<Rightarrow> bool \<Rightarrow> nat \<Rightarrow> nat \<Rightarrow> SPDM_DEVICE_CONTEXT
     \<Rightarrow> RETURN_STATUS \<times> SPDM_DEVICE_CONTEXT \<times> bytes option" where
  "SpdmChallengeLoop Cfg Crypto Env Nonce SlotNum HashType Want Attempt 0 c =
     TrySpdmChallenge Cfg Crypto (Env Attempt) c SlotNum HashType Want (Nonce Attempt)"
| "SpdmChallengeLoop Cfg Crypto Env Nonce SlotNum HashType Want Attempt (Suc Retry) c =
     (case TrySpdmChallenge Cfg Crypto (Env Attempt) c SlotNum HashType Want (Nonce Attempt) of
        (Status, c1, MeasurementHash) \<Rightarrow>
          if Status \<noteq> RETURN_NO_RESPONSE then (Status, c1, MeasurementHash)
          else SpdmChallengeLoop Cfg Crypto Env Nonce SlotNum HashType Want (Suc Attempt) Retry c1)"

definition SpdmChallenge ::
  "SPDM_CONFIG \<Rightarrow> SPDM_CRYPTO \<Rightarrow> (nat \<Rightarrow> SPDM_REQUESTER_ENV) \<Rightarrow> (nat \<Rightarrow> bytes)
     \<Rightarrow> SPDM_DEVICE_CONTEXT \<Rightarrow> UINT8 \<Rightarrow> UINT8 \<Rightarrow> bool
     \<Rightarrow> RETURN_STATUS \<times> SPDM_DEVICE_CONTEXT \<times> bytes option" where
  "SpdmChallenge Cfg Crypto Env Nonce c SlotNum HashType Want =
     SpdmChallengeLoop Cfg Crypto Env Nonce SlotNum HashType Want 0 (unat (RetryTimes c)) c"

text \<open>The context in which TrySpdmChallenge examines a response it received directly: the
  error state set, the request appended to ledger C.\<close>

definition AfterRequest :: "SPDM_DEVICE_CONTEXT \<Rightarrow> bytes \<Rightarrow> SPDM_DEVICE_CONTEXT" where
  "AfterRequest c SpdmRequest =
     SetTranscript (c\<lparr>ErrorState := SPDM_STATUS_ERROR_DEVICE_NO_CAPABILITIES\<rparr>)
       (\<lambda>t. t\<lparr>MessageC := snd (AppendManagedBuffer (MessageC t) SpdmRequest)\<rparr>)"

definition ChallengeRequest :: "SPDM_DEVICE_CONTEXT \<Rightarrow> UINT8 \<Rightarrow> UINT8 \<Rightarrow> bytes \<Rightarrow> bytes" where
  "ChallengeRequest c SlotNum MeasurementHashType Nonce =
     [if SpdmIsVersionSupported c SPDM_MESSAGE_VERSION_11
      then SPDM_MESSAGE_VERSION_11 else SPDM_MESSAGE_VERSION_10,
      SPDM_CHALLENGE, SlotNum, MeasurementHashType] @ WriteField SPDM_NONCE_SIZE Nonce"

section \<open>What an operation may do to a transcript ledger\<close>

text \<open>
  Modelled from the spec: section 4.1 has the bytes of a ledger immutable until the ledger
  is reset. An operation that takes a ledger from Old to New keeps it when the bytes of Old
  are still the first bytes of New, or New is empty. A transcript is extended when each of
  its seven ledgers still starts with its old bytes; it is kept when each of A, B, C, MutB,
  MutC and L1L2 still starts with its old bytes and M1M2 is kept.
\<close>

definition TranscriptExtended :: "SPDM_TRANSCRIPT \<Rightarrow> SPDM_TRANSCRIPT \<Rightarrow> bool" where
  "TranscriptExtended Old New =
     (prefix (Buffer (MessageA Old)) (Buffer (MessageA New)) \<and>
      prefix (Buffer (MessageB Old)) (Buffer (MessageB New)) \<and>
      prefix (Buffer (MessageC Old)) (Buffer (MessageC New)) \<and>
      prefix (Buffer (MessageMutB Old)) (Buffer (MessageMutB New)) \<and>
      prefix (Buffer (MessageMutC Old)) (Buffer (MessageMutC New)) \<and>
      prefix (Buffer (L1L2 Old)) (Buffer (L1L2 New)) \<and>
      prefix (Buffer (M1M2 Old)) (Buffer (M1M2 New)))"

definition LedgerKept :: "MANAGED_BUFFER \<Rightarrow> MANAGED_BUFFER \<Rightarrow> bool" where
  "LedgerKept Old New = (prefix (Buffer Old) (Buffer New) \<or> Buffer New = [])"

definition TranscriptKept :: "SPDM_TRANSCRIPT \<Rightarrow> SPDM_TRANSCRIPT \<Rightarrow> bool" where
  "TranscriptKept Old New =
     (prefix (Buffer (MessageA Old)) (Buffer (MessageA New)) \<and>
      prefix (Buffer (MessageB Old)) (Buffer (MessageB New)) \<and>
      prefix (Buffer (MessageC Old)) (Buffer (MessageC New)) \<and>
      prefix (Buffer (MessageMutB Old)) (Buffer (MessageMutB New)) \<and>
      prefix (Buffer (MessageMutC Old)) (Buffer (MessageMutC New)) \<and>
      prefix (Buffer (L1L2 Old)) (Buffer (L1L2 New)) \<and>
      LedgerKept (M1M2 Old) (M1M2 New))"

section \<open>Context initialisation (SpdmInitContext)\<close>

text \<open>
  SpdmInitContext zeroes the context, sets the capacity of every transcript buffer and of
  the encapsulated certificate buffer, the retry count and the response state
  (SpdmResponseStateNormal, the first enumerator), and initialises the secured-message
  context of every session slot.
\<close>

definition ZeroCapability :: SPDM_DEVICE_CAPABILITY where
  "ZeroCapability = \<lparr>CTExponent = 0, Flags = 0\<rparr>"

definition ZeroAlgorithm :: SPDM_DEVICE_ALGORITHM where
  "ZeroAlgorithm =
     \<lparr>MeasurementSpec = 0, MeasurementHashAlgo = 0, BaseAsymAlgo = 0, BaseHashAlgo = 0,
      DHENamedGroup = 0, AEADCipherSuite = 0, ReqBaseAsymAlg = 0, KeySchedule = 0\<rparr>"

definition ZeroSessionInfo :: SPDM_SESSION_INFO where
  "ZeroSessionInfo =
     \<lparr>SessionId = 0, UsePsk = False, MutAuthRequested = 0,
      MessageK = \<lparr>MaxBufferSize = 0, Buffer = []\<rparr>,
      MessageF = \<lparr>MaxBufferSize = 0, Buffer = []\<rparr>,
      SecuredMessageContext = SpdmSecuredMessageInitContext\<rparr>"

definition SpdmInitContext :: "SPDM_CONFIG \<Rightarrow> SPDM_DEVICE_CONTEXT" where
  "SpdmInitContext Cfg =
     \<lparr>ErrorState = 0,
      EncapContext =
        \<lparr>Encap_ErrorState = 0, EncapState = 0, RequestId = 0, Encap_SlotNum = 0,
         Encap_MeasurementHashType = 0,
         CertificateChainBuffer = InitManagedBuffer (MAX_SPDM_MESSAGE_BUFFER_SIZE Cfg)\<rparr>,
      LocalContext =
        \<lparr>Local_Capability = ZeroCapability, Local_Algorithm = ZeroAlgorithm,
         CertificateChain = replicate (MAX_SPDM_SLOT_COUNT Cfg) [],
         SlotCount = 0, ProvisionedSlotNum = 0, PeerRootCertHashProvision = [],
         PeerCertChainProvision = [], PskHint = [], OpaqueChallengeAuthRsp = [],
         OpaqueMeasurementRsp = [], BasicMutAuthRequested = 0, Local_MutAuthRequested = 0\<rparr>,
      ConnectionInfo =
        \<lparr>ConnectionState = 0, Version = replicate (MAX_SPDM_VERSION_COUNT Cfg) 0,
         Conn_Capability = ZeroCapability, Conn_Algorithm = ZeroAlgorithm,
         PeerCertChainBuffer = [], LocalUsedCertChainBuffer = []\<rparr>,
      Transcript =
        \<lparr>MessageA = InitManagedBuffer (MAX_SPDM_MESSAGE_SMALL_BUFFER_SIZE Cfg),
         MessageB = InitManagedBuffer (MAX_SPDM_MESSAGE_BUFFER_SIZE Cfg),
         MessageC = InitManagedBuffer (MAX_SPDM_MESSAGE_SMALL_BUFFER_SIZE Cfg),
         MessageMutB = InitManagedBuffer (MAX_SPDM_MESSAGE_BUFFER_SIZE Cfg),
         MessageMutC = InitManagedBuffer (MAX_SPDM_MESSAGE_SMALL_BUFFER_SIZE Cfg),
         M1M2 = InitManagedBuffer (MAX_SPDM_MESSAGE_BUFFER_SIZE Cfg),
         L1L2 = InitManagedBuffer (MAX_SPDM_MESSAGE_BUFFER_SIZE Cfg)\<rparr>,
      SessionInfo = replicate (MAX_SPDM_SESSION_COUNT Cfg) ZeroSessionInfo,
      LatestSessionId = 0,
      SpdmCmdReceiveState = 0,
      ResponseState = 0,
      CurrentToken = 0,
      RetryTimes = MAX_SPDM_REQUEST_RETRY_TIMES Cfg\<rparr>"

section \<open>Concrete inputs\<close>

text \<open>A small configuration (two session slots, two certificate slots, buffers of 256 and 128 bytes) and
  contexts built from it, on which the theorems below are instantiated.\<close>

primrec SmallDataTypeValue :: "SPDM_DATA_TYPE \<Rightarrow> UINT32" where
  "SmallDataTypeValue SpdmDataCapabilityFlags = 1"
| "SmallDataTypeValue SpdmDataCapabilityCTExponent = 2"
| "SmallDataTypeValue SpdmDataMeasurementHashAlgo = 3"
| "SmallDataTypeValue SpdmDataBaseAsymAlgo = 4"
| "SmallDataTypeValue SpdmDataBaseHashAlgo = 5"
| "SmallDataTypeValue SpdmDataDHENamedGroup = 6"
| "SmallDataTypeValue SpdmDataAEADCipherSuite = 7"
| "SmallDataTypeValue SpdmDataReqBaseAsymAlg = 8"
| "SmallDataTypeValue SpdmDataKeySchedule = 9"
| "SmallDataTypeValue SpdmDataConnectionState = 10"
| "SmallDataTypeValue SpdmDataResponseState = 11"
| "SmallDataTypeValue SpdmDataPeerPublicRootCertHash = 12"
| "SmallDataTypeValue SpdmDataPeerPublicCertChains = 13"
| "SmallDataTypeValue SpdmDataSlotCount = 14"
| "SmallDataTypeValue SpdmDataPublicCertChains = 15"
| "SmallDataTypeValue SpdmDataBasicMutAuthRequested = 16"
| "SmallDataTypeValue SpdmDataMutAuthRequested = 17"
| "SmallDataTypeValue SpdmDataPskHint = 18"
| "SmallDataTypeValue (SpdmDataOther v) = v"

definition SmallConfig :: SPDM_CONFIG where
  "SmallConfig =
     \<lparr>SPDM_DATA_TYPE_VALUE = SmallDataTypeValue, MAX_SPDM_SESSION_COUNT = 2, MAX_SPDM_VERSION_COUNT = 2,
      MAX_SPDM_MESSAGE_BUFFER_SIZE = 256, MAX_SPDM_MESSAGE_SMALL_BUFFER_SIZE = 128,
      MAX_SPDM_SLOT_COUNT = 2, MAX_SPDM_PSK_HINT_LENGTH = 16,
      MAX_SPDM_MEASUREMENT_RECORD_SIZE = 16, MAX_HASH_SIZE = 8, MAX_ASYM_KEY_SIZE = 8,
      MAX_SPDM_OPAQUE_DATA_SIZE = 4, MAX_SPDM_REQUEST_RETRY_TIMES = 3\<rparr>"

definition SessionWithId :: "UINT32 \<Rightarrow> SPDM_SESSION_INFO" where
  "SessionWithId Sid = ZeroSessionInfo\<lparr>SessionId := Sid\<rparr>"

definition HalfFreeContext :: SPDM_DEVICE_CONTEXT where
  "HalfFreeContext =
     (SpdmInitContext SmallConfig)\<lparr>SessionInfo := [SessionWithId 0x12340001, SessionWithId 0xFFFE]\<rparr>"

definition FullContext :: SPDM_DEVICE_CONTEXT where
  "FullContext =
     (SpdmInitContext SmallConfig)\<lparr>SessionInfo := [SessionWithId 0xFFFFFFFF, SessionWithId 0xFFFEFFFE]\<rparr>"

definition OneUsedContext :: SPDM_DEVICE_CONTEXT where
  "OneUsedContext =
     (SpdmInitContext SmallConfig)\<lparr>SessionInfo := [SessionWithId 0xFFFFFFFF, SessionWithId 0]\<rparr>"

definition LocalParameter :: SPDM_DATA_PARAMETER where
  "LocalParameter = \<lparr>Location = SpdmDataLocationLocal, AdditionalData = (0, 0, 0, 0)\<rparr>"

definition ConnectionParameter :: SPDM_DATA_PARAMETER where
  "ConnectionParameter = \<lparr>Location = SpdmDataLocationConnection, AdditionalData = (0, 0, 0, 0)\<rparr>"

definition BaseHashSetContext :: SPDM_DEVICE_CONTEXT where
  "BaseHashSetContext =
     SetLocalAlgorithm (SpdmInitContext SmallConfig) (\<lambda>a. a\<lparr>BaseHashAlgo := 1\<rparr>)"

text \<open>
  A crypto interface that shows what it is given: the hash of a message is the message cut
  or zero-padded to the hash size of 8 bytes, a signature is the hash it signs, the HMAC
  is the message, every signature check compares the signature with the hash, and the
  measurement collection returns a mutable-firmware block followed by an immutable-ROM
  block.
\<close>

definition PadTo :: "nat \<Rightarrow> bytes \<Rightarrow> bytes" where
  "PadTo n Msg = take n Msg @ replicate (n - length Msg) 0"

definition FirmwareBlock :: SPDM_MEASUREMENT_BLOCK_DMTF where
  "FirmwareBlock =
     \<lparr>Block_Index = 1, Block_MeasurementSpecification = 1,
      DMTFSpecMeasurementValueType = 1, DMTFSpecMeasurementValue = [0x11]\<rparr>"

definition RomBlock :: SPDM_MEASUREMENT_BLOCK_DMTF where
  "RomBlock =
     \<lparr>Block_Index = 2, Block_MeasurementSpecification = 1,
      DMTFSpecMeasurementValueType = 0, DMTFSpecMeasurementValue = [0x22]\<rparr>"

definition TransparentCrypto :: SPDM_CRYPTO where
  "TransparentCrypto =
     \<lparr>GetSpdmHashSize = (\<lambda>Algo. 8),
      SpdmHashAll = (\<lambda>Algo Msg. PadTo 8 Msg),
      GetSpdmAsymSize = (\<lambda>Algo. 8),
      GetSpdmReqAsymSize = (\<lambda>Algo. 8),
      SpdmRequesterDataSignFunc = (\<lambda>Algo Hash. Some Hash),
      SpdmResponderDataSignFunc = (\<lambda>Algo Hash. Some Hash),
      X509GetCertFromCertChain =
        (\<lambda>Buffer Offset Size.
           if Offset + Size = length Buffer then Some (drop Offset Buffer) else None),
      SpdmAsymGetPublicKeyFromX509 = (\<lambda>Algo Cert. Some Cert),
      SpdmAsymVerify = (\<lambda>Algo Key Hash Sig. Sig = Hash),
      SpdmReqAsymGetPublicKeyFromX509 = (\<lambda>Algo Cert. Some Cert),
      SpdmReqAsymVerify = (\<lambda>Algo Key Hash Sig. Sig = Hash),
      SpdmMeasurementCollectionFunc = (\<lambda>Spec Algo. Some [FirmwareBlock, RomBlock]),
      SpdmHmacAllWithResponseFinishedKey = (\<lambda>Secured Msg. Msg)\<rparr>"

text \<open>A context whose ledgers A, B, C, MutB and MutC hold one distinct byte each and whose
  M1M2 is empty, and a session whose MessageK holds two bytes.\<close>

definition LedgerContext :: SPDM_DEVICE_CONTEXT where
  "LedgerContext =
     SetTranscript (SpdmInitContext SmallConfig)
       (\<lambda>t. t\<lparr>MessageA := (MessageA t)\<lparr>Buffer := [0xA]\<rparr>,
               MessageB := (MessageB t)\<lparr>Buffer := [0xB]\<rparr>,
               MessageC := (MessageC t)\<lparr>Buffer := [0xC]\<rparr>,
               MessageMutB := (MessageMutB t)\<lparr>Buffer := [0x1B]\<rparr>,
               MessageMutC := (MessageMutC t)\<lparr>Buffer := [0x1C]\<rparr>\<rparr>)"

definition KSession :: SPDM_SESSION_INFO where
  "KSession = ZeroSessionInfo\<lparr>SessionId := 0xFFFFFFFF,
     MessageK := \<lparr>MaxBufferSize = 64, Buffer = [0x4B, 0x4C]\<rparr>\<rparr>"

text \<open>
  A requester context that has received the capabilities, the algorithms and the digests
  from a peer with CHAL_CAP and without MUT_AUTH_CAP, and collaborators that send
  successfully and receive a four-byte CHALLENGE_AUTH header with BasicMutAuthReq set for
  slot 0.
\<close>

definition ReadyContext :: SPDM_DEVICE_CONTEXT where
  "ReadyContext =
     LedgerContext
       \<lparr>ConnectionInfo := (ConnectionInfo LedgerContext)
          \<lparr>Conn_Capability := \<lparr>CTExponent = 0, Flags = 0x04\<rparr>\<rparr>,
        SpdmCmdReceiveState := 0x0E\<rparr>"

definition MutAuthEnv :: SPDM_REQUESTER_ENV where
  "MutAuthEnv =
     \<lparr>SpdmSendSpdmRequest = (\<lambda>Request. RETURN_SUCCESS),
      SpdmReceiveSpdmResponse = (\<lambda>Size. (RETURN_SUCCESS, [0x11, 0x03, 0x80, 0x01])),
      SpdmHandleErrorResponseMain = (\<lambda>c Response. (RETURN_DEVICE_ERROR, c, Response)),
      SpdmEncapsulatedRequest = (\<lambda>c. (RETURN_SUCCESS, c)),
      Requester_GetSpdmHashSize = (\<lambda>c. 8),
      Requester_GetSpdmAsymSize = (\<lambda>c. 8)\<rparr>"

text \<open>
  A responder with one provisioned slot of two, both cached blocks, a private key, and
  library functions that show what they are given, with a hash size of 2 bytes, a
  measurement hash size of 1 byte and a signature size of 2 bytes.
\<close>

definition SmallResponderLib :: SPDM_RESPONDER_LIB where
  "SmallResponderLib =
     \<lparr>Responder_HashSize = 2,
      Responder_HashFunc = (\<lambda>Msg. PadTo 2 Msg),
      Responder_MeasurementHashSize = 1,
      Responder_MeasurementHashFunc = (\<lambda>Msg. PadTo 1 Msg),
      Responder_AsymSize = 2,
      RsaGetPrivateKeyFromPem = (\<lambda>Pem. Some Pem),
      RsaPkcs1Sign = (\<lambda>Key Hash. Some Hash),
      DEFAULT_OPAQUE_LENGTH = 1,
      DEFAULT_OPAQUE_DATA = 0xAA\<rparr>"

definition SmallResponderContext :: SPDM_RESPONDER_CONTEXT where
  "SmallResponderContext =
     \<lparr>Responder_CertificateChain = [[0xC0], []],
      Responder_SlotCount = 1,
      DeviceMeasurement = [FirmwareBlock, RomBlock],
      PrivatePem = Some [0x50],
      Responder_Transcript = Transcript LedgerContext\<rparr>"

text \<open>The context of a requester that answers an encapsulated CHALLENGE: one provisioned
  slot of two, the provisioned slot number left at 0.\<close>

definition EncapContextExample :: SPDM_DEVICE_CONTEXT where
  "EncapContextExample =
     LedgerContext\<lparr>LocalContext := (LocalContext LedgerContext)
       \<lparr>CertificateChain := [[0xC0], []], SlotCount := 1\<rparr>\<rparr>"

definition ChallengeRequestBytes :: "UINT8 \<Rightarrow> UINT8 \<Rightarrow> bytes" where
  "ChallengeRequestBytes SlotNum HashType =
     [0x11, 0x83, SlotNum, HashType] @ replicate 32 0"

text \<open>A peer certificate chain of 14 bytes: the SPDM_CERT_CHAIN header with Length = 14,
  a root hash of 8 bytes, and two bytes that stand for the X.509 chain. The ready context
  with this chain provisioned, as a CHALLENGE for slot 0xFF needs.\<close>

definition PeerChainBytes :: bytes where
  "PeerChainBytes =
     [0x0E, 0x00, 0x00, 0x00] @ [0x51, 0x52, 0x53, 0x54, 0x55, 0x56, 0x57, 0x58] @ [0x30, 0x82]"

definition ProvisionedContext :: SPDM_DEVICE_CONTEXT where
  "ProvisionedContext =
     ReadyContext\<lparr>LocalContext := (LocalContext ReadyContext)
       \<lparr>PeerCertChainProvision := PeerChainBytes\<rparr>\<rparr>"

text \<open>
  A CHALLENGE_AUTH for slot 0 that a requester with the provisioned chain accepts under
  TransparentCrypto: the hash of the peer chain (its first 8 bytes), a nonce and a
  measurement summary hash of zeroes, no opaque data, and the signature, which is the
  first 8 bytes of M1M2 once A, B and C are appended to it. ChallengeAuthBytes gives the
  message for the attribute byte Param1 and the signature; ResponseEnv is the requester's
  environment that receives the given bytes.
\<close>

definition ChallengeAuthBytes :: "UINT8 \<Rightarrow> bytes \<Rightarrow> bytes" where
  "ChallengeAuthBytes Param1 Signature =
     [0x11, 0x03, Param1, 0x01] @ [0x0E, 0x00, 0x00, 0x00, 0x51, 0x52, 0x53, 0x54] @
     replicate 32 0 @ replicate 8 0 @ [0, 0] @ Signature"

definition ResponseEnv :: "bytes \<Rightarrow> SPDM_REQUESTER_ENV" where
  "ResponseEnv Response =
     MutAuthEnv\<lparr>SpdmReceiveSpdmResponse := (\<lambda>Size. (RETURN_SUCCESS, Response))\<rparr>"

text \<open>A requester whose M1M2 still holds a byte of an earlier exchange, and the
  CHALLENGE_AUTH for slot 0 that it accepts: the signature starts with that byte.\<close>

definition StaleContext :: SPDM_DEVICE_CONTEXT where
  "StaleContext =
     SetTranscript ProvisionedContext (\<lambda>t. t\<lparr>M1M2 := (M1M2 t)\<lparr>Buffer := [0x99]\<rparr>\<rparr>)"

definition StaleResponse :: bytes where
  "StaleResponse = ChallengeAuthBytes 0x00 [0x99, 0x0A, 0x0B, 0x0C, 0x10, 0x83, 0, 0]"

text \<open>The context that answers an encapsulated CHALLENGE, with a byte of an earlier
  exchange left in M1M2.\<close>

definition StaleEncapContext :: SPDM_DEVICE_CONTEXT where
  "StaleEncapContext =
     SetTranscript EncapContextExample (\<lambda>t. t\<lparr>M1M2 := (M1M2 t)\<lparr>Buffer := [0x99]\<rparr>\<rparr>)"

text \<open>
  A requester whose peer has CHAL_CAP and MUT_AUTH_CAP in the connection's capability
  flags, whose own capability flags are all clear, and which has one certificate slot
  provisioned; the CHALLENGE_AUTH for slot 0 with BasicMutAuthReq = 1 that it accepts; a
  crypto interface whose requester signing fails; and an encapsulated flow that hands one
  encapsulated CHALLENGE for slot 0 to SpdmGetEncapResponseChallengeAuth and returns
  RETURN_SUCCESS when the handler has left a response.
\<close>

definition MutualContext :: SPDM_DEVICE_CONTEXT where
  "MutualContext =
     ProvisionedContext
       \<lparr>LocalContext := (LocalContext ProvisionedContext)
          \<lparr>CertificateChain := [[0xC0], []], SlotCount := 1\<rparr>,
        ConnectionInfo := (ConnectionInfo ProvisionedContext)
          \<lparr>Conn_Capability := \<lparr>CTExponent = 0, Flags = 0x104\<rparr>\<rparr>\<rparr>"

definition MutualResponse :: bytes where
  "MutualResponse = ChallengeAuthBytes 0x80 [0x0A, 0x0B, 0x0C, 0x10, 0x83, 0, 0, 0]"

definition FailingSignCrypto :: SPDM_CRYPTO where
  "FailingSignCrypto = TransparentCrypto\<lparr>SpdmRequesterDataSignFunc := (\<lambda>Algo Hash. None)\<rparr>"

definition FlowEnv :: "SPDM_CRYPTO \<Rightarrow> SPDM_REQUESTER_ENV" where
  "FlowEnv Crypto =
     (ResponseEnv MutualResponse)
       \<lparr>SpdmEncapsulatedRequest :=
          (\<lambda>c. case SpdmGetEncapResponseChallengeAuth Crypto c (ChallengeRequestBytes 0 0) [] [] of
                  None \<Rightarrow> (RETURN_DEVICE_ERROR, c)
                | Some (Response, c') \<Rightarrow> (RETURN_SUCCESS, c'))\<rparr>"

text \<open>The context with the provisioned peer chain whose M1M2 holds the four bytes that the
  responder signs on LedgerContext for the message [0x0D].\<close>

definition VerifierContext :: SPDM_DEVICE_CONTEXT where
  "VerifierContext =
     SetTranscript ProvisionedContext
       (\<lambda>t. t\<lparr>M1M2 := (M1M2 t)\<lparr>Buffer := [0x0A, 0x0B, 0x0C, 0x0D]\<rparr>\<rparr>)"

text \<open>A responder whose SlotCount is 0xFF, with the 256 entries of CertificateChain that
  the slot test then lets a request reach; and a responder whose SlotCount is the size of
  its CertificateChain array, the largest value SpdmSetData accepts.\<close>

definition WideResponderContext :: SPDM_RESPONDER_CONTEXT where
  "WideResponderContext =
     SmallResponderContext\<lparr>Responder_CertificateChain := replicate 256 [0xC0],
                            Responder_SlotCount := 0xFF\<rparr>"

definition FullSlotsResponderContext :: SPDM_RESPONDER_CONTEXT where
  "FullSlotsResponderContext = SmallResponderContext\<lparr>Responder_SlotCount := 2\<rparr>"

section \<open>Properties of the index loop\<close>

lemma FirstIndexFrom_None:
  "(FirstIndexFrom n P xs = None) = (list_all (\<lambda>x. \<not> P x) xs)"
  by (induction xs arbitrary: n) auto

lemma FirstIndexFrom_Some:
  "FirstIndexFrom n P xs = Some i \<Longrightarrow>
     n \<le> i \<and> i - n < length xs \<and> P (xs ! (i - n)) \<and> (\<forall>j < i - n. \<not> P (xs ! j))"
proof (induction xs arbitrary: n)
  case Nil
  then show ?case by simp
next
  case (Cons x xs)
  show ?case
  proof (cases "P x")
    case True
    with Cons.prems show ?thesis by simp
  next
    case False
    with Cons.prems have rec: "FirstIndexFrom (Suc n) P xs = Some i" by simp
    from Cons.IH [OF rec]
    have a: "Suc n \<le> i" and b: "i - Suc n < length xs" and c: "P (xs ! (i - Suc n))"
      and d: "\<forall>j < i - Suc n. \<not> P (xs ! j)" by auto
    from a have e: "i - n = Suc (i - Suc n)" by arith
    have "\<forall>j < i - n. \<not> P ((x # xs) ! j)"
    proof (intro allI impI)
      fix j assume "j < i - n"
      then show "\<not> P ((x # xs) ! j)" using False d e by (cases j) auto
    qed
    then show ?thesis using a b c e by auto
  qed
qed

lemma FirstIndexFrom_first:
  "i < length xs \<Longrightarrow> P (xs ! i) \<Longrightarrow> (\<forall>j < i. \<not> P (xs ! j)) \<Longrightarrow>
     FirstIndexFrom n P xs = Some (n + i)"
proof (induction xs arbitrary: n i)
  case Nil
  then show ?case by simp
next
  case (Cons x xs)
  show ?case
  proof (cases i)
    case 0
    with Cons.prems show ?thesis by simp
  next
    case (Suc k)
    from Cons.prems Suc have nx: "\<not> P x" by auto
    have "FirstIndexFrom (Suc n) P xs = Some (Suc n + k)"
    proof (rule Cons.IH)
      show "k < length xs" using Cons.prems Suc by simp
      show "P (xs ! k)" using Cons.prems Suc by simp
      show "\<forall>j < k. \<not> P (xs ! j)" using Cons.prems(3) Suc by auto
    qed
    then show ?thesis using nx Suc by simp
  qed
qed


section \<open>Session registry: allocation and the assign/free round trip\<close>

lemma FirstIndexFrom_update:
  assumes "i < length xs" and "P v" and "\<forall>j < i. \<not> P (xs ! j)"
  shows "FirstIndexFrom 0 P (xs[i := v]) = Some i"
proof -
  have "FirstIndexFrom 0 P (xs[i := v]) = Some (0 + i)"
  proof (rule FirstIndexFrom_first)
    show "i < length (xs[i := v])" using assms(1) by simp
    show "P (xs[i := v] ! i)" using assms(1,2) by simp
    show "\<forall>j < i. \<not> P (xs[i := v] ! j)" using assms(3) by simp
  qed
  then show ?thesis by simp
qed

lemma list_all_update:
  "list_all Q xs \<Longrightarrow> Q v \<Longrightarrow> list_all Q (xs[i := v])"
  by (induction xs arbitrary: i) (auto split: nat.splits)

lemma SessionId_SpdmSessionInfoInit [simp]:
  "SessionId (SpdmSessionInfoInit Cfg c s Sid Psk) = Sid"
  by (simp add: SpdmSessionInfoInit_def Let_def)

lemma UsePsk_SpdmSessionInfoInit [simp]:
  "UsePsk (SpdmSessionInfoInit Cfg c s Sid Psk) = Psk"
  by (simp add: SpdmSessionInfoInit_def Let_def)

lemma MessageK_SpdmSessionInfoInit [simp]:
  "Buffer (MessageK (SpdmSessionInfoInit Cfg c s Sid Psk)) = []"
  by (simp add: SpdmSessionInfoInit_def Let_def)

lemma MessageF_SpdmSessionInfoInit [simp]:
  "Buffer (MessageF (SpdmSessionInfoInit Cfg c s Sid Psk)) = []"
  by (simp add: SpdmSessionInfoInit_def Let_def)

lemma AllocateReq_first_free:
  assumes "i < length (SessionInfo c)"
    and "SessionId (SessionInfo c ! i) AND 0xFFFF0000 = 0"
    and "\<forall>j < i. SessionId (SessionInfo c ! j) AND 0xFFFF0000 \<noteq> 0"
  shows "SpdmAllocateReqSessionId c = 0xFFFF - of_nat i"
proof -
  have "FirstIndexFrom 0 (\<lambda>s. SessionId s AND 0xFFFF0000 = INVALID_SESSION_ID AND 0xFFFF0000)
          (SessionInfo c) = Some (0 + i)"
    by (rule FirstIndexFrom_first) (use assms in \<open>simp_all add: INVALID_SESSION_ID_def\<close>)
  then show ?thesis by (simp add: SpdmAllocateReqSessionId_def)
qed

lemma AllocateRsp_first_free:
  assumes "i < length (SessionInfo c)"
    and "SessionId (SessionInfo c ! i) AND 0xFFFF = 0"
    and "\<forall>j < i. SessionId (SessionInfo c ! j) AND 0xFFFF \<noteq> 0"
  shows "SpdmAllocateRspSessionId c = 0xFFFF - of_nat i"
proof -
  have "FirstIndexFrom 0 (\<lambda>s. SessionId s AND 0xFFFF = INVALID_SESSION_ID AND 0xFFFF)
          (SessionInfo c) = Some (0 + i)"
    by (rule FirstIndexFrom_first) (use assms in \<open>simp_all add: INVALID_SESSION_ID_def\<close>)
  then show ?thesis by (simp add: SpdmAllocateRspSessionId_def)
qed

lemma AllocateReq_full:
  assumes "list_all (\<lambda>s. SessionId s AND 0xFFFF0000 \<noteq> 0) (SessionInfo c)"
  shows "SpdmAllocateReqSessionId c = 0"
proof -
  have "FirstIndexFrom 0 (\<lambda>s. SessionId s AND 0xFFFF0000 = INVALID_SESSION_ID AND 0xFFFF0000)
          (SessionInfo c) = None"
    using assms by (simp add: FirstIndexFrom_None INVALID_SESSION_ID_def)
  then show ?thesis by (simp add: SpdmAllocateReqSessionId_def INVALID_SESSION_ID_def)
qed

lemma AllocateRsp_full:
  assumes "list_all (\<lambda>s. SessionId s AND 0xFFFF \<noteq> 0) (SessionInfo c)"
  shows "SpdmAllocateRspSessionId c = 0"
proof -
  have "FirstIndexFrom 0 (\<lambda>s. SessionId s AND 0xFFFF = INVALID_SESSION_ID AND 0xFFFF)
          (SessionInfo c) = None"
    using assms by (simp add: FirstIndexFrom_None INVALID_SESSION_ID_def)
  then show ?thesis by (simp add: SpdmAllocateRspSessionId_def INVALID_SESSION_ID_def)
qed

lemma half_id_nonzero:
  assumes "i < 0xFFFF"
  shows "(0xFFFF :: UINT16) - of_nat i \<noteq> 0"
proof
  assume "(0xFFFF :: UINT16) - of_nat i = 0"
  then have "(of_nat i :: UINT16) = 0xFFFF" by simp
  then have "unat (of_nat i :: UINT16) = unat (0xFFFF :: UINT16)" by simp
  moreover have "unat (of_nat i :: UINT16) = i"
    using assms by (simp add: unat_of_nat)
  ultimately show False using assms by simp
qed


text \<open>
  C3 (as the code has it). When some slot's requester half (the upper 16 bits of its
  session id) is free, SpdmAllocateReqSessionId returns 0xFFFF minus the index of the first
  such slot, and that value is not 0 for an index below 0xFFFF. When no slot is free the
  allocator signals the failure by returning the half of INVALID_SESSION_ID, which is 0.
  SpdmAllocateRspSessionId does the same on the lower 16 bits.
\<close>

theorem SpdmAllocateSessionId_result:
  "(i < length (SessionInfo c) \<and> SessionId (SessionInfo c ! i) AND 0xFFFF0000 = 0 \<and>
      (\<forall>j < i. SessionId (SessionInfo c ! j) AND 0xFFFF0000 \<noteq> 0)
      \<longrightarrow> SpdmAllocateReqSessionId c = 0xFFFF - of_nat i \<and>
          (i < 0xFFFF \<longrightarrow> SpdmAllocateReqSessionId c \<noteq> 0)) \<and>
   (list_all (\<lambda>s. SessionId s AND 0xFFFF0000 \<noteq> 0) (SessionInfo c)
      \<longrightarrow> SpdmAllocateReqSessionId c = 0) \<and>
   (k < length (SessionInfo c) \<and> SessionId (SessionInfo c ! k) AND 0xFFFF = 0 \<and>
      (\<forall>j < k. SessionId (SessionInfo c ! j) AND 0xFFFF \<noteq> 0)
      \<longrightarrow> SpdmAllocateRspSessionId c = 0xFFFF - of_nat k \<and>
          (k < 0xFFFF \<longrightarrow> SpdmAllocateRspSessionId c \<noteq> 0)) \<and>
   (list_all (\<lambda>s. SessionId s AND 0xFFFF \<noteq> 0) (SessionInfo c)
      \<longrightarrow> SpdmAllocateRspSessionId c = 0)"
proof (intro conjI impI)
  assume h: "i < length (SessionInfo c) \<and> SessionId (SessionInfo c ! i) AND 0xFFFF0000 = 0 \<and>
      (\<forall>j < i. SessionId (SessionInfo c ! j) AND 0xFFFF0000 \<noteq> 0)"
  then show r: "SpdmAllocateReqSessionId c = 0xFFFF - of_nat i"
    by (intro AllocateReq_first_free) auto
  assume "i < 0xFFFF"
  then show "SpdmAllocateReqSessionId c \<noteq> 0"
    using r half_id_nonzero by simp
next
  assume "list_all (\<lambda>s. SessionId s AND 0xFFFF0000 \<noteq> 0) (SessionInfo c)"
  then show "SpdmAllocateReqSessionId c = 0" by (rule AllocateReq_full)
next
  assume h: "k < length (SessionInfo c) \<and> SessionId (SessionInfo c ! k) AND 0xFFFF = 0 \<and>
      (\<forall>j < k. SessionId (SessionInfo c ! j) AND 0xFFFF \<noteq> 0)"
  then show r: "SpdmAllocateRspSessionId c = 0xFFFF - of_nat k"
    by (intro AllocateRsp_first_free) auto
  assume "k < 0xFFFF"
  then show "SpdmAllocateRspSessionId c \<noteq> 0"
    using r half_id_nonzero by simp
next
  assume "list_all (\<lambda>s. SessionId s AND 0xFFFF \<noteq> 0) (SessionInfo c)"
  then show "SpdmAllocateRspSessionId c = 0" by (rule AllocateRsp_full)
qed

lemma HalfFreeContext_sessions:
  "SessionInfo HalfFreeContext = [SessionWithId 0x12340001, SessionWithId 0xFFFE]"
  by (simp add: HalfFreeContext_def)

lemma FullContext_sessions:
  "SessionInfo FullContext = [SessionWithId 0xFFFFFFFF, SessionWithId 0xFFFEFFFE]"
  by (simp add: FullContext_def)

lemma OneUsedContext_sessions:
  "SessionInfo OneUsedContext = [SessionWithId 0xFFFFFFFF, SessionWithId 0]"
  by (simp add: OneUsedContext_def)

lemma SessionId_SessionWithId [simp]: "SessionId (SessionWithId x) = x"
  by (simp add: SessionWithId_def)

theorem SpdmAllocateSessionId_result_witness:
  "SpdmAllocateReqSessionId HalfFreeContext = 0xFFFE \<and>
   SpdmAllocateReqSessionId HalfFreeContext \<noteq> 0 \<and>
   SpdmAllocateRspSessionId HalfFreeContext = 0 \<and>
   SpdmAllocateReqSessionId FullContext = 0 \<and>
   SpdmAllocateRspSessionId OneUsedContext = 0xFFFE \<and>
   SpdmAllocateRspSessionId OneUsedContext \<noteq> 0"
proof -
  have a: "(1::nat) < length (SessionInfo HalfFreeContext) \<and>
      SessionId (SessionInfo HalfFreeContext ! 1) AND 0xFFFF0000 = 0 \<and>
      (\<forall>j < (1::nat). SessionId (SessionInfo HalfFreeContext ! j) AND 0xFFFF0000 \<noteq> 0)"
    by (simp add: HalfFreeContext_sessions)
  have b: "list_all (\<lambda>s. SessionId s AND 0xFFFF \<noteq> 0) (SessionInfo HalfFreeContext)"
    by (simp add: HalfFreeContext_sessions)
  have c: "list_all (\<lambda>s. SessionId s AND 0xFFFF0000 \<noteq> 0) (SessionInfo FullContext)"
    by (simp add: FullContext_sessions)
  have d: "(1::nat) < length (SessionInfo OneUsedContext) \<and>
      SessionId (SessionInfo OneUsedContext ! 1) AND 0xFFFF = 0 \<and>
      (\<forall>j < (1::nat). SessionId (SessionInfo OneUsedContext ! j) AND 0xFFFF \<noteq> 0)"
    by (simp add: OneUsedContext_sessions)
  show ?thesis
    using a b c d
      SpdmAllocateSessionId_result [of 1 HalfFreeContext 0]
      SpdmAllocateSessionId_result [of 0 FullContext 0]
      SpdmAllocateSessionId_result [of 0 OneUsedContext 1]
    by simp
qed

text \<open>
  C3 as stated says that no allocator ever returns the sentinel 0. On a registry whose
  two slots are both taken, both allocators return 0.
\<close>

theorem SpdmAllocateSessionId_sentinel_counterexample:
  "SpdmAllocateReqSessionId FullContext = 0 \<and> SpdmAllocateRspSessionId FullContext = 0"
  by (simp add: SpdmAllocateReqSessionId_def SpdmAllocateRspSessionId_def
      FullContext_sessions INVALID_SESSION_ID_def)


text \<open>
  C7. For a non-zero session id that no slot holds, on a registry with a free slot:
  SpdmAssignSessionId succeeds and the slot it returns holds the id and the PSK flag; a
  second assign of the same id fails as a duplicate and changes nothing; SpdmFreeSessionId
  returns the same slot, now with the id INVALID_SESSION_ID, the PSK flag cleared and empty
  session transcripts; and a further assign of the same id succeeds again, in that slot.
\<close>

theorem assign_free_assign:
  assumes nz: "Sid \<noteq> INVALID_SESSION_ID"
    and fresh: "list_all (\<lambda>s. SessionId s \<noteq> Sid) (SessionInfo c)"
    and room: "\<not> list_all (\<lambda>s. SessionId s \<noteq> INVALID_SESSION_ID) (SessionInfo c)"
  shows "\<exists>i c1 c2 c3. i < length (SessionInfo c) \<and>
     SpdmAssignSessionId Cfg c Sid Psk = (Inr i, c1) \<and>
     SessionId (SessionInfo c1 ! i) = Sid \<and> UsePsk (SessionInfo c1 ! i) = Psk \<and>
     SpdmAssignSessionId Cfg c1 Sid Psk2 = (Inl DuplicatedSessionId, c1) \<and>
     SpdmFreeSessionId Cfg c1 Sid = (Inr i, c2) \<and>
     SessionId (SessionInfo c2 ! i) = INVALID_SESSION_ID \<and> \<not> UsePsk (SessionInfo c2 ! i) \<and>
     Buffer (MessageK (SessionInfo c2 ! i)) = [] \<and> Buffer (MessageF (SessionInfo c2 ! i)) = [] \<and>
     SpdmAssignSessionId Cfg c2 Sid Psk3 = (Inr i, c3) \<and>
     SessionId (SessionInfo c3 ! i) = Sid \<and> UsePsk (SessionInfo c3 ! i) = Psk3"
proof -
  let ?ss = "SessionInfo c"
  let ?dup = "\<lambda>s. SessionId s = Sid"
  let ?free = "\<lambda>s. SessionId s = INVALID_SESSION_ID"
  have d0: "FirstIndexFrom 0 ?dup ?ss = None"
    using fresh by (simp add: FirstIndexFrom_None)
  have "FirstIndexFrom 0 ?free ?ss \<noteq> None"
    using room by (simp add: FirstIndexFrom_None)
  then obtain i where f0: "FirstIndexFrom 0 ?free ?ss = Some i" by auto
  from FirstIndexFrom_Some [OF f0]
  have il: "i < length ?ss" and ifree: "?free (?ss ! i)"
    and before: "\<forall>j < i. \<not> ?free (?ss ! j)" by auto
  have nodup: "\<forall>j < i. \<not> ?dup (?ss ! j)"
    using fresh il by (auto simp: list_all_length)
  define s1 where "s1 = SpdmSessionInfoInit Cfg c (?ss ! i) Sid Psk"
  define c1 where "c1 = c\<lparr>SessionInfo := ?ss[i := s1], LatestSessionId := Sid\<rparr>"
  have ss1: "SessionInfo c1 = ?ss[i := s1]" by (simp add: c1_def)
  have a1: "SpdmAssignSessionId Cfg c Sid Psk = (Inr i, c1)"
    using nz d0 f0 by (simp add: SpdmAssignSessionId_def c1_def s1_def)
  have id1: "SessionId (SessionInfo c1 ! i) = Sid" and psk1: "UsePsk (SessionInfo c1 ! i) = Psk"
    using il by (simp_all add: ss1 s1_def)
  have d1: "FirstIndexFrom 0 ?dup (SessionInfo c1) = Some i"
    unfolding ss1 by (rule FirstIndexFrom_update) (use il nodup in \<open>simp_all add: s1_def\<close>)
  have a2: "SpdmAssignSessionId Cfg c1 Sid Psk2 = (Inl DuplicatedSessionId, c1)"
    using nz d1 by (simp add: SpdmAssignSessionId_def)
  define s2 where "s2 = SpdmSessionInfoInit Cfg c1 (SessionInfo c1 ! i) INVALID_SESSION_ID False"
  define c2 where "c2 = c1\<lparr>SessionInfo := (SessionInfo c1)[i := s2]\<rparr>"
  have ss2: "SessionInfo c2 = ?ss[i := s2]" by (simp add: c2_def ss1)
  have a3: "SpdmFreeSessionId Cfg c1 Sid = (Inr i, c2)"
    using nz d1 by (simp add: SpdmFreeSessionId_def c2_def s2_def)
  have slot2: "SessionId (SessionInfo c2 ! i) = INVALID_SESSION_ID"
    "\<not> UsePsk (SessionInfo c2 ! i)"
    "Buffer (MessageK (SessionInfo c2 ! i)) = []" "Buffer (MessageF (SessionInfo c2 ! i)) = []"
    using il by (simp_all add: ss2 s2_def)
  have d2: "FirstIndexFrom 0 ?dup (SessionInfo c2) = None"
    unfolding ss2 FirstIndexFrom_None
    by (rule list_all_update) (use fresh nz in \<open>simp_all add: s2_def\<close>)
  have f2: "FirstIndexFrom 0 ?free (SessionInfo c2) = Some i"
    unfolding ss2 by (rule FirstIndexFrom_update) (use il before in \<open>simp_all add: s2_def\<close>)
  define s3 where "s3 = SpdmSessionInfoInit Cfg c2 (SessionInfo c2 ! i) Sid Psk3"
  define c3 where "c3 = c2\<lparr>SessionInfo := (SessionInfo c2)[i := s3], LatestSessionId := Sid\<rparr>"
  have a4: "SpdmAssignSessionId Cfg c2 Sid Psk3 = (Inr i, c3)"
    using nz d2 f2 by (simp add: SpdmAssignSessionId_def c3_def s3_def)
  have slot3: "SessionId (SessionInfo c3 ! i) = Sid" "UsePsk (SessionInfo c3 ! i) = Psk3"
    using il by (simp_all add: c3_def ss2 s3_def)
  show ?thesis
    using il a1 id1 psk1 a2 a3 slot2 a4 slot3 by blast
qed

text \<open>The round trip of section 8, scenario 3, on the initial context of the small
  configuration: id 0x1234FFFF, first without and then with the PSK flag.\<close>

theorem assign_free_assign_witness:
  "\<exists>i c1 c2 c3. i < length (SessionInfo (SpdmInitContext SmallConfig)) \<and>
     SpdmAssignSessionId SmallConfig (SpdmInitContext SmallConfig) 0x1234FFFF False = (Inr i, c1) \<and>
     SessionId (SessionInfo c1 ! i) = 0x1234FFFF \<and> UsePsk (SessionInfo c1 ! i) = False \<and>
     SpdmAssignSessionId SmallConfig c1 0x1234FFFF False = (Inl DuplicatedSessionId, c1) \<and>
     SpdmFreeSessionId SmallConfig c1 0x1234FFFF = (Inr i, c2) \<and>
     SessionId (SessionInfo c2 ! i) = INVALID_SESSION_ID \<and> \<not> UsePsk (SessionInfo c2 ! i) \<and>
     Buffer (MessageK (SessionInfo c2 ! i)) = [] \<and> Buffer (MessageF (SessionInfo c2 ! i)) = [] \<and>
     SpdmAssignSessionId SmallConfig c2 0x1234FFFF True = (Inr i, c3) \<and>
     SessionId (SessionInfo c3 ! i) = 0x1234FFFF \<and> UsePsk (SessionInfo c3 ! i) = True"
proof -
  have ss: "SessionInfo (SpdmInitContext SmallConfig) = [ZeroSessionInfo, ZeroSessionInfo]"
    by (simp add: SpdmInitContext_def SmallConfig_def numeral_2_eq_2)
  have nz: "(0x1234FFFF :: UINT32) \<noteq> INVALID_SESSION_ID"
    by (simp add: INVALID_SESSION_ID_def)
  have fresh: "list_all (\<lambda>s. SessionId s \<noteq> 0x1234FFFF) (SessionInfo (SpdmInitContext SmallConfig))"
    by (simp add: ss ZeroSessionInfo_def)
  have room: "\<not> list_all (\<lambda>s. SessionId s \<noteq> INVALID_SESSION_ID)
                 (SessionInfo (SpdmInitContext SmallConfig))"
    by (simp add: ss ZeroSessionInfo_def INVALID_SESSION_ID_def)
  show ?thesis
    by (rule assign_free_assign [OF nz fresh room])
qed


section \<open>Setting an algorithm parameter\<close>

text \<open>
  C9. A call of SpdmSetData with one of the seven algorithm data types that returns
  RETURN_SUCCESS changes the context in the local algorithm structure only, and there only
  in the field the data type names, which receives the value read from Data. The
  connection information is unchanged, and SpdmGetData of the same data type with
  Location = Connection and a large enough buffer returns the bytes of the corresponding
  field of the connection's algorithm structure, as it was before the set.
\<close>

theorem SpdmSetData_algorithm_frame:
  assumes ok: "SpdmSetData Cfg c DataType Parameter Data = (RETURN_SUCCESS, c')"
    and alg: "DataType = SpdmDataMeasurementHashAlgo \<or> DataType = SpdmDataBaseAsymAlgo \<or>
              DataType = SpdmDataBaseHashAlgo \<or> DataType = SpdmDataDHENamedGroup \<or>
              DataType = SpdmDataAEADCipherSuite \<or> DataType = SpdmDataReqBaseAsymAlg \<or>
              DataType = SpdmDataKeySchedule"
    and loc: "Location GetParameter = SpdmDataLocationConnection"
    and size: "4 \<le> DataSize"
  shows "c' = c\<lparr>LocalContext := (LocalContext c)
                 \<lparr>Local_Algorithm := Local_Algorithm (LocalContext c')\<rparr>\<rparr> \<and>
         ConnectionInfo c' = ConnectionInfo c \<and>
         Local_Algorithm (LocalContext c') =
           (case DataType of
              SpdmDataMeasurementHashAlgo \<Rightarrow>
                (Local_Algorithm (LocalContext c))\<lparr>MeasurementHashAlgo := ReadUint32 Data\<rparr>
            | SpdmDataBaseAsymAlgo \<Rightarrow>
                (Local_Algorithm (LocalContext c))\<lparr>BaseAsymAlgo := ReadUint32 Data\<rparr>
            | SpdmDataBaseHashAlgo \<Rightarrow>
                (Local_Algorithm (LocalContext c))\<lparr>BaseHashAlgo := ReadUint32 Data\<rparr>
            | SpdmDataDHENamedGroup \<Rightarrow>
                (Local_Algorithm (LocalContext c))\<lparr>DHENamedGroup := ReadUint16 Data\<rparr>
            | SpdmDataAEADCipherSuite \<Rightarrow>
                (Local_Algorithm (LocalContext c))\<lparr>AEADCipherSuite := ReadUint16 Data\<rparr>
            | SpdmDataReqBaseAsymAlg \<Rightarrow>
                (Local_Algorithm (LocalContext c))\<lparr>ReqBaseAsymAlg := ReadUint16 Data\<rparr>
            | SpdmDataKeySchedule \<Rightarrow>
                (Local_Algorithm (LocalContext c))\<lparr>KeySchedule := ReadUint16 Data\<rparr>
            | _ \<Rightarrow> Local_Algorithm (LocalContext c)) \<and>
         SpdmGetData Cfg c' DataType GetParameter DataSize =
           (case DataType of
              SpdmDataMeasurementHashAlgo \<Rightarrow>
                (RETURN_SUCCESS,
                 Some (WriteUint32 (MeasurementHashAlgo (Conn_Algorithm (ConnectionInfo c)))), 4)
            | SpdmDataBaseAsymAlgo \<Rightarrow>
                (RETURN_SUCCESS,
                 Some (WriteUint32 (BaseAsymAlgo (Conn_Algorithm (ConnectionInfo c)))), 4)
            | SpdmDataBaseHashAlgo \<Rightarrow>
                (RETURN_SUCCESS,
                 Some (WriteUint32 (BaseHashAlgo (Conn_Algorithm (ConnectionInfo c)))), 4)
            | SpdmDataDHENamedGroup \<Rightarrow>
                (RETURN_SUCCESS,
                 Some (WriteUint16 (DHENamedGroup (Conn_Algorithm (ConnectionInfo c)))), 2)
            | SpdmDataAEADCipherSuite \<Rightarrow>
                (RETURN_SUCCESS,
                 Some (WriteUint16 (AEADCipherSuite (Conn_Algorithm (ConnectionInfo c)))), 2)
            | SpdmDataReqBaseAsymAlg \<Rightarrow>
                (RETURN_SUCCESS,
                 Some (WriteUint16 (ReqBaseAsymAlg (Conn_Algorithm (ConnectionInfo c)))), 2)
            | SpdmDataKeySchedule \<Rightarrow>
                (RETURN_SUCCESS,
                 Some (WriteUint16 (KeySchedule (Conn_Algorithm (ConnectionInfo c)))), 2)
            | _ \<Rightarrow> (RETURN_UNSUPPORTED, None, DataSize))"
proof -
  have nd: "\<not> IsDebugOnlyData Cfg DataType"
    using ok by (auto simp: SpdmSetData_def split: if_splits)
  have sw: "SpdmSetDataSwitch Cfg c DataType Parameter Data = (RETURN_SUCCESS, c')"
    using ok nd by (simp add: SpdmSetData_def SessionInfoCheck_def NeedSessionInfoForData_def)
  have get: "SpdmGetData Cfg c' DataType GetParameter DataSize =
     (case SpdmGetDataSwitch c' DataType GetParameter of
        Inl Status \<Rightarrow> (Status, None, DataSize)
      | Inr TargetData \<Rightarrow>
          (if DataSize < length TargetData
           then (RETURN_BUFFER_TOO_SMALL, None, length TargetData)
           else (RETURN_SUCCESS, Some TargetData, length TargetData)))"
    using nd by (simp add: SpdmGetData_def SessionInfoCheck_def NeedSessionInfoForData_def)
  from alg show ?thesis
  proof (elim disjE)
    assume "DataType = SpdmDataMeasurementHashAlgo"
    then show ?thesis using sw get loc size
      by (auto simp: SetLocalAlgorithm_def ConnectionTarget_def WriteUint32_def split: if_splits)
  next
    assume "DataType = SpdmDataBaseAsymAlgo"
    then show ?thesis using sw get loc size
      by (auto simp: SetLocalAlgorithm_def ConnectionTarget_def WriteUint32_def split: if_splits)
  next
    assume "DataType = SpdmDataBaseHashAlgo"
    then show ?thesis using sw get loc size
      by (auto simp: SetLocalAlgorithm_def ConnectionTarget_def WriteUint32_def split: if_splits)
  next
    assume "DataType = SpdmDataDHENamedGroup"
    then show ?thesis using sw get loc size
      by (auto simp: SetLocalAlgorithm_def ConnectionTarget_def WriteUint16_def split: if_splits)
  next
    assume "DataType = SpdmDataAEADCipherSuite"
    then show ?thesis using sw get loc size
      by (auto simp: SetLocalAlgorithm_def ConnectionTarget_def WriteUint16_def split: if_splits)
  next
    assume "DataType = SpdmDataReqBaseAsymAlg"
    then show ?thesis using sw get loc size
      by (auto simp: SetLocalAlgorithm_def ConnectionTarget_def WriteUint16_def split: if_splits)
  next
    assume "DataType = SpdmDataKeySchedule"
    then show ?thesis using sw get loc size
      by (auto simp: SetLocalAlgorithm_def ConnectionTarget_def WriteUint16_def split: if_splits)
  qed
qed


text \<open>Setting the base hash algorithm to 1 on the initial context, then reading the tag
  back from the connection, which still holds 0.\<close>

theorem SpdmSetData_algorithm_frame_witness:
  "SpdmSetData SmallConfig (SpdmInitContext SmallConfig) SpdmDataBaseHashAlgo LocalParameter
       [1, 0, 0, 0] = (RETURN_SUCCESS, BaseHashSetContext) \<and>
   BaseHashSetContext = (SpdmInitContext SmallConfig)
       \<lparr>LocalContext := (LocalContext (SpdmInitContext SmallConfig))
          \<lparr>Local_Algorithm := Local_Algorithm (LocalContext BaseHashSetContext)\<rparr>\<rparr> \<and>
   ConnectionInfo BaseHashSetContext = ConnectionInfo (SpdmInitContext SmallConfig) \<and>
   Local_Algorithm (LocalContext BaseHashSetContext) =
     (Local_Algorithm (LocalContext (SpdmInitContext SmallConfig)))
       \<lparr>BaseHashAlgo := ReadUint32 [1, 0, 0, 0]\<rparr> \<and>
   SpdmGetData SmallConfig BaseHashSetContext SpdmDataBaseHashAlgo ConnectionParameter 4 =
     (RETURN_SUCCESS,
      Some (WriteUint32 (BaseHashAlgo (Conn_Algorithm (ConnectionInfo (SpdmInitContext SmallConfig))))),
      4)"
proof -
  have ok: "SpdmSetData SmallConfig (SpdmInitContext SmallConfig) SpdmDataBaseHashAlgo
              LocalParameter [1, 0, 0, 0] = (RETURN_SUCCESS, BaseHashSetContext)"
    by (simp add: SpdmSetData_def IsDebugOnlyData_def SmallConfig_def SessionInfoCheck_def
        NeedSessionInfoForData_def BaseHashSetContext_def ReadUint32_def word_rcat_def)
  have loc: "Location ConnectionParameter = SpdmDataLocationConnection"
    by (simp add: ConnectionParameter_def)
  have alg: "SpdmDataBaseHashAlgo = SpdmDataMeasurementHashAlgo \<or>
      SpdmDataBaseHashAlgo = SpdmDataBaseAsymAlgo \<or>
      SpdmDataBaseHashAlgo = SpdmDataBaseHashAlgo \<or>
      SpdmDataBaseHashAlgo = SpdmDataDHENamedGroup \<or>
      SpdmDataBaseHashAlgo = SpdmDataAEADCipherSuite \<or>
      SpdmDataBaseHashAlgo = SpdmDataReqBaseAsymAlg \<or>
      SpdmDataBaseHashAlgo = SpdmDataKeySchedule"
    by simp
  have size: "(4::nat) \<le> 4" by simp
  note frame = SpdmSetData_algorithm_frame [OF ok alg loc size]
  from frame [unfolded SPDM_DATA_TYPE.case] ok show ?thesis
    by blast
qed


section \<open>Transcript hash for the key exchange\<close>

lemma AppendManagedBuffer_fits:
  "length (Buffer b) + length d \<le> MaxBufferSize b \<Longrightarrow>
     AppendManagedBuffer b d = (RETURN_SUCCESS, b\<lparr>Buffer := Buffer b @ d\<rparr>)"
  by (simp add: AppendManagedBuffer_def)

lemma AppendManagedBuffer_overflow:
  "MaxBufferSize b < length (Buffer b) + length d \<Longrightarrow>
     AppendManagedBuffer b d = (RETURN_BUFFER_TOO_SMALL, b)"
  by (simp add: AppendManagedBuffer_def)

lemma SpdmCalculateTHCurrAK_cert:
  "SpdmCalculateTHCurrAK Cfg Crypto c Info (Some Cert) =
     (let A = Buffer (MessageA (Transcript c)); H = HashData Crypto c Cert;
          K = Buffer (MessageK Info); Max = MAX_SPDM_MESSAGE_BUFFER_SIZE Cfg
      in if Max < length A then (False, \<lparr>MaxBufferSize = Max, Buffer = []\<rparr>)
         else if Max < length A + length H then (False, \<lparr>MaxBufferSize = Max, Buffer = A\<rparr>)
         else if Max < length A + length H + length K
         then (False, \<lparr>MaxBufferSize = Max, Buffer = A @ H\<rparr>)
         else (True, \<lparr>MaxBufferSize = Max, Buffer = A @ H @ K\<rparr>))"
  by (simp add: SpdmCalculateTHCurrAK_def AppendManagedBuffer_def InitManagedBuffer_def
      GetManagedBuffer_def RETURN_ERROR_def Let_def)

lemma SpdmCalculateTHCurrAK_psk:
  "SpdmCalculateTHCurrAK Cfg Crypto c Info None =
     (let A = Buffer (MessageA (Transcript c));
          K = Buffer (MessageK Info); Max = MAX_SPDM_MESSAGE_BUFFER_SIZE Cfg
      in if Max < length A then (False, \<lparr>MaxBufferSize = Max, Buffer = []\<rparr>)
         else if Max < length A + length K then (False, \<lparr>MaxBufferSize = Max, Buffer = A\<rparr>)
         else (True, \<lparr>MaxBufferSize = Max, Buffer = A @ K\<rparr>))"
  by (simp add: SpdmCalculateTHCurrAK_def AppendManagedBuffer_def InitManagedBuffer_def
      GetManagedBuffer_def RETURN_ERROR_def Let_def)

text \<open>
  C4. SpdmCalculateTHCurrAK returns TRUE exactly when the concatenation fits the buffer of
  MAX_SPDM_MESSAGE_BUFFER_SIZE bytes, and then THCurr holds A || H(cert_chain) || MessageK,
  where H(cert_chain) is the HashSize bytes of the hash of the certificate buffer. With no
  certificate buffer (the PSK callers pass NULL) the hash term contributes no byte: THCurr
  holds A || MessageK, and SpdmGeneratePskExchangeRspHmac computes its HMAC over exactly
  these bytes.
\<close>

theorem SpdmCalculateTHCurrAK_content:
  "fst (SpdmCalculateTHCurrAK Cfg Crypto c Info (Some Cert)) =
     (length (Buffer (MessageA (Transcript c))) + length (HashData Crypto c Cert) +
      length (Buffer (MessageK Info)) \<le> MAX_SPDM_MESSAGE_BUFFER_SIZE Cfg) \<and>
   (fst (SpdmCalculateTHCurrAK Cfg Crypto c Info (Some Cert)) \<longrightarrow>
      GetManagedBuffer (snd (SpdmCalculateTHCurrAK Cfg Crypto c Info (Some Cert))) =
        Buffer (MessageA (Transcript c)) @ HashData Crypto c Cert @ Buffer (MessageK Info)) \<and>
   (length (SpdmHashAll Crypto (BaseHashAlgo (Conn_Algorithm (ConnectionInfo c))) Cert) =
      GetSpdmHashSize Crypto (BaseHashAlgo (Conn_Algorithm (ConnectionInfo c))) \<longrightarrow>
      HashData Crypto c Cert =
        SpdmHashAll Crypto (BaseHashAlgo (Conn_Algorithm (ConnectionInfo c))) Cert) \<and>
   fst (SpdmCalculateTHCurrAK Cfg Crypto c Info None) =
     (length (Buffer (MessageA (Transcript c))) + length (Buffer (MessageK Info))
        \<le> MAX_SPDM_MESSAGE_BUFFER_SIZE Cfg) \<and>
   (fst (SpdmCalculateTHCurrAK Cfg Crypto c Info None) \<longrightarrow>
      GetManagedBuffer (snd (SpdmCalculateTHCurrAK Cfg Crypto c Info None)) =
        Buffer (MessageA (Transcript c)) @ Buffer (MessageK Info) \<and>
      SpdmGeneratePskExchangeRspHmac Cfg Crypto c Info =
        Some (take (GetSpdmHashSize Crypto (BaseHashAlgo (Conn_Algorithm (ConnectionInfo c))))
                (SpdmHmacAllWithResponseFinishedKey Crypto (SecuredMessageContext Info)
                   (Buffer (MessageA (Transcript c)) @ Buffer (MessageK Info)))))"
proof (intro conjI impI)
  show "fst (SpdmCalculateTHCurrAK Cfg Crypto c Info (Some Cert)) =
     (length (Buffer (MessageA (Transcript c))) + length (HashData Crypto c Cert) +
      length (Buffer (MessageK Info)) \<le> MAX_SPDM_MESSAGE_BUFFER_SIZE Cfg)"
    by (auto simp: SpdmCalculateTHCurrAK_cert Let_def)
next
  assume "fst (SpdmCalculateTHCurrAK Cfg Crypto c Info (Some Cert))"
  then show "GetManagedBuffer (snd (SpdmCalculateTHCurrAK Cfg Crypto c Info (Some Cert))) =
        Buffer (MessageA (Transcript c)) @ HashData Crypto c Cert @ Buffer (MessageK Info)"
    by (auto simp: SpdmCalculateTHCurrAK_cert Let_def GetManagedBuffer_def split: if_splits)
next
  assume "length (SpdmHashAll Crypto (BaseHashAlgo (Conn_Algorithm (ConnectionInfo c))) Cert) =
      GetSpdmHashSize Crypto (BaseHashAlgo (Conn_Algorithm (ConnectionInfo c)))"
  then show "HashData Crypto c Cert =
        SpdmHashAll Crypto (BaseHashAlgo (Conn_Algorithm (ConnectionInfo c))) Cert"
    by (simp add: HashData_def Let_def)
next
  show "fst (SpdmCalculateTHCurrAK Cfg Crypto c Info None) =
     (length (Buffer (MessageA (Transcript c))) + length (Buffer (MessageK Info))
        \<le> MAX_SPDM_MESSAGE_BUFFER_SIZE Cfg)"
    by (auto simp: SpdmCalculateTHCurrAK_psk Let_def)
next
  assume "fst (SpdmCalculateTHCurrAK Cfg Crypto c Info None)"
  then show "GetManagedBuffer (snd (SpdmCalculateTHCurrAK Cfg Crypto c Info None)) =
        Buffer (MessageA (Transcript c)) @ Buffer (MessageK Info)"
    by (auto simp: SpdmCalculateTHCurrAK_psk Let_def GetManagedBuffer_def split: if_splits)
next
  assume "fst (SpdmCalculateTHCurrAK Cfg Crypto c Info None)"
  then show "SpdmGeneratePskExchangeRspHmac Cfg Crypto c Info =
        Some (take (GetSpdmHashSize Crypto (BaseHashAlgo (Conn_Algorithm (ConnectionInfo c))))
                (SpdmHmacAllWithResponseFinishedKey Crypto (SecuredMessageContext Info)
                   (Buffer (MessageA (Transcript c)) @ Buffer (MessageK Info))))"
    by (auto simp: SpdmGeneratePskExchangeRspHmac_def SpdmCalculateTHCurrAK_psk Let_def
        GetManagedBuffer_def split: if_splits)
qed

lemma LedgerContext_buffers:
  "Buffer (MessageA (Transcript LedgerContext)) = [0xA]"
  "Buffer (MessageB (Transcript LedgerContext)) = [0xB]"
  "Buffer (MessageC (Transcript LedgerContext)) = [0xC]"
  "Buffer (MessageMutB (Transcript LedgerContext)) = [0x1B]"
  "Buffer (MessageMutC (Transcript LedgerContext)) = [0x1C]"
  "Buffer (M1M2 (Transcript LedgerContext)) = []"
  by (simp_all add: LedgerContext_def SetTranscript_def SpdmInitContext_def InitManagedBuffer_def)

lemma LedgerContext_capacity:
  "MaxBufferSize (MessageA (Transcript LedgerContext)) = 128"
  "MaxBufferSize (MessageB (Transcript LedgerContext)) = 256"
  "MaxBufferSize (MessageC (Transcript LedgerContext)) = 128"
  "MaxBufferSize (MessageMutB (Transcript LedgerContext)) = 256"
  "MaxBufferSize (MessageMutC (Transcript LedgerContext)) = 128"
  "MaxBufferSize (M1M2 (Transcript LedgerContext)) = 256"
  by (simp_all add: LedgerContext_def SetTranscript_def SpdmInitContext_def InitManagedBuffer_def
      SmallConfig_def)

lemma LedgerContext_hash:
  "HashData TransparentCrypto LedgerContext Msg = PadTo 8 Msg"
  by (simp add: HashData_def TransparentCrypto_def PadTo_def)

text \<open>On the one-byte ledger A, the certificate [0x43] and the two-byte MessageK: the
  input with the certificate has the 8 bytes of its hash between A and K, the PSK input
  has A and K only.\<close>

theorem SpdmCalculateTHCurrAK_content_witness:
  "fst (SpdmCalculateTHCurrAK SmallConfig TransparentCrypto LedgerContext KSession (Some [0x43])) \<and>
   GetManagedBuffer (snd (SpdmCalculateTHCurrAK SmallConfig TransparentCrypto LedgerContext KSession
                            (Some [0x43]))) =
     [0xA, 0x43, 0, 0, 0, 0, 0, 0, 0, 0x4B, 0x4C] \<and>
   HashData TransparentCrypto LedgerContext [0x43] = [0x43, 0, 0, 0, 0, 0, 0, 0] \<and>
   fst (SpdmCalculateTHCurrAK SmallConfig TransparentCrypto LedgerContext KSession None) \<and>
   GetManagedBuffer (snd (SpdmCalculateTHCurrAK SmallConfig TransparentCrypto LedgerContext KSession
                            None)) = [0xA, 0x4B, 0x4C] \<and>
   SpdmGeneratePskExchangeRspHmac SmallConfig TransparentCrypto LedgerContext KSession =
     Some [0xA, 0x4B, 0x4C]"
proof -
  have h: "HashData TransparentCrypto LedgerContext [0x43] = [0x43, 0, 0, 0, 0, 0, 0, 0]"
    by (simp add: LedgerContext_hash PadTo_def numeral_eq_Suc)
  have k: "Buffer (MessageK KSession) = [0x4B, 0x4C]"
    by (simp add: KSession_def)
  have m: "MAX_SPDM_MESSAGE_BUFFER_SIZE SmallConfig = 256"
    by (simp add: SmallConfig_def)
  have hs: "GetSpdmHashSize TransparentCrypto x = 8" for x
    by (simp add: TransparentCrypto_def)
  have hm: "SpdmHmacAllWithResponseFinishedKey TransparentCrypto x Msg = Msg" for x Msg
    by (simp add: TransparentCrypto_def)
  have hl: "length (SpdmHashAll TransparentCrypto
              (BaseHashAlgo (Conn_Algorithm (ConnectionInfo LedgerContext))) [0x43]) =
            GetSpdmHashSize TransparentCrypto
              (BaseHashAlgo (Conn_Algorithm (ConnectionInfo LedgerContext)))"
    by (simp add: TransparentCrypto_def PadTo_def)
  show ?thesis
    using SpdmCalculateTHCurrAK_content
      [of SmallConfig TransparentCrypto LedgerContext KSession "[0x43]"] hl
    by (simp add: h k m hs hm LedgerContext_buffers)
qed


section \<open>The transcript signed in CHALLENGE_AUTH\<close>

lemma SpdmGenerateChallengeAuthSignature_requester:
  "SpdmGenerateChallengeAuthSignature Crypto c True Msg =
     (let T = Transcript c; MutB = Buffer (MessageMutB T); MutC = Buffer (MessageMutC T);
          M = Buffer (M1M2 T)
      in if MaxBufferSize (MessageMutC T) < length MutC + length Msg then (None, c)
         else if MaxBufferSize (M1M2 T) < length M + length MutB
         then (None, c\<lparr>Transcript := T\<lparr>MessageMutC := (MessageMutC T)\<lparr>Buffer := MutC @ Msg\<rparr>\<rparr>\<rparr>)
         else if MaxBufferSize (M1M2 T) < length M + length MutB + (length MutC + length Msg)
         then (None, c\<lparr>Transcript := T\<lparr>MessageMutC := (MessageMutC T)\<lparr>Buffer := MutC @ Msg\<rparr>,
                                         M1M2 := (M1M2 T)\<lparr>Buffer := M @ MutB\<rparr>\<rparr>\<rparr>)
         else (SpdmRequesterDataSignFunc Crypto (ReqBaseAsymAlg (Conn_Algorithm (ConnectionInfo c)))
                 (HashData Crypto c (M @ MutB @ MutC @ Msg)),
               c\<lparr>Transcript := T\<lparr>MessageMutC := (MessageMutC T)\<lparr>Buffer := MutC @ Msg\<rparr>,
                                  M1M2 := (M1M2 T)\<lparr>Buffer := M @ MutB @ MutC @ Msg\<rparr>\<rparr>\<rparr>))"
  by (simp add: SpdmGenerateChallengeAuthSignature_def AppendManagedBuffer_def RETURN_ERROR_def
      SetTranscript_def GetManagedBuffer_def Let_def HashData_def)

lemma SpdmGenerateChallengeAuthSignature_responder:
  "SpdmGenerateChallengeAuthSignature Crypto c False Msg =
     (let T = Transcript c; A = Buffer (MessageA T); B = Buffer (MessageB T);
          C = Buffer (MessageC T); M = Buffer (M1M2 T)
      in if MaxBufferSize (MessageC T) < length C + length Msg then (None, c)
         else if MaxBufferSize (M1M2 T) < length M + length A
         then (None, c\<lparr>Transcript := T\<lparr>MessageC := (MessageC T)\<lparr>Buffer := C @ Msg\<rparr>\<rparr>\<rparr>)
         else if MaxBufferSize (M1M2 T) < length M + length A + length B
         then (None, c\<lparr>Transcript := T\<lparr>MessageC := (MessageC T)\<lparr>Buffer := C @ Msg\<rparr>,
                                         M1M2 := (M1M2 T)\<lparr>Buffer := M @ A\<rparr>\<rparr>\<rparr>)
         else if MaxBufferSize (M1M2 T) < length M + length A + length B + (length C + length Msg)
         then (None, c\<lparr>Transcript := T\<lparr>MessageC := (MessageC T)\<lparr>Buffer := C @ Msg\<rparr>,
                                         M1M2 := (M1M2 T)\<lparr>Buffer := M @ A @ B\<rparr>\<rparr>\<rparr>)
         else (SpdmResponderDataSignFunc Crypto (BaseAsymAlgo (Conn_Algorithm (ConnectionInfo c)))
                 (HashData Crypto c (M @ A @ B @ C @ Msg)),
               c\<lparr>Transcript := T\<lparr>MessageC := (MessageC T)\<lparr>Buffer := C @ Msg\<rparr>,
                                  M1M2 := (M1M2 T)\<lparr>Buffer := M @ A @ B @ C @ Msg\<rparr>\<rparr>\<rparr>))"
  by (simp add: SpdmGenerateChallengeAuthSignature_def AppendManagedBuffer_def RETURN_ERROR_def
      SetTranscript_def GetManagedBuffer_def Let_def HashData_def)

lemma SpdmVerifyChallengeAuthSignature_ledgers:
  "M1M2 t = M1M2 (Transcript c) \<Longrightarrow>
   SpdmVerifyChallengeAuthSignature Crypto (c\<lparr>Transcript := t\<rparr>) IsRequester Sig =
   SpdmVerifyChallengeAuthSignature Crypto c IsRequester Sig"
  by (simp add: SpdmVerifyChallengeAuthSignature_def HashData_def PeerCertChain_def Let_def)

lemma SpdmVerifyChallengeAuthSignature_requester:
  assumes "PeerCertChain c = Some Chain"
    and "X509GetCertFromCertChain Crypto Chain
           (SIZEOF_SPDM_CERT_CHAIN +
            GetSpdmHashSize Crypto (BaseHashAlgo (Conn_Algorithm (ConnectionInfo c))))
           (UINTN_Sub (length Chain)
              (SIZEOF_SPDM_CERT_CHAIN +
               GetSpdmHashSize Crypto (BaseHashAlgo (Conn_Algorithm (ConnectionInfo c))))) =
         Some Cert"
    and "SpdmAsymGetPublicKeyFromX509 Crypto
           (BaseAsymAlgo (Conn_Algorithm (ConnectionInfo c))) Cert = Some Key"
  shows "SpdmVerifyChallengeAuthSignature Crypto c True Sig =
         SpdmAsymVerify Crypto (BaseAsymAlgo (Conn_Algorithm (ConnectionInfo c))) Key
           (HashData Crypto c (Buffer (M1M2 (Transcript c)))) Sig"
  using assms
  by (simp add: SpdmVerifyChallengeAuthSignature_def GetManagedBuffer_def Let_def)

lemma SpdmVerifyChallengeAuthSignature_responder:
  assumes "PeerCertChain c = Some Chain"
    and "X509GetCertFromCertChain Crypto Chain
           (SIZEOF_SPDM_CERT_CHAIN +
            GetSpdmHashSize Crypto (BaseHashAlgo (Conn_Algorithm (ConnectionInfo c))))
           (UINTN_Sub (length Chain)
              (SIZEOF_SPDM_CERT_CHAIN +
               GetSpdmHashSize Crypto (BaseHashAlgo (Conn_Algorithm (ConnectionInfo c))))) =
         Some Cert"
    and "SpdmReqAsymGetPublicKeyFromX509 Crypto
           (ReqBaseAsymAlg (Conn_Algorithm (ConnectionInfo c))) Cert = Some Key"
  shows "SpdmVerifyChallengeAuthSignature Crypto c False Sig =
         SpdmReqAsymVerify Crypto (ReqBaseAsymAlg (Conn_Algorithm (ConnectionInfo c))) Key
           (HashData Crypto c (Buffer (M1M2 (Transcript c)))) Sig"
  using assms
  by (simp add: SpdmVerifyChallengeAuthSignature_def GetManagedBuffer_def Let_def)

text \<open>
  C1 (as the code has it). With IsRequester = TRUE, a signature that
  SpdmGenerateChallengeAuthSignature returns is the requester signature of the hash of
  M1M2, to which the function has appended MutB and then MutC (MutC with the message being
  signed): for an M1M2 that is empty on entry the signed transcript is MutB || MutC, and
  ledger A is not part of it. With IsRequester = FALSE it is the responder signature of
  the hash of M1M2 after A, B and C were appended: A || B || C for an empty M1M2. The
  signature is produced whenever the appends fit the buffers. SpdmVerifyChallengeAuthSignature
  appends nothing: where the leaf certificate and its public key are obtained from the
  peer chain, its result is the asymmetric verification of the signature against the hash
  of the bytes that M1M2 holds (SpdmAsymVerify with IsRequester = TRUE, SpdmReqAsymVerify
  with FALSE), and the result is the same on every transcript with the same M1M2.
\<close>

theorem ChallengeAuthSignature_transcript:
  "(SpdmGenerateChallengeAuthSignature Crypto c True Msg = (Some Sig, c') \<longrightarrow>
      Buffer (M1M2 (Transcript c')) =
        Buffer (M1M2 (Transcript c)) @ Buffer (MessageMutB (Transcript c)) @
        Buffer (MessageMutC (Transcript c)) @ Msg \<and>
      Buffer (MessageMutC (Transcript c')) = Buffer (MessageMutC (Transcript c)) @ Msg \<and>
      SpdmRequesterDataSignFunc Crypto (ReqBaseAsymAlg (Conn_Algorithm (ConnectionInfo c)))
        (HashData Crypto c (Buffer (M1M2 (Transcript c')))) = Some Sig) \<and>
   (length (Buffer (MessageMutC (Transcript c))) + length Msg
        \<le> MaxBufferSize (MessageMutC (Transcript c)) \<and>
    length (Buffer (M1M2 (Transcript c))) + length (Buffer (MessageMutB (Transcript c))) +
      (length (Buffer (MessageMutC (Transcript c))) + length Msg)
        \<le> MaxBufferSize (M1M2 (Transcript c)) \<longrightarrow>
      fst (SpdmGenerateChallengeAuthSignature Crypto c True Msg) =
        SpdmRequesterDataSignFunc Crypto (ReqBaseAsymAlg (Conn_Algorithm (ConnectionInfo c)))
          (HashData Crypto c
             (Buffer (M1M2 (Transcript c)) @ Buffer (MessageMutB (Transcript c)) @
              Buffer (MessageMutC (Transcript c)) @ Msg))) \<and>
   (SpdmGenerateChallengeAuthSignature Crypto c False Msg = (Some Sig, c') \<longrightarrow>
      Buffer (M1M2 (Transcript c')) =
        Buffer (M1M2 (Transcript c)) @ Buffer (MessageA (Transcript c)) @
        Buffer (MessageB (Transcript c)) @ Buffer (MessageC (Transcript c)) @ Msg \<and>
      Buffer (MessageC (Transcript c')) = Buffer (MessageC (Transcript c)) @ Msg \<and>
      SpdmResponderDataSignFunc Crypto (BaseAsymAlgo (Conn_Algorithm (ConnectionInfo c)))
        (HashData Crypto c (Buffer (M1M2 (Transcript c')))) = Some Sig) \<and>
   (length (Buffer (MessageC (Transcript c))) + length Msg
        \<le> MaxBufferSize (MessageC (Transcript c)) \<and>
    length (Buffer (M1M2 (Transcript c))) + length (Buffer (MessageA (Transcript c))) +
      length (Buffer (MessageB (Transcript c))) +
      (length (Buffer (MessageC (Transcript c))) + length Msg)
        \<le> MaxBufferSize (M1M2 (Transcript c)) \<longrightarrow>
      fst (SpdmGenerateChallengeAuthSignature Crypto c False Msg) =
        SpdmResponderDataSignFunc Crypto (BaseAsymAlgo (Conn_Algorithm (ConnectionInfo c)))
          (HashData Crypto c
             (Buffer (M1M2 (Transcript c)) @ Buffer (MessageA (Transcript c)) @
              Buffer (MessageB (Transcript c)) @ Buffer (MessageC (Transcript c)) @ Msg))) \<and>
   (PeerCertChain c = Some Chain \<and>
    X509GetCertFromCertChain Crypto Chain
      (SIZEOF_SPDM_CERT_CHAIN +
       GetSpdmHashSize Crypto (BaseHashAlgo (Conn_Algorithm (ConnectionInfo c))))
      (UINTN_Sub (length Chain)
         (SIZEOF_SPDM_CERT_CHAIN +
          GetSpdmHashSize Crypto (BaseHashAlgo (Conn_Algorithm (ConnectionInfo c))))) =
      Some Cert \<and>
    SpdmAsymGetPublicKeyFromX509 Crypto
      (BaseAsymAlgo (Conn_Algorithm (ConnectionInfo c))) Cert = Some Key \<longrightarrow>
      SpdmVerifyChallengeAuthSignature Crypto c True SignData =
        SpdmAsymVerify Crypto (BaseAsymAlgo (Conn_Algorithm (ConnectionInfo c))) Key
          (HashData Crypto c (Buffer (M1M2 (Transcript c)))) SignData) \<and>
   (PeerCertChain c = Some Chain \<and>
    X509GetCertFromCertChain Crypto Chain
      (SIZEOF_SPDM_CERT_CHAIN +
       GetSpdmHashSize Crypto (BaseHashAlgo (Conn_Algorithm (ConnectionInfo c))))
      (UINTN_Sub (length Chain)
         (SIZEOF_SPDM_CERT_CHAIN +
          GetSpdmHashSize Crypto (BaseHashAlgo (Conn_Algorithm (ConnectionInfo c))))) =
      Some Cert \<and>
    SpdmReqAsymGetPublicKeyFromX509 Crypto
      (ReqBaseAsymAlg (Conn_Algorithm (ConnectionInfo c))) Cert = Some ReqKey \<longrightarrow>
      SpdmVerifyChallengeAuthSignature Crypto c False SignData =
        SpdmReqAsymVerify Crypto (ReqBaseAsymAlg (Conn_Algorithm (ConnectionInfo c))) ReqKey
          (HashData Crypto c (Buffer (M1M2 (Transcript c)))) SignData) \<and>
   (M1M2 t = M1M2 (Transcript c) \<longrightarrow>
      SpdmVerifyChallengeAuthSignature Crypto (c\<lparr>Transcript := t\<rparr>) IsRequester SignData =
      SpdmVerifyChallengeAuthSignature Crypto c IsRequester SignData)"
proof (intro conjI impI)
  assume "SpdmGenerateChallengeAuthSignature Crypto c True Msg = (Some Sig, c')"
  then have r: "c' = c\<lparr>Transcript := (Transcript c)
        \<lparr>MessageMutC := (MessageMutC (Transcript c))
           \<lparr>Buffer := Buffer (MessageMutC (Transcript c)) @ Msg\<rparr>,
         M1M2 := (M1M2 (Transcript c))
           \<lparr>Buffer := Buffer (M1M2 (Transcript c)) @ Buffer (MessageMutB (Transcript c)) @
                      Buffer (MessageMutC (Transcript c)) @ Msg\<rparr>\<rparr>\<rparr> \<and>
      SpdmRequesterDataSignFunc Crypto (ReqBaseAsymAlg (Conn_Algorithm (ConnectionInfo c)))
        (HashData Crypto c (Buffer (M1M2 (Transcript c)) @ Buffer (MessageMutB (Transcript c)) @
                      Buffer (MessageMutC (Transcript c)) @ Msg)) = Some Sig"
    by (simp add: SpdmGenerateChallengeAuthSignature_requester Let_def split: if_splits)
  from r show "Buffer (M1M2 (Transcript c')) =
        Buffer (M1M2 (Transcript c)) @ Buffer (MessageMutB (Transcript c)) @
        Buffer (MessageMutC (Transcript c)) @ Msg" by simp
  from r show "Buffer (MessageMutC (Transcript c')) = Buffer (MessageMutC (Transcript c)) @ Msg"
    by simp
  from r show "SpdmRequesterDataSignFunc Crypto (ReqBaseAsymAlg (Conn_Algorithm (ConnectionInfo c)))
        (HashData Crypto c (Buffer (M1M2 (Transcript c')))) = Some Sig" by simp
next
  assume "length (Buffer (MessageMutC (Transcript c))) + length Msg
        \<le> MaxBufferSize (MessageMutC (Transcript c)) \<and>
    length (Buffer (M1M2 (Transcript c))) + length (Buffer (MessageMutB (Transcript c))) +
      (length (Buffer (MessageMutC (Transcript c))) + length Msg)
        \<le> MaxBufferSize (M1M2 (Transcript c))"
  then show "fst (SpdmGenerateChallengeAuthSignature Crypto c True Msg) =
        SpdmRequesterDataSignFunc Crypto (ReqBaseAsymAlg (Conn_Algorithm (ConnectionInfo c)))
          (HashData Crypto c
             (Buffer (M1M2 (Transcript c)) @ Buffer (MessageMutB (Transcript c)) @
              Buffer (MessageMutC (Transcript c)) @ Msg))"
    by (simp add: SpdmGenerateChallengeAuthSignature_requester Let_def)
next
  assume "SpdmGenerateChallengeAuthSignature Crypto c False Msg = (Some Sig, c')"
  then have r: "c' = c\<lparr>Transcript := (Transcript c)
        \<lparr>MessageC := (MessageC (Transcript c))
           \<lparr>Buffer := Buffer (MessageC (Transcript c)) @ Msg\<rparr>,
         M1M2 := (M1M2 (Transcript c))
           \<lparr>Buffer := Buffer (M1M2 (Transcript c)) @ Buffer (MessageA (Transcript c)) @
                      Buffer (MessageB (Transcript c)) @ Buffer (MessageC (Transcript c)) @ Msg\<rparr>\<rparr>\<rparr> \<and>
      SpdmResponderDataSignFunc Crypto (BaseAsymAlgo (Conn_Algorithm (ConnectionInfo c)))
        (HashData Crypto c (Buffer (M1M2 (Transcript c)) @ Buffer (MessageA (Transcript c)) @
                      Buffer (MessageB (Transcript c)) @ Buffer (MessageC (Transcript c)) @ Msg))
        = Some Sig"
    by (simp add: SpdmGenerateChallengeAuthSignature_responder Let_def split: if_splits)
  from r show "Buffer (M1M2 (Transcript c')) =
        Buffer (M1M2 (Transcript c)) @ Buffer (MessageA (Transcript c)) @
        Buffer (MessageB (Transcript c)) @ Buffer (MessageC (Transcript c)) @ Msg" by simp
  from r show "Buffer (MessageC (Transcript c')) = Buffer (MessageC (Transcript c)) @ Msg"
    by simp
  from r show "SpdmResponderDataSignFunc Crypto (BaseAsymAlgo (Conn_Algorithm (ConnectionInfo c)))
        (HashData Crypto c (Buffer (M1M2 (Transcript c')))) = Some Sig" by simp
next
  assume "length (Buffer (MessageC (Transcript c))) + length Msg
        \<le> MaxBufferSize (MessageC (Transcript c)) \<and>
    length (Buffer (M1M2 (Transcript c))) + length (Buffer (MessageA (Transcript c))) +
      length (Buffer (MessageB (Transcript c))) +
      (length (Buffer (MessageC (Transcript c))) + length Msg)
        \<le> MaxBufferSize (M1M2 (Transcript c))"
  then show "fst (SpdmGenerateChallengeAuthSignature Crypto c False Msg) =
        SpdmResponderDataSignFunc Crypto (BaseAsymAlgo (Conn_Algorithm (ConnectionInfo c)))
          (HashData Crypto c
             (Buffer (M1M2 (Transcript c)) @ Buffer (MessageA (Transcript c)) @
              Buffer (MessageB (Transcript c)) @ Buffer (MessageC (Transcript c)) @ Msg))"
    by (simp add: SpdmGenerateChallengeAuthSignature_responder Let_def)
next
  assume "PeerCertChain c = Some Chain \<and>
    X509GetCertFromCertChain Crypto Chain
      (SIZEOF_SPDM_CERT_CHAIN +
       GetSpdmHashSize Crypto (BaseHashAlgo (Conn_Algorithm (ConnectionInfo c))))
      (UINTN_Sub (length Chain)
         (SIZEOF_SPDM_CERT_CHAIN +
          GetSpdmHashSize Crypto (BaseHashAlgo (Conn_Algorithm (ConnectionInfo c))))) =
      Some Cert \<and>
    SpdmAsymGetPublicKeyFromX509 Crypto
      (BaseAsymAlgo (Conn_Algorithm (ConnectionInfo c))) Cert = Some Key"
  then show "SpdmVerifyChallengeAuthSignature Crypto c True SignData =
        SpdmAsymVerify Crypto (BaseAsymAlgo (Conn_Algorithm (ConnectionInfo c))) Key
          (HashData Crypto c (Buffer (M1M2 (Transcript c)))) SignData"
    using SpdmVerifyChallengeAuthSignature_requester by blast
next
  assume "PeerCertChain c = Some Chain \<and>
    X509GetCertFromCertChain Crypto Chain
      (SIZEOF_SPDM_CERT_CHAIN +
       GetSpdmHashSize Crypto (BaseHashAlgo (Conn_Algorithm (ConnectionInfo c))))
      (UINTN_Sub (length Chain)
         (SIZEOF_SPDM_CERT_CHAIN +
          GetSpdmHashSize Crypto (BaseHashAlgo (Conn_Algorithm (ConnectionInfo c))))) =
      Some Cert \<and>
    SpdmReqAsymGetPublicKeyFromX509 Crypto
      (ReqBaseAsymAlg (Conn_Algorithm (ConnectionInfo c))) Cert = Some ReqKey"
  then show "SpdmVerifyChallengeAuthSignature Crypto c False SignData =
        SpdmReqAsymVerify Crypto (ReqBaseAsymAlg (Conn_Algorithm (ConnectionInfo c))) ReqKey
          (HashData Crypto c (Buffer (M1M2 (Transcript c)))) SignData"
    using SpdmVerifyChallengeAuthSignature_responder by blast
next
  assume "M1M2 t = M1M2 (Transcript c)"
  then show "SpdmVerifyChallengeAuthSignature Crypto (c\<lparr>Transcript := t\<rparr>) IsRequester SignData =
      SpdmVerifyChallengeAuthSignature Crypto c IsRequester SignData"
    by (rule SpdmVerifyChallengeAuthSignature_ledgers)
qed


lemma LedgerContext_algorithms:
  "ReqBaseAsymAlg (Conn_Algorithm (ConnectionInfo LedgerContext)) = 0"
  "BaseAsymAlgo (Conn_Algorithm (ConnectionInfo LedgerContext)) = 0"
  by (simp_all add: LedgerContext_def SetTranscript_def SpdmInitContext_def ZeroAlgorithm_def)

lemma TransparentCrypto_sign:
  "SpdmRequesterDataSignFunc TransparentCrypto Algo16 Hash = Some Hash"
  "SpdmResponderDataSignFunc TransparentCrypto Algo32 Hash = Some Hash"
  by (simp_all add: TransparentCrypto_def)

lemma LedgerContext_requester_signature:
  "fst (SpdmGenerateChallengeAuthSignature TransparentCrypto LedgerContext True [0xD]) =
     Some [0x1B, 0x1C, 0xD, 0, 0, 0, 0, 0]"
  "Buffer (M1M2 (Transcript (snd (SpdmGenerateChallengeAuthSignature TransparentCrypto
                                    LedgerContext True [0xD])))) = [0x1B, 0x1C, 0xD]"
  by (simp_all add: SpdmGenerateChallengeAuthSignature_requester LedgerContext_buffers
      LedgerContext_capacity LedgerContext_hash TransparentCrypto_sign PadTo_def Let_def
      numeral_eq_Suc)

lemma LedgerContext_responder_signature:
  "fst (SpdmGenerateChallengeAuthSignature TransparentCrypto LedgerContext False [0xD]) =
     Some [0xA, 0xB, 0xC, 0xD, 0, 0, 0, 0]"
  "Buffer (M1M2 (Transcript (snd (SpdmGenerateChallengeAuthSignature TransparentCrypto
                                    LedgerContext False [0xD])))) = [0xA, 0xB, 0xC, 0xD]"
  by (simp_all add: SpdmGenerateChallengeAuthSignature_responder LedgerContext_buffers
      LedgerContext_capacity LedgerContext_hash TransparentCrypto_sign PadTo_def Let_def
      numeral_eq_Suc)

lemma VerifierContext_fields:
  "PeerCertChain VerifierContext = Some PeerChainBytes"
  "Buffer (M1M2 (Transcript VerifierContext)) = [0x0A, 0x0B, 0x0C, 0x0D]"
  "BaseAsymAlgo (Conn_Algorithm (ConnectionInfo VerifierContext)) = 0"
  "BaseHashAlgo (Conn_Algorithm (ConnectionInfo VerifierContext)) = 0"
  "HashData TransparentCrypto VerifierContext Msg = PadTo 8 Msg"
  by (simp_all add: VerifierContext_def ProvisionedContext_def ReadyContext_def
      LedgerContext_def SetTranscript_def SpdmInitContext_def ZeroAlgorithm_def
      PeerCertChain_def PeerChainBytes_def HashData_def TransparentCrypto_def PadTo_def)

lemma PeerChainBytes_leaf:
  "X509GetCertFromCertChain TransparentCrypto PeerChainBytes
     (SIZEOF_SPDM_CERT_CHAIN + GetSpdmHashSize TransparentCrypto Algo)
     (UINTN_Sub (length PeerChainBytes)
        (SIZEOF_SPDM_CERT_CHAIN + GetSpdmHashSize TransparentCrypto Algo)) = Some [0x30, 0x82]"
  "SpdmAsymGetPublicKeyFromX509 TransparentCrypto Algo2 Cert = Some Cert"
  "SpdmAsymVerify TransparentCrypto Algo2 Key Hash Sig = (Sig = Hash)"
  by (simp_all add: TransparentCrypto_def PeerChainBytes_def SIZEOF_SPDM_CERT_CHAIN_def
      UINTN_Sub_def)

text \<open>On the context whose ledgers hold one byte each and whose M1M2 is empty, signing the
  message [0x0D] in both roles; and on the context whose M1M2 holds the four bytes the
  responder signed, verifying its signature and the requester's.\<close>

theorem ChallengeAuthSignature_transcript_witness:
  "SpdmGenerateChallengeAuthSignature TransparentCrypto LedgerContext True [0xD] =
     (Some [0x1B, 0x1C, 0xD, 0, 0, 0, 0, 0],
      snd (SpdmGenerateChallengeAuthSignature TransparentCrypto LedgerContext True [0xD])) \<and>
   Buffer (M1M2 (Transcript (snd (SpdmGenerateChallengeAuthSignature TransparentCrypto
                                    LedgerContext True [0xD])))) =
     Buffer (M1M2 (Transcript LedgerContext)) @ Buffer (MessageMutB (Transcript LedgerContext)) @
     Buffer (MessageMutC (Transcript LedgerContext)) @ [0xD] \<and>
   SpdmGenerateChallengeAuthSignature TransparentCrypto LedgerContext False [0xD] =
     (Some [0xA, 0xB, 0xC, 0xD, 0, 0, 0, 0],
      snd (SpdmGenerateChallengeAuthSignature TransparentCrypto LedgerContext False [0xD])) \<and>
   Buffer (M1M2 (Transcript (snd (SpdmGenerateChallengeAuthSignature TransparentCrypto
                                    LedgerContext False [0xD])))) =
     Buffer (M1M2 (Transcript LedgerContext)) @ Buffer (MessageA (Transcript LedgerContext)) @
     Buffer (MessageB (Transcript LedgerContext)) @ Buffer (MessageC (Transcript LedgerContext)) @
     [0xD] \<and>
   SpdmVerifyChallengeAuthSignature TransparentCrypto VerifierContext True
     [0xA, 0xB, 0xC, 0xD, 0, 0, 0, 0] = True \<and>
   SpdmVerifyChallengeAuthSignature TransparentCrypto VerifierContext True
     [0x1B, 0x1C, 0xD, 0, 0, 0, 0, 0] = False"
proof -
  note t3 = ChallengeAuthSignature_transcript
    [where Crypto = TransparentCrypto and c = VerifierContext and Chain = PeerChainBytes
       and Cert = "[0x30, 0x82]" and Key = "[0x30, 0x82]"]
  have v: "SpdmVerifyChallengeAuthSignature TransparentCrypto VerifierContext True SignData =
      (SignData = [0xA, 0xB, 0xC, 0xD, 0, 0, 0, 0])" for SignData
  proof -
    from t3 [where SignData = SignData]
    have "SpdmVerifyChallengeAuthSignature TransparentCrypto VerifierContext True SignData =
        SpdmAsymVerify TransparentCrypto
          (BaseAsymAlgo (Conn_Algorithm (ConnectionInfo VerifierContext))) [0x30, 0x82]
          (HashData TransparentCrypto VerifierContext
             (Buffer (M1M2 (Transcript VerifierContext)))) SignData"
      using VerifierContext_fields(1) PeerChainBytes_leaf(1,2) by blast
    then show ?thesis
      by (simp add: VerifierContext_fields PeerChainBytes_leaf PadTo_def numeral_eq_Suc)
  qed
  have v1: "SpdmVerifyChallengeAuthSignature TransparentCrypto VerifierContext True
     [0xA, 0xB, 0xC, 0xD, 0, 0, 0, 0] = True"
    by (simp add: v)
  have v2: "SpdmVerifyChallengeAuthSignature TransparentCrypto VerifierContext True
     [0x1B, 0x1C, 0xD, 0, 0, 0, 0, 0] = False"
    by (simp add: v)
  have req: "SpdmGenerateChallengeAuthSignature TransparentCrypto LedgerContext True [0xD] =
     (Some [0x1B, 0x1C, 0xD, 0, 0, 0, 0, 0],
      snd (SpdmGenerateChallengeAuthSignature TransparentCrypto LedgerContext True [0xD]))"
    using LedgerContext_requester_signature(1) by (simp add: prod_eq_iff)
  have rsp: "SpdmGenerateChallengeAuthSignature TransparentCrypto LedgerContext False [0xD] =
     (Some [0xA, 0xB, 0xC, 0xD, 0, 0, 0, 0],
      snd (SpdmGenerateChallengeAuthSignature TransparentCrypto LedgerContext False [0xD]))"
    using LedgerContext_responder_signature(1) by (simp add: prod_eq_iff)
  note t1 = ChallengeAuthSignature_transcript
    [where Crypto = TransparentCrypto and c = LedgerContext and Msg = "[0xD]"
       and Sig = "[0x1B, 0x1C, 0xD, 0, 0, 0, 0, 0]"
       and c' = "snd (SpdmGenerateChallengeAuthSignature TransparentCrypto LedgerContext True [0xD])"]
  note t2 = ChallengeAuthSignature_transcript
    [where Crypto = TransparentCrypto and c = LedgerContext and Msg = "[0xD]"
       and Sig = "[0xA, 0xB, 0xC, 0xD, 0, 0, 0, 0]"
       and c' = "snd (SpdmGenerateChallengeAuthSignature TransparentCrypto LedgerContext False [0xD])"]
  from t1 req have a: "Buffer (M1M2 (Transcript (snd (SpdmGenerateChallengeAuthSignature
        TransparentCrypto LedgerContext True [0xD])))) =
     Buffer (M1M2 (Transcript LedgerContext)) @ Buffer (MessageMutB (Transcript LedgerContext)) @
     Buffer (MessageMutC (Transcript LedgerContext)) @ [0xD]"
    by blast
  from t2 rsp have b: "Buffer (M1M2 (Transcript (snd (SpdmGenerateChallengeAuthSignature
        TransparentCrypto LedgerContext False [0xD])))) =
     Buffer (M1M2 (Transcript LedgerContext)) @ Buffer (MessageA (Transcript LedgerContext)) @
     Buffer (MessageB (Transcript LedgerContext)) @ Buffer (MessageC (Transcript LedgerContext)) @
     [0xD]"
    by blast
  from req rsp a b v1 v2 show ?thesis by blast
qed

text \<open>
  C1 as stated has the requester sign the hash of A || MutB || MutC. With A = [0x0A],
  MutB = [0x1B], MutC = [0x1C] and an empty M1M2, signing the message [0x0D] as requester
  hashes M1M2 = [0x1B, 0x1C, 0x0D]: the byte of A is not in it, and the signature differs
  from the signature of the hash of A || MutB || MutC.
\<close>

theorem ChallengeAuthSignature_requester_counterexample:
  "Buffer (MessageA (Transcript LedgerContext)) = [0xA] \<and>
   Buffer (MessageMutB (Transcript LedgerContext)) = [0x1B] \<and>
   Buffer (MessageMutC (Transcript LedgerContext)) = [0x1C] \<and>
   Buffer (M1M2 (Transcript LedgerContext)) = [] \<and>
   Buffer (M1M2 (Transcript (snd (SpdmGenerateChallengeAuthSignature TransparentCrypto
                                    LedgerContext True [0xD])))) = [0x1B, 0x1C, 0xD] \<and>
   fst (SpdmGenerateChallengeAuthSignature TransparentCrypto LedgerContext True [0xD]) =
     SpdmRequesterDataSignFunc TransparentCrypto 0
       (HashData TransparentCrypto LedgerContext [0x1B, 0x1C, 0xD]) \<and>
   fst (SpdmGenerateChallengeAuthSignature TransparentCrypto LedgerContext True [0xD]) \<noteq>
     SpdmRequesterDataSignFunc TransparentCrypto 0
       (HashData TransparentCrypto LedgerContext ([0xA] @ [0x1B] @ [0x1C, 0xD]))"
  by (simp add: LedgerContext_requester_signature LedgerContext_buffers LedgerContext_hash
      TransparentCrypto_sign PadTo_def numeral_eq_Suc)

section \<open>Measurement summary hash\<close>

text \<open>
  C5, evaluated on the code. The collection returns a mutable-firmware block and then an
  immutable-ROM block, 4 bytes each from the DMTF header on, and MeasurementData holds
  0xEE in every byte on entry. For the TCB type the function hashes 8 bytes: the 4 bytes
  that were in MeasurementData where the skipped block would have gone, followed by the
  ROM block, and not the ROM block alone. The loop adds MeasurementSize to
  MeasurmentDataSize for every block, copied or not.
\<close>

lemma replicate_16:
  "replicate 16 x = [x, x, x, x, x, x, x, x, x, x, x, x, x, x, x, x]"
  by (simp add: numeral_eq_Suc)

lemma PadTo_8_of_8:
  "PadTo 8 [b0, b1, b2, b3, b4, b5, b6, b7] = [b0, b1, b2, b3, b4, b5, b6, b7]"
  by (simp add: PadTo_def)

lemma PadTo_8_of_4:
  "PadTo 8 [b0, b1, b2, b3] = [b0, b1, b2, b3, 0, 0, 0, 0]"
  by (simp add: PadTo_def numeral_eq_Suc)

lemma TcbBlocks_loop:
  "MeasurementCopyLoop SPDM_CHALLENGE_REQUEST_TCB_COMPONENT_MEASUREMENT_HASH
     [FirmwareBlock, RomBlock] (replicate 16 0xEE) 0 =
     ([0xEE, 0xEE, 0xEE, 0xEE, 0, 1, 0, 0x22, 0xEE, 0xEE, 0xEE, 0xEE, 0xEE, 0xEE, 0xEE, 0xEE], 8)"
  by (simp add: replicate_16 SPDM_CHALLENGE_REQUEST_TCB_COMPONENT_MEASUREMENT_HASH_def
      SPDM_CHALLENGE_REQUEST_ALL_MEASUREMENTS_HASH_def
      SPDM_MEASUREMENT_BLOCK_MEASUREMENT_TYPE_MASK_def
      SPDM_MEASUREMENT_BLOCK_MEASUREMENT_TYPE_IMMUTABLE_ROM_def
      FirmwareBlock_def RomBlock_def MeasurementSize_def MeasurementBlockDmtfBytes_def
      CopyMem_def WriteUint16_def)

theorem SpdmGenerateMeasurementSummaryHash_tcb_gap:
  "MeasurementBlockDmtfBytes RomBlock = [0, 1, 0, 0x22] \<and>
   SpdmGenerateMeasurementSummaryHash TransparentCrypto LedgerContext
     SPDM_CHALLENGE_REQUEST_TCB_COMPONENT_MEASUREMENT_HASH (replicate 16 0xEE) =
     Some (SpdmHashAll TransparentCrypto 0 [0xEE, 0xEE, 0xEE, 0xEE, 0, 1, 0, 0x22]) \<and>
   SpdmHashAll TransparentCrypto 0 [0xEE, 0xEE, 0xEE, 0xEE, 0, 1, 0, 0x22] \<noteq>
   SpdmHashAll TransparentCrypto 0 (MeasurementBlockDmtfBytes RomBlock)"
proof (intro conjI)
  show rom: "MeasurementBlockDmtfBytes RomBlock = [0, 1, 0, 0x22]"
    by (simp add: MeasurementBlockDmtfBytes_def RomBlock_def WriteUint16_def)
  have collect: "SpdmMeasurementCollectionFunc TransparentCrypto Spec Algo =
      Some [FirmwareBlock, RomBlock]" for Spec Algo
    by (simp add: TransparentCrypto_def)
  have hash: "SpdmHashAll TransparentCrypto Algo Msg = PadTo 8 Msg" for Algo Msg
    by (simp add: TransparentCrypto_def)
  have alg: "BaseHashAlgo (Conn_Algorithm (ConnectionInfo LedgerContext)) = 0"
    by (simp add: LedgerContext_def SetTranscript_def SpdmInitContext_def ZeroAlgorithm_def)
  have ne: "SPDM_CHALLENGE_REQUEST_TCB_COMPONENT_MEASUREMENT_HASH \<noteq>
      SPDM_CHALLENGE_REQUEST_NO_MEASUREMENT_SUMMARY_HASH"
    by (simp add: SPDM_CHALLENGE_REQUEST_TCB_COMPONENT_MEASUREMENT_HASH_def
        SPDM_CHALLENGE_REQUEST_NO_MEASUREMENT_SUMMARY_HASH_def)
  show "SpdmGenerateMeasurementSummaryHash TransparentCrypto LedgerContext
     SPDM_CHALLENGE_REQUEST_TCB_COMPONENT_MEASUREMENT_HASH (replicate 16 0xEE) =
     Some (SpdmHashAll TransparentCrypto 0 [0xEE, 0xEE, 0xEE, 0xEE, 0, 1, 0, 0x22])"
  proof -
    have "SpdmGenerateMeasurementSummaryHash TransparentCrypto LedgerContext
        SPDM_CHALLENGE_REQUEST_TCB_COMPONENT_MEASUREMENT_HASH (replicate 16 0xEE) =
      (case MeasurementCopyLoop SPDM_CHALLENGE_REQUEST_TCB_COMPONENT_MEASUREMENT_HASH
              [FirmwareBlock, RomBlock] (replicate 16 0xEE) 0 of
         (MeasurementData, MeasurmentDataSize) \<Rightarrow>
           Some (SpdmHashAll TransparentCrypto 0 (take MeasurmentDataSize MeasurementData)))"
      by (simp add: SpdmGenerateMeasurementSummaryHash_def collect alg ne
          del: MeasurementCopyLoop.simps)
    also have "\<dots> = Some (SpdmHashAll TransparentCrypto 0
                          [0xEE, 0xEE, 0xEE, 0xEE, 0, 1, 0, 0x22])"
      unfolding TcbBlocks_loop by simp
    finally show ?thesis .
  qed
  show "SpdmHashAll TransparentCrypto 0 [0xEE, 0xEE, 0xEE, 0xEE, 0, 1, 0, 0x22] \<noteq>
     SpdmHashAll TransparentCrypto 0 (MeasurementBlockDmtfBytes RomBlock)"
    unfolding hash rom PadTo_8_of_8 PadTo_8_of_4 by simp
qed


section \<open>The requester's tests on the CHALLENGE_AUTH header\<close>

lemma padded_nth:
  "i < length Response \<Longrightarrow> (Response @ replicate n 0) ! i = Response ! i"
  by (simp add: nth_append)

lemma TrySpdmChallengeAuth_mut_without_cap:
  assumes "AuthAttribute_BasicMutAuthReq (Response ! 2) = 1"
    and "Flags (Conn_Capability (ConnectionInfo c)) AND
           SPDM_GET_CAPABILITIES_REQUEST_FLAGS_MUT_AUTH_CAP = 0"
  shows "TrySpdmChallengeAuth Cfg Crypto Env c SlotNum Response = (Inl RETURN_DEVICE_ERROR, c)"
proof (cases "length Response < 4")
  case True
  then show ?thesis
    by (simp add: TrySpdmChallengeAuth_def Let_def SIZEOF_SPDM_CHALLENGE_AUTH_RESPONSE_def
        SIZEOF_SPDM_MESSAGE_HEADER_def)
next
  case False
  then have "(Response @ replicate (SIZEOF_SPDM_CHALLENGE_AUTH_RESPONSE_MAX Cfg - length Response) 0) ! 2
      = Response ! 2"
    by (simp add: padded_nth)
  then show ?thesis using assms
    by (simp add: TrySpdmChallengeAuth_def Let_def)
qed

lemma TrySpdmChallengeAuth_slot_FF:
  assumes "AuthAttribute_SlotNum (Response ! 2) \<noteq> 0xF \<or> Response ! 3 \<noteq> 0"
  shows "TrySpdmChallengeAuth Cfg Crypto Env c 0xFF Response = (Inl RETURN_DEVICE_ERROR, c)"
proof (cases "length Response < 4")
  case True
  then show ?thesis
    by (simp add: TrySpdmChallengeAuth_def Let_def SIZEOF_SPDM_CHALLENGE_AUTH_RESPONSE_def
        SIZEOF_SPDM_MESSAGE_HEADER_def)
next
  case False
  then have "(Response @ replicate (SIZEOF_SPDM_CHALLENGE_AUTH_RESPONSE_MAX Cfg - length Response) 0) ! 2
      = Response ! 2"
    and "(Response @ replicate (SIZEOF_SPDM_CHALLENGE_AUTH_RESPONSE_MAX Cfg - length Response) 0) ! 3
      = Response ! 3"
    by (simp_all add: padded_nth)
  then show ?thesis using assms
    by (auto simp: TrySpdmChallengeAuth_def Let_def)
qed

lemma SpdmIsVersionSupported_ErrorState [simp]:
  "SpdmIsVersionSupported (c\<lparr>ErrorState := e\<rparr>) v = SpdmIsVersionSupported c v"
  by (simp add: SpdmIsVersionSupported_def)

lemma TrySpdmChallengeExchange_direct:
  assumes valid: "(unat SlotNum < MAX_SPDM_SLOT_COUNT Cfg \<or> SlotNum = 0xFF) \<and>
                  (SlotNum \<noteq> 0xFF \<or> PeerCertChainProvision (LocalContext c) \<noteq> [])"
    and recv: "SpdmReceiveSpdmResponse Env (SIZEOF_SPDM_CHALLENGE_AUTH_RESPONSE_MAX Cfg) =
                 (Status, Response)"
    and code: "Response ! 1 = SPDM_CHALLENGE_AUTH"
  shows "(\<exists>c'. TrySpdmChallengeExchange Cfg Crypto Env c SlotNum MeasurementHashType Nonce =
              (Inl RETURN_DEVICE_ERROR, c')) \<or>
         TrySpdmChallengeExchange Cfg Crypto Env c SlotNum MeasurementHashType Nonce =
           TrySpdmChallengeAuth Cfg Crypto Env
             (AfterRequest c (ChallengeRequest c SlotNum MeasurementHashType Nonce))
             SlotNum Response"
proof -
  have ne: "SPDM_CHALLENGE_AUTH \<noteq> SPDM_ERROR"
    by (simp add: SPDM_CHALLENGE_AUTH_def SPDM_ERROR_def)
  show ?thesis
    using valid recv code ne
    by (auto simp: TrySpdmChallengeExchange_def Let_def AfterRequest_def ChallengeRequest_def)
qed

lemma AfterRequest_ConnectionInfo [simp]:
  "ConnectionInfo (AfterRequest c r) = ConnectionInfo c"
  by (simp add: AfterRequest_def SetTranscript_def)

lemma TrySpdmChallengeAuth_encap_independent:
  "TrySpdmChallengeAuth Cfg Crypto (Env\<lparr>SpdmEncapsulatedRequest := f\<rparr>) c SlotNum Response =
   TrySpdmChallengeAuth Cfg Crypto Env c SlotNum Response"
proof -
  have a: "Requester_GetSpdmHashSize (Env\<lparr>SpdmEncapsulatedRequest := f\<rparr>) =
           Requester_GetSpdmHashSize Env"
    and b: "Requester_GetSpdmAsymSize (Env\<lparr>SpdmEncapsulatedRequest := f\<rparr>) =
           Requester_GetSpdmAsymSize Env"
    by simp_all
  show ?thesis
    unfolding TrySpdmChallengeAuth_def a b by (rule refl)
qed

lemma TrySpdmChallengeExchange_encap_independent:
  "TrySpdmChallengeExchange Cfg Crypto (Env\<lparr>SpdmEncapsulatedRequest := f\<rparr>) c SlotNum
     MeasurementHashType Nonce =
   TrySpdmChallengeExchange Cfg Crypto Env c SlotNum MeasurementHashType Nonce"
proof -
  have a: "SpdmSendSpdmRequest (Env\<lparr>SpdmEncapsulatedRequest := f\<rparr>) = SpdmSendSpdmRequest Env"
    and b: "SpdmReceiveSpdmResponse (Env\<lparr>SpdmEncapsulatedRequest := f\<rparr>) =
            SpdmReceiveSpdmResponse Env"
    and d: "SpdmHandleErrorResponseMain (Env\<lparr>SpdmEncapsulatedRequest := f\<rparr>) =
            SpdmHandleErrorResponseMain Env"
    by simp_all
  show ?thesis
    unfolding TrySpdmChallengeExchange_def TrySpdmChallengeAuth_encap_independent a b d
    by (rule refl)
qed

lemma TrySpdmChallenge_early:
  "TrySpdmChallengeExchange Cfg Crypto Env c SlotNum MeasurementHashType Nonce = (Inl Status, c') \<Longrightarrow>
   TrySpdmChallenge Cfg Crypto Env c SlotNum MeasurementHashType Want Nonce = (Status, c', None)"
  by (simp add: TrySpdmChallenge_def)

lemma SpdmChallenge_first_attempt:
  assumes "TrySpdmChallenge Cfg Crypto (Envs 0) c SlotNum MeasurementHashType Want (Nonces 0) =
             (Status, c', Out)"
    and "Status \<noteq> RETURN_NO_RESPONSE"
  shows "SpdmChallenge Cfg Crypto Envs Nonces c SlotNum MeasurementHashType Want = (Status, c', Out)"
  using assms by (cases "unat (RetryTimes c)") (simp_all add: SpdmChallenge_def)


section \<open>Mutual authentication requested without the capability\<close>

text \<open>
  C8, as the code has it. TrySpdmChallenge is called with a slot number it accepts, and the
  response it receives is a CHALLENGE_AUTH whose attribute has BasicMutAuthReq = 1 while
  MUT_AUTH_CAP is clear in the connection's capability flags, the flags of
  ConnectionInfo.Capability, which are the only ones the function tests (nothing is
  assumed of the local capability flags). Then the function returns RETURN_DEVICE_ERROR
  before the place of its only call of SpdmEncapsulatedRequest: the result is the same
  whatever that function would do, nothing is copied to MeasurementHash, and SpdmChallenge
  returns the same error from its first attempt.
\<close>

theorem BasicMutAuthReq_without_capability:
  assumes valid: "(unat SlotNum < MAX_SPDM_SLOT_COUNT Cfg \<or> SlotNum = 0xFF) \<and>
                  (SlotNum \<noteq> 0xFF \<or> PeerCertChainProvision (LocalContext c) \<noteq> [])"
    and recv: "SpdmReceiveSpdmResponse (Envs 0) (SIZEOF_SPDM_CHALLENGE_AUTH_RESPONSE_MAX Cfg) =
                 (Status, Response)"
    and code: "Response ! 1 = SPDM_CHALLENGE_AUTH"
    and mut: "AuthAttribute_BasicMutAuthReq (Response ! 2) = 1"
    and cap: "Flags (Conn_Capability (ConnectionInfo c)) AND
                SPDM_GET_CAPABILITIES_REQUEST_FLAGS_MUT_AUTH_CAP = 0"
  shows "\<exists>c'. TrySpdmChallengeExchange Cfg Crypto (Envs 0) c SlotNum HashType (Nonces 0) =
                (Inl RETURN_DEVICE_ERROR, c') \<and>
              TrySpdmChallenge Cfg Crypto (Envs 0) c SlotNum HashType Want (Nonces 0) =
                (RETURN_DEVICE_ERROR, c', None) \<and>
              TrySpdmChallenge Cfg Crypto ((Envs 0)\<lparr>SpdmEncapsulatedRequest := f\<rparr>) c SlotNum
                  HashType Want (Nonces 0) = (RETURN_DEVICE_ERROR, c', None) \<and>
              SpdmChallenge Cfg Crypto Envs Nonces c SlotNum HashType Want =
                (RETURN_DEVICE_ERROR, c', None)"
proof -
  let ?c2 = "AfterRequest c (ChallengeRequest c SlotNum HashType (Nonces 0))"
  have auth: "TrySpdmChallengeAuth Cfg Crypto (Envs 0) ?c2 SlotNum Response =
      (Inl RETURN_DEVICE_ERROR, ?c2)"
    by (rule TrySpdmChallengeAuth_mut_without_cap) (use mut cap in simp_all)
  from TrySpdmChallengeExchange_direct [OF valid recv code, of Crypto HashType "Nonces 0"] auth
  obtain c' where ex: "TrySpdmChallengeExchange Cfg Crypto (Envs 0) c SlotNum HashType (Nonces 0) =
      (Inl RETURN_DEVICE_ERROR, c')"
    by auto
  have t1: "TrySpdmChallenge Cfg Crypto (Envs 0) c SlotNum HashType Want (Nonces 0) =
      (RETURN_DEVICE_ERROR, c', None)"
    using ex by (rule TrySpdmChallenge_early)
  have "TrySpdmChallengeExchange Cfg Crypto ((Envs 0)\<lparr>SpdmEncapsulatedRequest := f\<rparr>) c SlotNum
      HashType (Nonces 0) = (Inl RETURN_DEVICE_ERROR, c')"
    using ex by (simp add: TrySpdmChallengeExchange_encap_independent)
  then have t2: "TrySpdmChallenge Cfg Crypto ((Envs 0)\<lparr>SpdmEncapsulatedRequest := f\<rparr>) c SlotNum
      HashType Want (Nonces 0) = (RETURN_DEVICE_ERROR, c', None)"
    by (rule TrySpdmChallenge_early)
  have t3: "SpdmChallenge Cfg Crypto Envs Nonces c SlotNum HashType Want =
      (RETURN_DEVICE_ERROR, c', None)"
    using t1 by (rule SpdmChallenge_first_attempt) simp
  from ex t1 t2 t3 show ?thesis by blast
qed

lemma ReadyContext_fields:
  "Flags (Conn_Capability (ConnectionInfo ReadyContext)) = 0x04"
  "SpdmCmdReceiveState ReadyContext = 0x0E"
  "LocalContext ReadyContext = LocalContext (SpdmInitContext SmallConfig)"
  "Transcript ReadyContext = Transcript LedgerContext"
  by (simp_all add: ReadyContext_def LedgerContext_def SetTranscript_def)

text \<open>Slot 0 of the two slots of the small configuration, on the ready context, with the
  four-byte response [0x11, 0x03, 0x80, 0x01].\<close>

theorem BasicMutAuthReq_without_capability_witness:
  "\<exists>c'. TrySpdmChallengeExchange SmallConfig TransparentCrypto MutAuthEnv ReadyContext 0 0 [] =
            (Inl RETURN_DEVICE_ERROR, c') \<and>
         TrySpdmChallenge SmallConfig TransparentCrypto MutAuthEnv ReadyContext 0 0 True [] =
            (RETURN_DEVICE_ERROR, c', None) \<and>
         TrySpdmChallenge SmallConfig TransparentCrypto
            (MutAuthEnv\<lparr>SpdmEncapsulatedRequest := (\<lambda>c. (RETURN_DEVICE_ERROR, c))\<rparr>)
            ReadyContext 0 0 True [] = (RETURN_DEVICE_ERROR, c', None) \<and>
         SpdmChallenge SmallConfig TransparentCrypto (\<lambda>Attempt. MutAuthEnv) (\<lambda>Attempt. [])
            ReadyContext 0 0 True = (RETURN_DEVICE_ERROR, c', None)"
proof -
  have valid: "(unat (0::UINT8) < MAX_SPDM_SLOT_COUNT SmallConfig \<or> (0::UINT8) = 0xFF) \<and>
      ((0::UINT8) \<noteq> 0xFF \<or> PeerCertChainProvision (LocalContext ReadyContext) \<noteq> [])"
    by (simp add: SmallConfig_def)
  have recv: "SpdmReceiveSpdmResponse ((\<lambda>Attempt. MutAuthEnv) (0::nat))
      (SIZEOF_SPDM_CHALLENGE_AUTH_RESPONSE_MAX SmallConfig) =
      (RETURN_SUCCESS, [0x11, 0x03, 0x80, 0x01])"
    by (simp add: MutAuthEnv_def)
  have code: "[0x11, 0x03, 0x80, 0x01 :: UINT8] ! 1 = SPDM_CHALLENGE_AUTH"
    by (simp add: SPDM_CHALLENGE_AUTH_def)
  have mut: "AuthAttribute_BasicMutAuthReq ([0x11, 0x03, 0x80, 0x01] ! 2) = 1"
    by (simp add: AuthAttribute_BasicMutAuthReq_def)
  have cap: "Flags (Conn_Capability (ConnectionInfo ReadyContext)) AND
      SPDM_GET_CAPABILITIES_REQUEST_FLAGS_MUT_AUTH_CAP = 0"
    by (simp add: ReadyContext_fields SPDM_GET_CAPABILITIES_REQUEST_FLAGS_MUT_AUTH_CAP_def)
  from BasicMutAuthReq_without_capability [OF valid recv code mut cap,
      of TransparentCrypto 0 "\<lambda>Attempt. []" True "\<lambda>c. (RETURN_DEVICE_ERROR, c)"]
  show ?thesis by simp
qed

section \<open>The CHALLENGE for slot 0xFF\<close>

lemma length_WriteField [simp]: "length (WriteField n Src) = n"
  by (simp add: WriteField_def)

lemma ChallengeRequestBytes_fields:
  "ChallengeRequestBytes SlotNum HashType ! 2 = SlotNum"
  "ChallengeRequestBytes SlotNum HashType ! 3 = HashType"
  "length (ChallengeRequestBytes SlotNum HashType) = 36"
  by (simp_all add: ChallengeRequestBytes_def)

lemma EncapContextExample_fields:
  "Transcript EncapContextExample = Transcript LedgerContext"
  "CertificateChain (LocalContext EncapContextExample) = [[0xC0], []]"
  "SlotCount (LocalContext EncapContextExample) = 1"
  "ProvisionedSlotNum (LocalContext EncapContextExample) = 0"
  "OpaqueChallengeAuthRsp (LocalContext EncapContextExample) = []"
  "ConnectionInfo EncapContextExample = ConnectionInfo LedgerContext"
  by (simp_all add: EncapContextExample_def LedgerContext_def SetTranscript_def SpdmInitContext_def)

lemma TransparentCrypto_sizes:
  "GetSpdmHashSize TransparentCrypto a = 8"
  "GetSpdmReqAsymSize TransparentCrypto b = 8"
  "SpdmRequesterDataSignFunc TransparentCrypto b h = Some h"
  by (simp_all add: TransparentCrypto_def)

lemma encap_FF_header:
  assumes "Request ! 2 = 0xFF"
    and "SpdmGetEncapResponseChallengeAuth Crypto c Request Nonce Stack =
           Some (SpdmMessageResponse Rsp, c')"
  shows "Rsp ! 1 = SPDM_CHALLENGE_AUTH \<and> AuthAttribute_SlotNum (Rsp ! 2) = 0xF \<and> Rsp ! 3 = 0"
  using assms
  by (auto simp: SpdmGetEncapResponseChallengeAuth_def Let_def AuthAttribute_SlotNum_def
      split: if_splits prod.splits option.splits)

lemma responder_FF_rejected:
  assumes "Request ! 2 = 0xFF" and "Responder_SlotCount c < 0xFF"
  shows "SpdmGetResponseChallenge Lib c Request Nonce =
           Some (SpdmErrorResponse SPDM_ERROR_CODE_INVALID_REQUEST 0, c)"
  using assms by (simp add: SpdmGetResponseChallenge_def Let_def)

lemma Encap_message_example:
  assumes "SlotNum = 0xFF \<or> SlotNum = 0"
  shows "\<exists>Rsp c'. SpdmGetEncapResponseChallengeAuth TransparentCrypto EncapContextExample
       (ChallengeRequestBytes SlotNum 0) [] [] = Some (SpdmMessageResponse Rsp, c')"
  using assms
  by (auto simp add: SpdmGetEncapResponseChallengeAuth_def ChallengeRequestBytes_fields
      SIZEOF_SPDM_CHALLENGE_REQUEST_def SIZEOF_SPDM_MESSAGE_HEADER_def SPDM_NONCE_SIZE_def
      AppendManagedBuffer_def RETURN_ERROR_def SetTranscript_def Let_def
      EncapContextExample_fields LedgerContext_buffers LedgerContext_capacity
      SpdmGenerateCertChainHash_def SpdmGenerateMeasurementSummaryHash_def
      SPDM_CHALLENGE_REQUEST_NO_MEASUREMENT_SUMMARY_HASH_def
      SpdmGenerateChallengeAuthSignature_requester TransparentCrypto_sizes WriteUint16_def)

lemma responder_FF_header:
  assumes "Request ! 2 = 0xFF"
    and "SpdmGetResponseChallenge Lib c Request Nonce = Some (SpdmMessageResponse Rsp, c')"
  shows "Rsp ! 1 = SPDM_CHALLENGE_AUTH \<and> AuthAttribute_SlotNum (Rsp ! 2) = 0xF \<and> Rsp ! 3 = 0"
  using assms
  by (auto simp: SpdmGetResponseChallenge_def Let_def AuthAttribute_SlotNum_def SlotMask_def
      split: if_splits prod.splits option.splits)

lemma Responder_FF_message_example:
  "\<exists>Rsp c'. SpdmGetResponseChallenge SmallResponderLib WideResponderContext
       (ChallengeRequestBytes 0xFF 0) [] = Some (SpdmMessageResponse Rsp, c')"
  by (simp add: SpdmGetResponseChallenge_def ChallengeRequestBytes_fields
      WideResponderContext_def SmallResponderContext_def
      SpdmCalculateCertChainHash_def CalculateMeasurementSummaryHash_def Let_def
      SpdmGenerateChallengeSignature_def SmallResponderLib_def
      SPDM_CHALLENGE_REQUEST_NO_MEASUREMENT_SUMMARY_HASH_def
      SPDM_CHALLENGE_REQUEST_TCB_COMPONENT_MEASUREMENT_HASH_def
      SPDM_CHALLENGE_REQUEST_ALL_MEASUREMENTS_HASH_def)

text \<open>
  C2. A CHALLENGE with Param1 = 0xFF. (1) Every CHALLENGE_AUTH message that
  SpdmGetEncapResponseChallengeAuth produces for it has the slot field of Param1 equal to
  0xF and Param2 equal to 0. (2) So has every CHALLENGE_AUTH message that
  SpdmGetResponseChallenge produces for it: Param1 is the slot number 0xFF, whose slot
  field is 0xF, and the bit of 1 << SlotNum lies outside the byte Param2. With fewer than
  255 slots this handler produces none and answers with the InvalidRequest error. (3) The
  requester that issued it, holding a provisioned peer chain, and receives a CHALLENGE_AUTH
  whose slot field is not 0xF or whose Param2 is not 0 returns RETURN_DEVICE_ERROR from
  TrySpdmChallenge and from SpdmChallenge, with no measurement hash.
\<close>

theorem Slot_FF_challenge_auth:
  "(Request ! 2 = 0xFF \<and>
    SpdmGetEncapResponseChallengeAuth Crypto c Request Nonce Stack =
      Some (SpdmMessageResponse Rsp, c') \<longrightarrow>
      Rsp ! 1 = SPDM_CHALLENGE_AUTH \<and> AuthAttribute_SlotNum (Rsp ! 2) = 0xF \<and> Rsp ! 3 = 0) \<and>
   (Request ! 2 = 0xFF \<and>
    SpdmGetResponseChallenge Lib rc Request Nonce = Some (SpdmMessageResponse RRsp, rc') \<longrightarrow>
      RRsp ! 1 = SPDM_CHALLENGE_AUTH \<and> AuthAttribute_SlotNum (RRsp ! 2) = 0xF \<and> RRsp ! 3 = 0) \<and>
   (Request ! 2 = 0xFF \<and> Responder_SlotCount rc < 0xFF \<longrightarrow>
      SpdmGetResponseChallenge Lib rc Request Nonce =
        Some (SpdmErrorResponse SPDM_ERROR_CODE_INVALID_REQUEST 0, rc)) \<and>
   (PeerCertChainProvision (LocalContext rq) \<noteq> [] \<and>
    SpdmReceiveSpdmResponse (Envs 0) (SIZEOF_SPDM_CHALLENGE_AUTH_RESPONSE_MAX Cfg) =
      (Status, Response) \<and>
    Response ! 1 = SPDM_CHALLENGE_AUTH \<and>
    (AuthAttribute_SlotNum (Response ! 2) \<noteq> 0xF \<or> Response ! 3 \<noteq> 0) \<longrightarrow>
      (\<exists>rq'. TrySpdmChallenge Cfg RqCrypto (Envs 0) rq 0xFF HashType Want (Nonces 0) =
               (RETURN_DEVICE_ERROR, rq', None) \<and>
             SpdmChallenge Cfg RqCrypto Envs Nonces rq 0xFF HashType Want =
               (RETURN_DEVICE_ERROR, rq', None)))"
proof (intro conjI impI)
  assume "Request ! 2 = 0xFF \<and>
    SpdmGetEncapResponseChallengeAuth Crypto c Request Nonce Stack =
      Some (SpdmMessageResponse Rsp, c')"
  then have r: "Rsp ! 1 = SPDM_CHALLENGE_AUTH \<and> AuthAttribute_SlotNum (Rsp ! 2) = 0xF \<and> Rsp ! 3 = 0"
    using encap_FF_header by blast
  from r show "Rsp ! 1 = SPDM_CHALLENGE_AUTH" by simp
  from r show "AuthAttribute_SlotNum (Rsp ! 2) = 0xF" by simp
  from r show "Rsp ! 3 = 0" by simp
next
  assume "Request ! 2 = 0xFF \<and>
    SpdmGetResponseChallenge Lib rc Request Nonce = Some (SpdmMessageResponse RRsp, rc')"
  then have r: "RRsp ! 1 = SPDM_CHALLENGE_AUTH \<and> AuthAttribute_SlotNum (RRsp ! 2) = 0xF \<and>
      RRsp ! 3 = 0"
    using responder_FF_header by blast
  from r show "RRsp ! 1 = SPDM_CHALLENGE_AUTH" by simp
  from r show "AuthAttribute_SlotNum (RRsp ! 2) = 0xF" by simp
  from r show "RRsp ! 3 = 0" by simp
next
  assume "Request ! 2 = 0xFF \<and> Responder_SlotCount rc < 0xFF"
  then show "SpdmGetResponseChallenge Lib rc Request Nonce =
      Some (SpdmErrorResponse SPDM_ERROR_CODE_INVALID_REQUEST 0, rc)"
    by (simp add: responder_FF_rejected)
next
  assume a: "PeerCertChainProvision (LocalContext rq) \<noteq> [] \<and>
    SpdmReceiveSpdmResponse (Envs 0) (SIZEOF_SPDM_CHALLENGE_AUTH_RESPONSE_MAX Cfg) =
      (Status, Response) \<and>
    Response ! 1 = SPDM_CHALLENGE_AUTH \<and>
    (AuthAttribute_SlotNum (Response ! 2) \<noteq> 0xF \<or> Response ! 3 \<noteq> 0)"
  let ?c2 = "AfterRequest rq (ChallengeRequest rq 0xFF HashType (Nonces 0))"
  have valid: "(unat (0xFF::UINT8) < MAX_SPDM_SLOT_COUNT Cfg \<or> (0xFF::UINT8) = 0xFF) \<and>
      ((0xFF::UINT8) \<noteq> 0xFF \<or> PeerCertChainProvision (LocalContext rq) \<noteq> [])"
    using a by simp
  have recv: "SpdmReceiveSpdmResponse (Envs 0) (SIZEOF_SPDM_CHALLENGE_AUTH_RESPONSE_MAX Cfg) =
      (Status, Response)"
    and code: "Response ! 1 = SPDM_CHALLENGE_AUTH"
    and bad: "AuthAttribute_SlotNum (Response ! 2) \<noteq> 0xF \<or> Response ! 3 \<noteq> 0"
    using a by simp_all
  have auth: "TrySpdmChallengeAuth Cfg RqCrypto (Envs 0) ?c2 0xFF Response =
      (Inl RETURN_DEVICE_ERROR, ?c2)"
    using bad by (rule TrySpdmChallengeAuth_slot_FF)
  from TrySpdmChallengeExchange_direct [OF valid recv code, of RqCrypto HashType "Nonces 0"] auth
  obtain rq' where ex: "TrySpdmChallengeExchange Cfg RqCrypto (Envs 0) rq 0xFF HashType (Nonces 0) =
      (Inl RETURN_DEVICE_ERROR, rq')"
    by auto
  have t1: "TrySpdmChallenge Cfg RqCrypto (Envs 0) rq 0xFF HashType Want (Nonces 0) =
      (RETURN_DEVICE_ERROR, rq', None)"
    using ex by (rule TrySpdmChallenge_early)
  have t3: "SpdmChallenge Cfg RqCrypto Envs Nonces rq 0xFF HashType Want =
      (RETURN_DEVICE_ERROR, rq', None)"
    using t1 by (rule SpdmChallenge_first_attempt) simp
  from t1 t3 show "\<exists>rq'. TrySpdmChallenge Cfg RqCrypto (Envs 0) rq 0xFF HashType Want (Nonces 0) =
               (RETURN_DEVICE_ERROR, rq', None) \<and>
             SpdmChallenge Cfg RqCrypto Envs Nonces rq 0xFF HashType Want =
               (RETURN_DEVICE_ERROR, rq', None)"
    by blast
qed

text \<open>The encapsulated handler on the example context and a CHALLENGE for slot 0xFF; the
  responder with 255 slots and the responder with one slot on the same request; the
  requester with a provisioned chain that receives [0x11, 0x03, 0x80, 0x01], whose slot
  field is 0 and whose Param2 is 1.\<close>

theorem Slot_FF_challenge_auth_witness:
  "(\<exists>Rsp c'. SpdmGetEncapResponseChallengeAuth TransparentCrypto EncapContextExample
        (ChallengeRequestBytes 0xFF 0) [] [] = Some (SpdmMessageResponse Rsp, c') \<and>
      Rsp ! 1 = SPDM_CHALLENGE_AUTH \<and> AuthAttribute_SlotNum (Rsp ! 2) = 0xF \<and> Rsp ! 3 = 0) \<and>
   (\<exists>RRsp rc'. SpdmGetResponseChallenge SmallResponderLib WideResponderContext
        (ChallengeRequestBytes 0xFF 0) [] = Some (SpdmMessageResponse RRsp, rc') \<and>
      RRsp ! 1 = SPDM_CHALLENGE_AUTH \<and> AuthAttribute_SlotNum (RRsp ! 2) = 0xF \<and>
      RRsp ! 3 = 0) \<and>
   SpdmGetResponseChallenge SmallResponderLib SmallResponderContext
     (ChallengeRequestBytes 0xFF 0) [] =
     Some (SpdmErrorResponse SPDM_ERROR_CODE_INVALID_REQUEST 0, SmallResponderContext) \<and>
   (\<exists>rq'. TrySpdmChallenge SmallConfig TransparentCrypto MutAuthEnv ProvisionedContext 0xFF 0
        True [] = (RETURN_DEVICE_ERROR, rq', None) \<and>
      SpdmChallenge SmallConfig TransparentCrypto (\<lambda>Attempt. MutAuthEnv) (\<lambda>Attempt. [])
        ProvisionedContext 0xFF 0 True = (RETURN_DEVICE_ERROR, rq', None))"
proof -
  obtain Rsp c' where run: "SpdmGetEncapResponseChallengeAuth TransparentCrypto EncapContextExample
      (ChallengeRequestBytes 0xFF 0) [] [] = Some (SpdmMessageResponse Rsp, c')"
    using Encap_message_example [of "0xFF"] by auto
  obtain RRsp rc' where wide: "SpdmGetResponseChallenge SmallResponderLib WideResponderContext
      (ChallengeRequestBytes 0xFF 0) [] = Some (SpdmMessageResponse RRsp, rc')"
    using Responder_FF_message_example by auto
  have p1: "ChallengeRequestBytes 0xFF 0 ! 2 = 0xFF"
    by (simp add: ChallengeRequestBytes_fields)
  have p2: "Responder_SlotCount SmallResponderContext < 0xFF"
    by (simp add: SmallResponderContext_def)
  have p3: "PeerCertChainProvision (LocalContext ProvisionedContext) \<noteq> []"
    by (simp add: ProvisionedContext_def PeerChainBytes_def)
  have recv: "SpdmReceiveSpdmResponse ((\<lambda>Attempt. MutAuthEnv) (0::nat))
      (SIZEOF_SPDM_CHALLENGE_AUTH_RESPONSE_MAX SmallConfig) =
      (RETURN_SUCCESS, [0x11, 0x03, 0x80, 0x01])"
    by (simp add: MutAuthEnv_def)
  have code: "[0x11, 0x03, 0x80, 0x01 :: UINT8] ! 1 = SPDM_CHALLENGE_AUTH"
    by (simp add: SPDM_CHALLENGE_AUTH_def)
  have bad: "AuthAttribute_SlotNum ([0x11, 0x03, 0x80, 0x01] ! 2) \<noteq> 0xF \<or>
      [0x11, 0x03, 0x80, 0x01 :: UINT8] ! 3 \<noteq> 0"
    by (simp add: AuthAttribute_SlotNum_def)
  note inst = Slot_FF_challenge_auth [where Request = "ChallengeRequestBytes 0xFF 0"
      and Crypto = TransparentCrypto and c = EncapContextExample and Nonce = "[]"
      and Stack = "[]" and Rsp = Rsp and c' = c' and rc = SmallResponderContext
      and Lib = SmallResponderLib and rq = ProvisionedContext
      and Envs = "\<lambda>Attempt. MutAuthEnv" and Cfg = SmallConfig and Status = RETURN_SUCCESS
      and Response = "[0x11, 0x03, 0x80, 0x01]" and RqCrypto = TransparentCrypto
      and HashType = 0 and Want = True and Nonces = "\<lambda>Attempt. []"]
  note wide_inst = Slot_FF_challenge_auth [where Request = "ChallengeRequestBytes 0xFF 0"
      and rc = WideResponderContext and Lib = SmallResponderLib and Nonce = "[]"
      and RRsp = RRsp and rc' = rc']
  from wide_inst wide p1
  have w: "RRsp ! 1 = SPDM_CHALLENGE_AUTH \<and> AuthAttribute_SlotNum (RRsp ! 2) = 0xF \<and>
      RRsp ! 3 = 0"
    by blast
  from inst run p1 p2 p3 recv code bad wide w show ?thesis by blast
qed

section \<open>The slot number test of the two CHALLENGE handlers\<close>

lemma responder_invalid_request_iff:
  "(\<exists>c'. SpdmGetResponseChallenge Lib c Request Nonce =
           Some (SpdmErrorResponse SPDM_ERROR_CODE_INVALID_REQUEST 0, c')) =
   (Request ! 2 > Responder_SlotCount c \<or>
    unat (Request ! 2) < length (Responder_CertificateChain c) \<and>
    Request ! 3 \<noteq> SPDM_CHALLENGE_REQUEST_NO_MEASUREMENT_SUMMARY_HASH \<and>
    Request ! 3 \<noteq> SPDM_CHALLENGE_REQUEST_TCB_COMPONENT_MEASUREMENT_HASH \<and>
    Request ! 3 \<noteq> SPDM_CHALLENGE_REQUEST_ALL_MEASUREMENTS_HASH)"
  by (auto simp: SpdmGetResponseChallenge_def Let_def SpdmCalculateCertChainHash_def
      CalculateMeasurementSummaryHash_def SPDM_ERROR_CODE_INVALID_REQUEST_def
      SPDM_ERROR_CODE_UNSUPPORTED_REQUEST_def
      split: if_splits prod.splits option.splits)

lemma responder_slot_count_processed:
  assumes "Request ! 2 = Responder_SlotCount c"
    and "unat (Request ! 2) < length (Responder_CertificateChain c)"
    and "Request ! 3 = SPDM_CHALLENGE_REQUEST_NO_MEASUREMENT_SUMMARY_HASH \<or>
         Request ! 3 = SPDM_CHALLENGE_REQUEST_TCB_COMPONENT_MEASUREMENT_HASH \<or>
         Request ! 3 = SPDM_CHALLENGE_REQUEST_ALL_MEASUREMENTS_HASH"
  shows "(\<exists>Rsp c'. SpdmGetResponseChallenge Lib c Request Nonce =
               Some (SpdmMessageResponse Rsp, c') \<and>
             Rsp ! 1 = SPDM_CHALLENGE_AUTH \<and> Rsp ! 2 = Request ! 2) \<or>
         (\<exists>c'. SpdmGetResponseChallenge Lib c Request Nonce =
               Some (SpdmErrorResponse SPDM_ERROR_CODE_UNSUPPORTED_REQUEST SPDM_CHALLENGE_AUTH, c'))"
  using assms
  by (auto simp: SpdmGetResponseChallenge_def Let_def SpdmCalculateCertChainHash_def
      CalculateMeasurementSummaryHash_def
      split: if_splits prod.splits option.splits)

lemma responder_outside_array:
  assumes "Request ! 2 \<le> Responder_SlotCount c"
    and "length (Responder_CertificateChain c) \<le> unat (Request ! 2)"
  shows "SpdmGetResponseChallenge Lib c Request Nonce = None"
  using assms
  by (simp add: SpdmGetResponseChallenge_def Let_def SpdmCalculateCertChainHash_def)

lemma encap_slot_rejected:
  assumes "Request ! 2 \<noteq> 0xFF" and "Request ! 2 \<ge> SlotCount (LocalContext c)"
  shows "\<exists>c'. SpdmGetEncapResponseChallengeAuth Crypto c Request Nonce Stack =
           Some (SpdmErrorResponse SPDM_ERROR_CODE_INVALID_REQUEST 0, c')"
  using assms
  by (auto simp: SpdmGetEncapResponseChallengeAuth_def Let_def SetTranscript_def
      split: if_splits prod.splits option.splits)

lemma SmallResponder_slot1:
  "\<exists>Rsp c'. SpdmGetResponseChallenge SmallResponderLib SmallResponderContext
       (ChallengeRequestBytes 1 0) [] = Some (SpdmMessageResponse Rsp, c') \<and>
     Rsp ! 1 = SPDM_CHALLENGE_AUTH \<and> Rsp ! 2 = 1"
  by (simp add: SpdmGetResponseChallenge_def ChallengeRequestBytes_fields SmallResponderContext_def
      SpdmCalculateCertChainHash_def CalculateMeasurementSummaryHash_def Let_def
      SpdmGenerateChallengeSignature_def SmallResponderLib_def
      SPDM_CHALLENGE_REQUEST_NO_MEASUREMENT_SUMMARY_HASH_def
      SPDM_CHALLENGE_REQUEST_TCB_COMPONENT_MEASUREMENT_HASH_def
      SPDM_CHALLENGE_REQUEST_ALL_MEASUREMENTS_HASH_def)

text \<open>
  C10, as the code has it. (1) SpdmGetResponseChallenge generates the InvalidRequest error
  exactly when Param1 is strictly greater than SlotCount, or, for a Param1 inside the
  array CertificateChain, when Param2 is none of the three measurement summary hash types.
  (2) A request whose Param1 equals SlotCount, inside the array and with one of the three
  types, passes the slot test and is processed: the handler answers with a CHALLENGE_AUTH
  whose Param1 is that slot number, or with UnsupportedRequest when the signature cannot be
  made. (3) A request whose Param1 passes the slot test and lies outside the array, as
  Param1 = SlotCount does when SlotCount is the size of the array, makes the handler read
  CertificateChain outside the array: no response is defined. (4)
  SpdmGetEncapResponseChallengeAuth answers InvalidRequest for every Param1 that is at
  least SlotCount and is not 0xFF.
\<close>

theorem SpdmGetResponseChallenge_slot_test:
  "((\<exists>c'. SpdmGetResponseChallenge Lib c Request Nonce =
            Some (SpdmErrorResponse SPDM_ERROR_CODE_INVALID_REQUEST 0, c')) =
    (Request ! 2 > Responder_SlotCount c \<or>
     unat (Request ! 2) < length (Responder_CertificateChain c) \<and>
     Request ! 3 \<noteq> SPDM_CHALLENGE_REQUEST_NO_MEASUREMENT_SUMMARY_HASH \<and>
     Request ! 3 \<noteq> SPDM_CHALLENGE_REQUEST_TCB_COMPONENT_MEASUREMENT_HASH \<and>
     Request ! 3 \<noteq> SPDM_CHALLENGE_REQUEST_ALL_MEASUREMENTS_HASH)) \<and>
   (Request ! 2 = Responder_SlotCount c \<and>
    unat (Request ! 2) < length (Responder_CertificateChain c) \<and>
    (Request ! 3 = SPDM_CHALLENGE_REQUEST_NO_MEASUREMENT_SUMMARY_HASH \<or>
     Request ! 3 = SPDM_CHALLENGE_REQUEST_TCB_COMPONENT_MEASUREMENT_HASH \<or>
     Request ! 3 = SPDM_CHALLENGE_REQUEST_ALL_MEASUREMENTS_HASH) \<longrightarrow>
      (\<exists>Rsp c'. SpdmGetResponseChallenge Lib c Request Nonce =
           Some (SpdmMessageResponse Rsp, c') \<and>
         Rsp ! 1 = SPDM_CHALLENGE_AUTH \<and> Rsp ! 2 = Request ! 2) \<or>
      (\<exists>c'. SpdmGetResponseChallenge Lib c Request Nonce =
           Some (SpdmErrorResponse SPDM_ERROR_CODE_UNSUPPORTED_REQUEST SPDM_CHALLENGE_AUTH, c'))) \<and>
   (Request ! 2 \<le> Responder_SlotCount c \<and>
    length (Responder_CertificateChain c) \<le> unat (Request ! 2) \<longrightarrow>
      SpdmGetResponseChallenge Lib c Request Nonce = None) \<and>
   (EncapRequest ! 2 \<noteq> 0xFF \<and> EncapRequest ! 2 \<ge> SlotCount (LocalContext ec) \<longrightarrow>
      (\<exists>ec'. SpdmGetEncapResponseChallengeAuth Crypto ec EncapRequest EncapNonce Stack =
           Some (SpdmErrorResponse SPDM_ERROR_CODE_INVALID_REQUEST 0, ec')))"
proof (intro conjI)
  show "Request ! 2 \<le> Responder_SlotCount c \<and>
    length (Responder_CertificateChain c) \<le> unat (Request ! 2) \<longrightarrow>
      SpdmGetResponseChallenge Lib c Request Nonce = None"
    using responder_outside_array [of Request c Lib Nonce] by blast
next
  show "(\<exists>c'. SpdmGetResponseChallenge Lib c Request Nonce =
            Some (SpdmErrorResponse SPDM_ERROR_CODE_INVALID_REQUEST 0, c')) =
    (Request ! 2 > Responder_SlotCount c \<or>
     unat (Request ! 2) < length (Responder_CertificateChain c) \<and>
     Request ! 3 \<noteq> SPDM_CHALLENGE_REQUEST_NO_MEASUREMENT_SUMMARY_HASH \<and>
     Request ! 3 \<noteq> SPDM_CHALLENGE_REQUEST_TCB_COMPONENT_MEASUREMENT_HASH \<and>
     Request ! 3 \<noteq> SPDM_CHALLENGE_REQUEST_ALL_MEASUREMENTS_HASH)"
    by (rule responder_invalid_request_iff)
next
  show "Request ! 2 = Responder_SlotCount c \<and>
    unat (Request ! 2) < length (Responder_CertificateChain c) \<and>
    (Request ! 3 = SPDM_CHALLENGE_REQUEST_NO_MEASUREMENT_SUMMARY_HASH \<or>
     Request ! 3 = SPDM_CHALLENGE_REQUEST_TCB_COMPONENT_MEASUREMENT_HASH \<or>
     Request ! 3 = SPDM_CHALLENGE_REQUEST_ALL_MEASUREMENTS_HASH) \<longrightarrow>
      (\<exists>Rsp c'. SpdmGetResponseChallenge Lib c Request Nonce =
           Some (SpdmMessageResponse Rsp, c') \<and>
         Rsp ! 1 = SPDM_CHALLENGE_AUTH \<and> Rsp ! 2 = Request ! 2) \<or>
      (\<exists>c'. SpdmGetResponseChallenge Lib c Request Nonce =
           Some (SpdmErrorResponse SPDM_ERROR_CODE_UNSUPPORTED_REQUEST SPDM_CHALLENGE_AUTH, c'))"
    using responder_slot_count_processed [of Request c Lib Nonce] by blast
next
  show "EncapRequest ! 2 \<noteq> 0xFF \<and> EncapRequest ! 2 \<ge> SlotCount (LocalContext ec) \<longrightarrow>
      (\<exists>ec'. SpdmGetEncapResponseChallengeAuth Crypto ec EncapRequest EncapNonce Stack =
           Some (SpdmErrorResponse SPDM_ERROR_CODE_INVALID_REQUEST 0, ec'))"
    using encap_slot_rejected [of EncapRequest ec Crypto EncapNonce Stack] by blast
qed

text \<open>The responder with SlotCount = 1 and a CertificateChain of two entries: slot 2 is
  rejected and slot 1 is answered with a CHALLENGE_AUTH; with SlotCount = 2 slot 2 passes
  the slot test and is read outside the array; the encapsulated handler with SlotCount = 1
  rejects slot 1.\<close>

theorem SpdmGetResponseChallenge_slot_test_witness:
  "(\<exists>c'. SpdmGetResponseChallenge SmallResponderLib SmallResponderContext
        (ChallengeRequestBytes 2 0) [] =
        Some (SpdmErrorResponse SPDM_ERROR_CODE_INVALID_REQUEST 0, c')) \<and>
   (\<exists>Rsp c'. SpdmGetResponseChallenge SmallResponderLib SmallResponderContext
        (ChallengeRequestBytes 1 0) [] = Some (SpdmMessageResponse Rsp, c') \<and>
      Rsp ! 1 = SPDM_CHALLENGE_AUTH \<and> Rsp ! 2 = 1) \<and>
   SpdmGetResponseChallenge SmallResponderLib FullSlotsResponderContext
     (ChallengeRequestBytes 2 0) [] = None \<and>
   (\<exists>ec'. SpdmGetEncapResponseChallengeAuth TransparentCrypto EncapContextExample
        (ChallengeRequestBytes 1 0) [] [] =
        Some (SpdmErrorResponse SPDM_ERROR_CODE_INVALID_REQUEST 0, ec'))"
proof -
  have p1: "ChallengeRequestBytes 2 0 ! 2 > Responder_SlotCount SmallResponderContext"
    by (simp add: ChallengeRequestBytes_fields SmallResponderContext_def)
  have p2: "ChallengeRequestBytes 1 0 ! 2 \<noteq> 0xFF \<and>
      ChallengeRequestBytes 1 0 ! 2 \<ge> SlotCount (LocalContext EncapContextExample)"
    by (simp add: ChallengeRequestBytes_fields EncapContextExample_fields)
  note inst = SpdmGetResponseChallenge_slot_test [where Request = "ChallengeRequestBytes 2 0"
      and Lib = SmallResponderLib and c = SmallResponderContext and Nonce = "[]"
      and EncapRequest = "ChallengeRequestBytes 1 0" and ec = EncapContextExample
      and Crypto = TransparentCrypto and EncapNonce = "[]" and Stack = "[]"]
  have p3: "ChallengeRequestBytes 2 0 ! 2 \<le> Responder_SlotCount FullSlotsResponderContext \<and>
      length (Responder_CertificateChain FullSlotsResponderContext) \<le>
        unat (ChallengeRequestBytes 2 0 ! 2)"
    by (simp add: ChallengeRequestBytes_fields FullSlotsResponderContext_def
        SmallResponderContext_def)
  note full = SpdmGetResponseChallenge_slot_test [where Request = "ChallengeRequestBytes 2 0"
      and Lib = SmallResponderLib and c = FullSlotsResponderContext and Nonce = "[]"]
  from full p3
  have outside: "SpdmGetResponseChallenge SmallResponderLib FullSlotsResponderContext
      (ChallengeRequestBytes 2 0) [] = None"
    by blast
  from inst p1 p2 SmallResponder_slot1 outside show ?thesis by blast
qed

text \<open>
  C10 as stated fails in the direction "only if": with SlotCount = 1, a request for slot 0
  whose Param2 is 2, which is none of the measurement summary hash types, is answered with
  InvalidRequest although its slot number is not greater than SlotCount. And a request
  whose slot number equals SlotCount is not always processed: with SlotCount = 2, the size
  of the array, slot 2 is read outside CertificateChain.
\<close>

theorem SpdmGetResponseChallenge_hash_type_counterexample:
  "ChallengeRequestBytes 0 2 ! 2 \<le> Responder_SlotCount SmallResponderContext \<and>
   SpdmGetResponseChallenge SmallResponderLib SmallResponderContext
     (ChallengeRequestBytes 0 2) [] =
     Some (SpdmErrorResponse SPDM_ERROR_CODE_INVALID_REQUEST 0, SmallResponderContext) \<and>
   ChallengeRequestBytes 2 0 ! 2 = Responder_SlotCount FullSlotsResponderContext \<and>
   length (Responder_CertificateChain FullSlotsResponderContext) = 2 \<and>
   SpdmGetResponseChallenge SmallResponderLib FullSlotsResponderContext
     (ChallengeRequestBytes 2 0) [] = None"
  by (simp add: SpdmGetResponseChallenge_def ChallengeRequestBytes_fields SmallResponderContext_def
      FullSlotsResponderContext_def
      SpdmCalculateCertChainHash_def CalculateMeasurementSummaryHash_def Let_def
      SPDM_CHALLENGE_REQUEST_NO_MEASUREMENT_SUMMARY_HASH_def
      SPDM_CHALLENGE_REQUEST_TCB_COMPONENT_MEASUREMENT_HASH_def
      SPDM_CHALLENGE_REQUEST_ALL_MEASUREMENTS_HASH_def)


section \<open>An accepted CHALLENGE_AUTH and the encapsulated flow\<close>

lemma PadTo_8_long:
  "PadTo 8 (b0 # b1 # b2 # b3 # b4 # b5 # b6 # b7 # bs) = [b0, b1, b2, b3, b4, b5, b6, b7]"
  by (simp add: PadTo_def)

lemma PadTo_append:
  "n \<le> length xs \<Longrightarrow> PadTo n (xs @ ys) = PadTo n xs"
  by (simp add: PadTo_def)

lemma replicate_8: "replicate 8 x = [x, x, x, x, x, x, x, x]"
  by (simp add: numeral_eq_Suc)

lemma ReadUint16_zero: "unat (word_rcat [0, 0 :: UINT8] :: UINT16) = 0"
  by (simp add: word_rcat_def)

lemma TrySpdmChallengeExchange_reaches_auth:
  assumes "SpdmCmdReceiveState c AND SPDM_NEGOTIATE_ALGORITHMS_RECEIVE_FLAG \<noteq> 0"
    and "SpdmCmdReceiveState c AND SPDM_GET_CAPABILITIES_RECEIVE_FLAG \<noteq> 0"
    and "SpdmCmdReceiveState c AND SPDM_GET_DIGESTS_RECEIVE_FLAG \<noteq> 0"
    and "Flags (Conn_Capability (ConnectionInfo c)) AND
           SPDM_GET_CAPABILITIES_RESPONSE_FLAGS_CHAL_CAP \<noteq> 0"
    and "unat SlotNum < MAX_SPDM_SLOT_COUNT Cfg" and "SlotNum \<noteq> 0xFF"
    and "\<not> RETURN_ERROR (SpdmSendSpdmRequest Env (ChallengeRequest c SlotNum HashType Nonce))"
    and "SpdmReceiveSpdmResponse Env (SIZEOF_SPDM_CHALLENGE_AUTH_RESPONSE_MAX Cfg) =
           (RETURN_SUCCESS, Response)"
    and "SIZEOF_SPDM_MESSAGE_HEADER \<le> length Response"
    and "Response ! 1 = SPDM_CHALLENGE_AUTH"
  shows "TrySpdmChallengeExchange Cfg Crypto Env c SlotNum HashType Nonce =
         TrySpdmChallengeAuth Cfg Crypto Env
           (AfterRequest c (ChallengeRequest c SlotNum HashType Nonce)) SlotNum Response"
proof -
  have ne: "SPDM_CHALLENGE_AUTH \<noteq> SPDM_ERROR"
    by (simp add: SPDM_CHALLENGE_AUTH_def SPDM_ERROR_def)
  show ?thesis
    using assms ne
    by (auto simp: TrySpdmChallengeExchange_def Let_def AfterRequest_def ChallengeRequest_def
        RETURN_ERROR_def)
qed

lemma ChallengeAuthBytes_segments:
  assumes "length Sig = 8"
  shows "length (ChallengeAuthBytes P1 Sig) = 62"
    and "ChallengeAuthBytes P1 Sig ! Suc 0 = 0x03"
    and "(ChallengeAuthBytes P1 Sig @ replicate 4 0) ! 2 = P1"
    and "(ChallengeAuthBytes P1 Sig @ replicate 4 0) ! 3 = 1"
    and "take 8 (drop 4 (ChallengeAuthBytes P1 Sig)) =
           [0x0E, 0x00, 0x00, 0x00, 0x51, 0x52, 0x53, 0x54]"
    and "take 8 (drop 44 (ChallengeAuthBytes P1 Sig)) = replicate 8 0"
    and "take 2 (drop 52 (ChallengeAuthBytes P1 Sig)) = [0, 0]"
    and "drop 54 (ChallengeAuthBytes P1 Sig) = Sig"
    and "length (take 54 (ChallengeAuthBytes P1 Sig)) = 54"
  using assms by (simp_all add: ChallengeAuthBytes_def)

lemma MutAuthEnv_fields:
  "SpdmSendSpdmRequest (ResponseEnv R) r = RETURN_SUCCESS"
  "SpdmReceiveSpdmResponse (ResponseEnv R) n = (RETURN_SUCCESS, R)"
  "SpdmEncapsulatedRequest (ResponseEnv R) x = (RETURN_SUCCESS, x)"
  "Requester_GetSpdmHashSize (ResponseEnv R) x = 8"
  "Requester_GetSpdmAsymSize (ResponseEnv R) x = 8"
  "SpdmSendSpdmRequest (FlowEnv Crypto) r = RETURN_SUCCESS"
  "SpdmReceiveSpdmResponse (FlowEnv Crypto) n = (RETURN_SUCCESS, MutualResponse)"
  "Requester_GetSpdmHashSize (FlowEnv Crypto) x = 8"
  "Requester_GetSpdmAsymSize (FlowEnv Crypto) x = 8"
  by (simp_all add: ResponseEnv_def FlowEnv_def MutAuthEnv_def)

lemma SmallConfig_sizes:
  "MAX_SPDM_SLOT_COUNT SmallConfig = 2"
  "SIZEOF_SPDM_CHALLENGE_AUTH_RESPONSE_MAX SmallConfig = 66"
  by (simp_all add: SmallConfig_def SIZEOF_SPDM_CHALLENGE_AUTH_RESPONSE_MAX_def
      SIZEOF_SPDM_MESSAGE_HEADER_def SPDM_NONCE_SIZE_def)

text \<open>The requester's tests on ChallengeAuthBytes, for a context that holds the peer chain
  and the one-byte ledgers A and B, under TransparentCrypto with any requester signing
  function.\<close>

lemma TrySpdmChallengeAuth_accepted:
  fixes c :: SPDM_DEVICE_CONTEXT
  assumes sig: "length Sig = 8"
    and p1: "P1 = 0x00 \<or>
             P1 = 0x80 \<and> Flags (Conn_Capability (ConnectionInfo c)) AND
                             SPDM_GET_CAPABILITIES_REQUEST_FLAGS_MUT_AUTH_CAP \<noteq> 0"
    and peer: "PeerCertChain c = Some PeerChainBytes"
    and a: "Buffer (MessageA (Transcript c)) = [0x0A]"
    and b: "Buffer (MessageB (Transcript c)) = [0x0B]"
    and cc: "MessageC (Transcript c) = \<lparr>MaxBufferSize = 128, Buffer = 0x0C # r\<rparr>"
    and r: "length r = 36"
    and m: "M1M2 (Transcript c) = \<lparr>MaxBufferSize = 256, Buffer = m\<rparr>"
    and ml: "length m \<le> 8"
    and hash: "PadTo 8 (m @ [0x0A, 0x0B, 0x0C] @ r) = Sig"
    and env: "Requester_GetSpdmHashSize Env c = 8" "Requester_GetSpdmAsymSize Env c = 8"
  shows "TrySpdmChallengeAuth SmallConfig (TransparentCrypto\<lparr>SpdmRequesterDataSignFunc := f\<rparr>)
           Env c 0 (ChallengeAuthBytes P1 Sig) =
         (Inr (AuthAttribute_BasicMutAuthReq P1, replicate 8 0),
          c\<lparr>Transcript := (Transcript c)
               \<lparr>MessageC := \<lparr>MaxBufferSize = 128,
                              Buffer = 0x0C # r @ take 54 (ChallengeAuthBytes P1 Sig)\<rparr>,
                M1M2 := \<lparr>MaxBufferSize = 256, Buffer = []\<rparr>\<rparr>,
             ErrorState := SPDM_STATUS_SUCCESS\<rparr>)"
proof -
  let ?Crypto = "TransparentCrypto\<lparr>SpdmRequesterDataSignFunc := f\<rparr>"
  let ?R = "ChallengeAuthBytes P1 Sig"
  note seg = ChallengeAuthBytes_segments [OF sig, of P1]
  have crypto: "GetSpdmHashSize TransparentCrypto Algo = 8"
    "SpdmHashAll TransparentCrypto Algo Msg = PadTo 8 Msg"
    "X509GetCertFromCertChain TransparentCrypto Buf Off Size =
       (if Off + Size = length Buf then Some (drop Off Buf) else None)"
    "SpdmAsymGetPublicKeyFromX509 TransparentCrypto Algo Cert = Some Cert"
    "SpdmAsymVerify TransparentCrypto Algo Key Hash S = (S = Hash)"
    for Algo Msg Buf Off Size Cert Key Hash S
    by (simp_all add: TransparentCrypto_def)
  have cert: "SpdmVerifyCertificateChainHash ?Crypto c
      [0x0E, 0x00, 0x00, 0x00, 0x51, 0x52, 0x53, 0x54]"
    by (simp add: SpdmVerifyCertificateChainHash_def peer crypto PeerChainBytes_def PadTo_8_long)
  let ?C1 = "\<lparr>MaxBufferSize = 128, Buffer = 0x0C # r @ take 54 ?R\<rparr>"
  let ?M3 = "\<lparr>MaxBufferSize = 256, Buffer = m @ [0x0A, 0x0B, 0x0C] @ r @ take 54 ?R\<rparr>"
  have c1: "snd (AppendManagedBuffer (MessageC (Transcript c)) (take 54 ?R)) = ?C1"
    by (simp add: cc AppendManagedBuffer_def r seg)
  have m3: "snd (AppendManagedBuffer
        (snd (AppendManagedBuffer
          (snd (AppendManagedBuffer (M1M2 (Transcript c))
            (GetManagedBuffer (MessageA (Transcript c)))))
          (GetManagedBuffer (MessageB (Transcript c)))))
        (GetManagedBuffer ?C1)) = ?M3"
    using ml by (simp add: m a b AppendManagedBuffer_def GetManagedBuffer_def r seg)
  have long: "PadTo 8 (m @ [0x0A, 0x0B, 0x0C] @ r @ take 54 ?R) = PadTo 8 (m @ [0x0A, 0x0B, 0x0C] @ r)"
    using PadTo_append [of 8 "m @ [0x0A, 0x0B, 0x0C] @ r" "take 54 ?R"] r by simp
  have verify: "SpdmVerifyChallengeAuthSignature ?Crypto
      (c\<lparr>Transcript := (Transcript c)\<lparr>MessageC := ?C1, M1M2 := ?M3\<rparr>\<rparr>) True Sig"
  proof -
    have "PeerCertChain (c\<lparr>Transcript := (Transcript c)\<lparr>MessageC := ?C1, M1M2 := ?M3\<rparr>\<rparr>) =
        PeerCertChain c"
      by (simp add: PeerCertChain_def)
    moreover have "take 8 (PadTo 8 (m @ [0x0A, 0x0B, 0x0C] @ r @ take 54 ?R)) = Sig"
      using long hash sig by simp
    ultimately show ?thesis
      by (simp add: SpdmVerifyChallengeAuthSignature_def peer crypto HashData_def
          GetManagedBuffer_def PeerChainBytes_def SIZEOF_SPDM_CERT_CHAIN_def UINTN_Sub_def)
  qed
  have attr: "AuthAttribute_SlotNum P1 = 0"
    "AuthAttribute_BasicMutAuthReq P1 = 1 \<longrightarrow>
       Flags (Conn_Capability (ConnectionInfo c)) AND
         SPDM_GET_CAPABILITIES_REQUEST_FLAGS_MUT_AUTH_CAP \<noteq> 0"
    using p1 by (auto simp: AuthAttribute_SlotNum_def AuthAttribute_BasicMutAuthReq_def)
  show ?thesis
    using attr verify
    by (simp add: TrySpdmChallengeAuth_def Let_def seg SmallConfig_sizes
        SIZEOF_SPDM_CHALLENGE_AUTH_RESPONSE_def SIZEOF_SPDM_MESSAGE_HEADER_def
        SPDM_NONCE_SIZE_def env ReadUint16_def ReadUint16_zero cert c1 m3 sig
        SetTranscript_def ResetManagedBuffer_def)
qed

lemma TransparentCrypto_requester_sign:
  "TransparentCrypto = TransparentCrypto\<lparr>SpdmRequesterDataSignFunc := (\<lambda>Algo Hash. Some Hash)\<rparr>"
  by (simp add: TransparentCrypto_def)

lemma ProvisionedContext_fields:
  "SpdmCmdReceiveState ProvisionedContext = 0x0E"
  "Flags (Conn_Capability (ConnectionInfo ProvisionedContext)) = 0x04"
  "PeerCertChainProvision (LocalContext ProvisionedContext) = PeerChainBytes"
  "PeerCertChainBuffer (ConnectionInfo ProvisionedContext) = []"
  "Transcript ProvisionedContext = Transcript LedgerContext"
  "Version (ConnectionInfo ProvisionedContext) = [0, 0]"
  by (simp_all add: ProvisionedContext_def ReadyContext_def LedgerContext_def SetTranscript_def
      SpdmInitContext_def SmallConfig_def numeral_2_eq_2)

lemma LedgerContext_ledgers:
  "MessageA (Transcript LedgerContext) = \<lparr>MaxBufferSize = 128, Buffer = [0x0A]\<rparr>"
  "MessageB (Transcript LedgerContext) = \<lparr>MaxBufferSize = 256, Buffer = [0x0B]\<rparr>"
  "MessageC (Transcript LedgerContext) = \<lparr>MaxBufferSize = 128, Buffer = [0x0C]\<rparr>"
  "MessageMutB (Transcript LedgerContext) = \<lparr>MaxBufferSize = 256, Buffer = [0x1B]\<rparr>"
  "MessageMutC (Transcript LedgerContext) = \<lparr>MaxBufferSize = 128, Buffer = [0x1C]\<rparr>"
  "M1M2 (Transcript LedgerContext) = \<lparr>MaxBufferSize = 256, Buffer = []\<rparr>"
  "L1L2 (Transcript LedgerContext) = \<lparr>MaxBufferSize = 256, Buffer = []\<rparr>"
  by (simp_all add: LedgerContext_def SetTranscript_def SpdmInitContext_def InitManagedBuffer_def
      SmallConfig_def)

lemma StaleContext_fields:
  "SpdmCmdReceiveState StaleContext = 0x0E"
  "Flags (Conn_Capability (ConnectionInfo StaleContext)) = 0x04"
  "PeerCertChain StaleContext = Some PeerChainBytes"
  "Version (ConnectionInfo StaleContext) = [0, 0]"
  "MessageA (Transcript StaleContext) = \<lparr>MaxBufferSize = 128, Buffer = [0x0A]\<rparr>"
  "MessageB (Transcript StaleContext) = \<lparr>MaxBufferSize = 256, Buffer = [0x0B]\<rparr>"
  "MessageC (Transcript StaleContext) = \<lparr>MaxBufferSize = 128, Buffer = [0x0C]\<rparr>"
  "MessageMutB (Transcript StaleContext) = \<lparr>MaxBufferSize = 256, Buffer = [0x1B]\<rparr>"
  "MessageMutC (Transcript StaleContext) = \<lparr>MaxBufferSize = 128, Buffer = [0x1C]\<rparr>"
  "M1M2 (Transcript StaleContext) = \<lparr>MaxBufferSize = 256, Buffer = [0x99]\<rparr>"
  "L1L2 (Transcript StaleContext) = \<lparr>MaxBufferSize = 256, Buffer = []\<rparr>"
  by (simp_all add: StaleContext_def SetTranscript_def ProvisionedContext_fields
      LedgerContext_ledgers PeerCertChain_def PeerChainBytes_def)

lemma MutualContext_fields:
  "SpdmCmdReceiveState MutualContext = 0x0E"
  "Flags (Conn_Capability (ConnectionInfo MutualContext)) = 0x104"
  "Flags (Local_Capability (LocalContext MutualContext)) = 0"
  "PeerCertChain MutualContext = Some PeerChainBytes"
  "Version (ConnectionInfo MutualContext) = [0, 0]"
  "CertificateChain (LocalContext MutualContext) = [[0xC0], []]"
  "SlotCount (LocalContext MutualContext) = 1"
  "OpaqueChallengeAuthRsp (LocalContext MutualContext) = []"
  "Transcript MutualContext = Transcript LedgerContext"
  by (simp_all add: MutualContext_def ProvisionedContext_def ReadyContext_def LedgerContext_def
      SetTranscript_def SpdmInitContext_def SmallConfig_def ZeroCapability_def
      PeerCertChain_def PeerChainBytes_def numeral_2_eq_2)

lemma AfterRequest_fields:
  "ConnectionInfo (AfterRequest c r) = ConnectionInfo c"
  "LocalContext (AfterRequest c r) = LocalContext c"
  "PeerCertChain (AfterRequest c r) = PeerCertChain c"
  "MessageA (Transcript (AfterRequest c r)) = MessageA (Transcript c)"
  "MessageB (Transcript (AfterRequest c r)) = MessageB (Transcript c)"
  "MessageMutB (Transcript (AfterRequest c r)) = MessageMutB (Transcript c)"
  "MessageMutC (Transcript (AfterRequest c r)) = MessageMutC (Transcript c)"
  "M1M2 (Transcript (AfterRequest c r)) = M1M2 (Transcript c)"
  "L1L2 (Transcript (AfterRequest c r)) = L1L2 (Transcript c)"
  "MessageC (Transcript (AfterRequest c r)) = snd (AppendManagedBuffer (MessageC (Transcript c)) r)"
  by (simp_all add: AfterRequest_def SetTranscript_def PeerCertChain_def)

lemma ChallengeRequest_bytes:
  assumes "Version (ConnectionInfo c) = [0, 0]"
  shows "ChallengeRequest c 0 0 [] = [0x10, 0x83, 0, 0] @ replicate 32 0"
    and "length (ChallengeRequest c 0 0 []) = 36"
  using assms
  by (simp_all add: ChallengeRequest_def SpdmIsVersionSupported_def
      SPDM_MESSAGE_VERSION_11_def SPDM_MESSAGE_VERSION_10_def SPDM_CHALLENGE_def
      WriteField_def SPDM_NONCE_SIZE_def)

lemma first_of_32: "replicate 32 x = x # replicate 31 x"
  by (simp add: numeral_eq_Suc)

lemma receive_flags:
  "(0x0E :: UINT64) AND SPDM_NEGOTIATE_ALGORITHMS_RECEIVE_FLAG \<noteq> 0"
  "(0x0E :: UINT64) AND SPDM_GET_CAPABILITIES_RECEIVE_FLAG \<noteq> 0"
  "(0x0E :: UINT64) AND SPDM_GET_DIGESTS_RECEIVE_FLAG \<noteq> 0"
  "(0x04 :: UINT32) AND SPDM_GET_CAPABILITIES_RESPONSE_FLAGS_CHAL_CAP \<noteq> 0"
  "(0x104 :: UINT32) AND SPDM_GET_CAPABILITIES_RESPONSE_FLAGS_CHAL_CAP \<noteq> 0"
  "(0x104 :: UINT32) AND SPDM_GET_CAPABILITIES_REQUEST_FLAGS_MUT_AUTH_CAP \<noteq> 0"
  "(0 :: UINT32) AND SPDM_GET_CAPABILITIES_REQUEST_FLAGS_MUT_AUTH_CAP = 0"
  by (simp_all add: SPDM_NEGOTIATE_ALGORITHMS_RECEIVE_FLAG_def
      SPDM_GET_CAPABILITIES_RECEIVE_FLAG_def SPDM_GET_DIGESTS_RECEIVE_FLAG_def
      SPDM_GET_CAPABILITIES_RESPONSE_FLAGS_CHAL_CAP_def
      SPDM_GET_CAPABILITIES_REQUEST_FLAGS_MUT_AUTH_CAP_def)

text \<open>The context the requester has when it has accepted the CHALLENGE_AUTH: the request
  and the signed part of the response appended to ledger C, M1M2 reset.\<close>

lemma Stale_exchange:
  "TrySpdmChallengeExchange SmallConfig TransparentCrypto (ResponseEnv StaleResponse)
     StaleContext 0 0 [] =
   (Inr (0, replicate 8 0),
    (AfterRequest StaleContext (ChallengeRequest StaleContext 0 0 []))
      \<lparr>Transcript := (Transcript (AfterRequest StaleContext (ChallengeRequest StaleContext 0 0 [])))
          \<lparr>MessageC := \<lparr>MaxBufferSize = 128,
                         Buffer = 0x0C # ChallengeRequest StaleContext 0 0 [] @
                                  take 54 StaleResponse\<rparr>,
           M1M2 := \<lparr>MaxBufferSize = 256, Buffer = []\<rparr>\<rparr>,
       ErrorState := SPDM_STATUS_SUCCESS\<rparr>)"
proof -
  let ?r = "ChallengeRequest StaleContext 0 0 []"
  note rb = ChallengeRequest_bytes [OF StaleContext_fields(4)]
  have reach: "TrySpdmChallengeExchange SmallConfig TransparentCrypto (ResponseEnv StaleResponse)
      StaleContext 0 0 [] =
    TrySpdmChallengeAuth SmallConfig TransparentCrypto (ResponseEnv StaleResponse)
      (AfterRequest StaleContext ?r) 0 StaleResponse"
    by (rule TrySpdmChallengeExchange_reaches_auth)
      (simp_all add: StaleContext_fields receive_flags SmallConfig_sizes MutAuthEnv_fields
        RETURN_ERROR_def StaleResponse_def ChallengeAuthBytes_segments
        SIZEOF_SPDM_MESSAGE_HEADER_def SPDM_CHALLENGE_AUTH_def)
  have acc: "TrySpdmChallengeAuth SmallConfig
      (TransparentCrypto\<lparr>SpdmRequesterDataSignFunc := (\<lambda>Algo Hash. Some Hash)\<rparr>)
      (ResponseEnv StaleResponse) (AfterRequest StaleContext ?r) 0
      (ChallengeAuthBytes 0x00 [0x99, 0x0A, 0x0B, 0x0C, 0x10, 0x83, 0, 0]) =
    (Inr (AuthAttribute_BasicMutAuthReq 0x00, replicate 8 0),
     (AfterRequest StaleContext ?r)
       \<lparr>Transcript := (Transcript (AfterRequest StaleContext ?r))
          \<lparr>MessageC := \<lparr>MaxBufferSize = 128,
                         Buffer = 0x0C # ?r @
                           take 54 (ChallengeAuthBytes 0x00 [0x99, 0x0A, 0x0B, 0x0C, 0x10, 0x83, 0, 0])\<rparr>,
           M1M2 := \<lparr>MaxBufferSize = 256, Buffer = []\<rparr>\<rparr>,
        ErrorState := SPDM_STATUS_SUCCESS\<rparr>)"
    by (rule TrySpdmChallengeAuth_accepted [where m = "[0x99]"])
      (simp_all add: AfterRequest_fields StaleContext_fields AppendManagedBuffer_def rb
        MutAuthEnv_fields first_of_32 PadTo_8_long)
  show ?thesis
    using reach acc
    by (simp add: TransparentCrypto_requester_sign [symmetric] StaleResponse_def
        AuthAttribute_BasicMutAuthReq_def)
qed

lemma Mutual_exchange:
  "TrySpdmChallengeExchange SmallConfig (TransparentCrypto\<lparr>SpdmRequesterDataSignFunc := f\<rparr>)
     (FlowEnv FlowCrypto) MutualContext 0 0 [] =
   (Inr (1, replicate 8 0),
    (AfterRequest MutualContext (ChallengeRequest MutualContext 0 0 []))
      \<lparr>Transcript := (Transcript (AfterRequest MutualContext (ChallengeRequest MutualContext 0 0 [])))
          \<lparr>MessageC := \<lparr>MaxBufferSize = 128,
                         Buffer = 0x0C # ChallengeRequest MutualContext 0 0 [] @
                                  take 54 MutualResponse\<rparr>,
           M1M2 := \<lparr>MaxBufferSize = 256, Buffer = []\<rparr>\<rparr>,
       ErrorState := SPDM_STATUS_SUCCESS\<rparr>)"
proof -
  let ?r = "ChallengeRequest MutualContext 0 0 []"
  let ?Crypto = "TransparentCrypto\<lparr>SpdmRequesterDataSignFunc := f\<rparr>"
  note rb = ChallengeRequest_bytes [OF MutualContext_fields(5)]
  have reach: "TrySpdmChallengeExchange SmallConfig ?Crypto (FlowEnv FlowCrypto)
      MutualContext 0 0 [] =
    TrySpdmChallengeAuth SmallConfig ?Crypto (FlowEnv FlowCrypto)
      (AfterRequest MutualContext ?r) 0 MutualResponse"
    by (rule TrySpdmChallengeExchange_reaches_auth)
      (simp_all add: MutualContext_fields receive_flags SmallConfig_sizes MutAuthEnv_fields
        RETURN_ERROR_def MutualResponse_def ChallengeAuthBytes_segments
        SIZEOF_SPDM_MESSAGE_HEADER_def SPDM_CHALLENGE_AUTH_def)
  have acc: "TrySpdmChallengeAuth SmallConfig ?Crypto
      (FlowEnv FlowCrypto) (AfterRequest MutualContext ?r) 0
      (ChallengeAuthBytes 0x80 [0x0A, 0x0B, 0x0C, 0x10, 0x83, 0, 0, 0]) =
    (Inr (AuthAttribute_BasicMutAuthReq 0x80, replicate 8 0),
     (AfterRequest MutualContext ?r)
       \<lparr>Transcript := (Transcript (AfterRequest MutualContext ?r))
          \<lparr>MessageC := \<lparr>MaxBufferSize = 128,
                         Buffer = 0x0C # ?r @
                           take 54 (ChallengeAuthBytes 0x80 [0x0A, 0x0B, 0x0C, 0x10, 0x83, 0, 0, 0])\<rparr>,
           M1M2 := \<lparr>MaxBufferSize = 256, Buffer = []\<rparr>\<rparr>,
        ErrorState := SPDM_STATUS_SUCCESS\<rparr>)"
    by (rule TrySpdmChallengeAuth_accepted [where m = "[]"])
      (simp_all add: AfterRequest_fields MutualContext_fields LedgerContext_ledgers
        AppendManagedBuffer_def rb MutAuthEnv_fields first_of_32 PadTo_8_long receive_flags)
  show ?thesis
    using reach acc
    by (simp add: MutualResponse_def AuthAttribute_BasicMutAuthReq_def)
qed

text \<open>SpdmGetEncapResponseChallengeAuth on a context with one provisioned slot, the
  one-byte ledgers MutB and MutC and an empty M1M2, for a CHALLENGE for slot 0: when the
  requester signing fails it leaves the ERROR response and the 92 bytes of MutB and MutC in
  M1M2; when the signing succeeds it leaves the CHALLENGE_AUTH and an empty M1M2.\<close>

lemma encap_flow_sign_failure:
  assumes "MessageMutB (Transcript x) = \<lparr>MaxBufferSize = 256, Buffer = [0x1B]\<rparr>"
    and "MessageMutC (Transcript x) = \<lparr>MaxBufferSize = 128, Buffer = [0x1C]\<rparr>"
    and "M1M2 (Transcript x) = \<lparr>MaxBufferSize = 256, Buffer = m\<rparr>" and "length m \<le> 8"
    and "CertificateChain (LocalContext x) = [[0xC0], []]"
    and "SlotCount (LocalContext x) = 1"
    and "OpaqueChallengeAuthRsp (LocalContext x) = []"
  shows "\<exists>x'. SpdmGetEncapResponseChallengeAuth FailingSignCrypto x
           (ChallengeRequestBytes 0 0) [] [] =
           Some (SpdmErrorResponse SPDM_ERROR_CODE_UNSUPPORTED_REQUEST SPDM_CHALLENGE_AUTH, x') \<and>
         length (Buffer (M1M2 (Transcript x'))) = length m + 92 \<and>
         length (Buffer (MessageMutC (Transcript x'))) = 91 \<and>
         MessageC (Transcript x') = MessageC (Transcript x)"
proof -
  have sizes: "GetSpdmHashSize FailingSignCrypto a = 8" "GetSpdmReqAsymSize FailingSignCrypto b = 8"
    "SpdmRequesterDataSignFunc FailingSignCrypto b h = None" for a b h
    by (simp_all add: FailingSignCrypto_def TransparentCrypto_def)
  show ?thesis
    using assms
    by (simp add: SpdmGetEncapResponseChallengeAuth_def ChallengeRequestBytes_fields
        SIZEOF_SPDM_CHALLENGE_REQUEST_def SIZEOF_SPDM_MESSAGE_HEADER_def SPDM_NONCE_SIZE_def
        AppendManagedBuffer_def RETURN_ERROR_def SetTranscript_def Let_def
        SpdmGenerateCertChainHash_def SpdmGenerateMeasurementSummaryHash_def
        SPDM_CHALLENGE_REQUEST_NO_MEASUREMENT_SUMMARY_HASH_def
        SpdmGenerateChallengeAuthSignature_requester sizes WriteUint16_def)
qed

lemma encap_flow_signed:
  assumes "MessageMutB (Transcript x) = \<lparr>MaxBufferSize = 256, Buffer = [0x1B]\<rparr>"
    and "MessageMutC (Transcript x) = \<lparr>MaxBufferSize = 128, Buffer = [0x1C]\<rparr>"
    and "M1M2 (Transcript x) = \<lparr>MaxBufferSize = 256, Buffer = m\<rparr>" and "length m \<le> 8"
    and "CertificateChain (LocalContext x) = [[0xC0], []]"
    and "SlotCount (LocalContext x) = 1"
    and "OpaqueChallengeAuthRsp (LocalContext x) = []"
  shows "\<exists>Rsp x'. SpdmGetEncapResponseChallengeAuth TransparentCrypto x
           (ChallengeRequestBytes 0 0) [] [] = Some (SpdmMessageResponse Rsp, x') \<and>
         Buffer (M1M2 (Transcript x')) = [] \<and>
         length (Buffer (MessageMutC (Transcript x'))) = 91 \<and>
         MessageC (Transcript x') = MessageC (Transcript x)"
  using assms
  by (simp add: SpdmGetEncapResponseChallengeAuth_def ChallengeRequestBytes_fields
      SIZEOF_SPDM_CHALLENGE_REQUEST_def SIZEOF_SPDM_MESSAGE_HEADER_def SPDM_NONCE_SIZE_def
      AppendManagedBuffer_def RETURN_ERROR_def SetTranscript_def Let_def
      SpdmGenerateCertChainHash_def SpdmGenerateMeasurementSummaryHash_def
      SPDM_CHALLENGE_REQUEST_NO_MEASUREMENT_SUMMARY_HASH_def
      SpdmGenerateChallengeAuthSignature_requester TransparentCrypto_sizes WriteUint16_def
      ResetManagedBuffer_def)

lemma Mutual_accepted_fields:
  fixes r :: bytes and C1 :: MANAGED_BUFFER and e :: UINT32
  defines "x \<equiv> (AfterRequest MutualContext r)
      \<lparr>Transcript := (Transcript (AfterRequest MutualContext r))
          \<lparr>MessageC := C1, M1M2 := \<lparr>MaxBufferSize = 256, Buffer = []\<rparr>\<rparr>,
       ErrorState := e\<rparr>"
  shows "MessageMutB (Transcript x) = \<lparr>MaxBufferSize = 256, Buffer = [0x1B]\<rparr>"
    and "MessageMutC (Transcript x) = \<lparr>MaxBufferSize = 128, Buffer = [0x1C]\<rparr>"
    and "M1M2 (Transcript x) = \<lparr>MaxBufferSize = 256, Buffer = []\<rparr>"
    and "length ([] :: bytes) \<le> 8"
    and "CertificateChain (LocalContext x) = [[0xC0], []]"
    and "SlotCount (LocalContext x) = 1"
    and "OpaqueChallengeAuthRsp (LocalContext x) = []"
    and "MessageC (Transcript x) = C1"
    and "Flags (Local_Capability (LocalContext x)) = 0"
  by (simp_all add: x_def AfterRequest_fields MutualContext_fields LedgerContext_ledgers)

text \<open>The whole of TrySpdmChallenge on MutualContext, with the flow whose signing fails
  and with the flow whose signing succeeds.\<close>

lemma Mutual_challenge_sign_failure:
  "\<exists>x'. TrySpdmChallenge SmallConfig FailingSignCrypto (FlowEnv FailingSignCrypto) MutualContext
          0 0 True [] = (RETURN_SUCCESS, x', Some (replicate 8 0)) \<and>
        length (Buffer (M1M2 (Transcript x'))) = 92"
proof -
  let ?x = "(AfterRequest MutualContext (ChallengeRequest MutualContext 0 0 []))
      \<lparr>Transcript := (Transcript (AfterRequest MutualContext (ChallengeRequest MutualContext 0 0 [])))
          \<lparr>MessageC := \<lparr>MaxBufferSize = 128,
                         Buffer = 0x0C # ChallengeRequest MutualContext 0 0 [] @
                                  take 54 MutualResponse\<rparr>,
           M1M2 := \<lparr>MaxBufferSize = 256, Buffer = []\<rparr>\<rparr>,
       ErrorState := SPDM_STATUS_SUCCESS\<rparr>"
  have ex: "TrySpdmChallengeExchange SmallConfig FailingSignCrypto (FlowEnv FailingSignCrypto)
      MutualContext 0 0 [] = (Inr (1, replicate 8 0), ?x)"
    unfolding FailingSignCrypto_def by (rule Mutual_exchange)
  obtain x' where flow: "SpdmGetEncapResponseChallengeAuth FailingSignCrypto ?x
      (ChallengeRequestBytes 0 0) [] [] =
      Some (SpdmErrorResponse SPDM_ERROR_CODE_UNSUPPORTED_REQUEST SPDM_CHALLENGE_AUTH, x')"
    and len: "length (Buffer (M1M2 (Transcript x'))) = 92"
    using encap_flow_sign_failure [OF Mutual_accepted_fields(1-7), simplified] by blast
  have "TrySpdmChallenge SmallConfig FailingSignCrypto (FlowEnv FailingSignCrypto) MutualContext
      0 0 True [] = (RETURN_SUCCESS, ChallengeReceived x', Some (replicate 8 0))"
    using ex flow by (simp add: TrySpdmChallenge_def FlowEnv_def RETURN_ERROR_def)
  moreover have "length (Buffer (M1M2 (Transcript (ChallengeReceived x')))) = 92"
    using len by (simp add: ChallengeReceived_def)
  ultimately show ?thesis by blast
qed

lemma Mutual_challenge_signed:
  "\<exists>x'. TrySpdmChallenge SmallConfig TransparentCrypto (FlowEnv TransparentCrypto) MutualContext
          0 0 True [] = (RETURN_SUCCESS, x', Some (replicate 8 0)) \<and>
        length (Buffer (MessageMutC (Transcript x'))) = 91 \<and>
        Flags (Local_Capability (LocalContext x')) = 0"
proof -
  let ?x = "(AfterRequest MutualContext (ChallengeRequest MutualContext 0 0 []))
      \<lparr>Transcript := (Transcript (AfterRequest MutualContext (ChallengeRequest MutualContext 0 0 [])))
          \<lparr>MessageC := \<lparr>MaxBufferSize = 128,
                         Buffer = 0x0C # ChallengeRequest MutualContext 0 0 [] @
                                  take 54 MutualResponse\<rparr>,
           M1M2 := \<lparr>MaxBufferSize = 256, Buffer = []\<rparr>\<rparr>,
       ErrorState := SPDM_STATUS_SUCCESS\<rparr>"
  have ex: "TrySpdmChallengeExchange SmallConfig TransparentCrypto (FlowEnv TransparentCrypto)
      MutualContext 0 0 [] = (Inr (1, replicate 8 0), ?x)"
    using Mutual_exchange [where f = "\<lambda>Algo Hash. Some Hash" and FlowCrypto = TransparentCrypto]
    by (simp add: TransparentCrypto_requester_sign [symmetric])
  obtain Rsp x' where flow: "SpdmGetEncapResponseChallengeAuth TransparentCrypto ?x
      (ChallengeRequestBytes 0 0) [] [] = Some (SpdmMessageResponse Rsp, x')"
    and len: "length (Buffer (MessageMutC (Transcript x'))) = 91"
    using encap_flow_signed [OF Mutual_accepted_fields(1-7)] by blast
  have loc: "LocalContext x' = LocalContext ?x"
    using flow
    by (auto simp: SpdmGetEncapResponseChallengeAuth_def Let_def SetTranscript_def
        SpdmGenerateChallengeAuthSignature_requester split: if_splits prod.splits option.splits)
  have "TrySpdmChallenge SmallConfig TransparentCrypto (FlowEnv TransparentCrypto) MutualContext
      0 0 True [] = (RETURN_SUCCESS, ChallengeReceived x', Some (replicate 8 0))"
    using ex flow by (simp add: TrySpdmChallenge_def FlowEnv_def RETURN_ERROR_def)
  moreover have "length (Buffer (MessageMutC (Transcript (ChallengeReceived x')))) = 91"
    using len by (simp add: ChallengeReceived_def)
  moreover have "Flags (Local_Capability (LocalContext (ChallengeReceived x'))) = 0"
    using loc Mutual_accepted_fields(9) by (simp add: ChallengeReceived_def)
  ultimately show ?thesis by blast
qed

text \<open>
  C8 read with the local capability flag fails: on MutualContext the MUT_AUTH_CAP flag is
  clear in the local capability flags and set in the connection's, the CHALLENGE_AUTH
  received has BasicMutAuthReq = 1, and TrySpdmChallenge returns RETURN_SUCCESS after the
  encapsulated flow has run: ledger MutC, one byte long before, holds the encapsulated
  CHALLENGE and the CHALLENGE_AUTH that answered it.
\<close>

theorem BasicMutAuthReq_local_flag_counterexample:
  "Flags (Local_Capability (LocalContext MutualContext)) AND
     SPDM_GET_CAPABILITIES_REQUEST_FLAGS_MUT_AUTH_CAP = 0 \<and>
   Flags (Conn_Capability (ConnectionInfo MutualContext)) AND
     SPDM_GET_CAPABILITIES_REQUEST_FLAGS_MUT_AUTH_CAP = 0x100 \<and>
   SpdmReceiveSpdmResponse (FlowEnv TransparentCrypto)
     (SIZEOF_SPDM_CHALLENGE_AUTH_RESPONSE_MAX SmallConfig) = (RETURN_SUCCESS, MutualResponse) \<and>
   MutualResponse ! 1 = SPDM_CHALLENGE_AUTH \<and>
   AuthAttribute_BasicMutAuthReq (MutualResponse ! 2) = 1 \<and>
   fst (TrySpdmChallenge SmallConfig TransparentCrypto (FlowEnv TransparentCrypto)
          MutualContext 0 0 True []) = RETURN_SUCCESS \<and>
   length (Buffer (MessageMutC (Transcript MutualContext))) = 1 \<and>
   length (Buffer (MessageMutC (Transcript (fst (snd
     (TrySpdmChallenge SmallConfig TransparentCrypto (FlowEnv TransparentCrypto)
        MutualContext 0 0 True [])))))) = 91"
proof -
  obtain x' where run: "TrySpdmChallenge SmallConfig TransparentCrypto (FlowEnv TransparentCrypto)
      MutualContext 0 0 True [] = (RETURN_SUCCESS, x', Some (replicate 8 0))"
    and len: "length (Buffer (MessageMutC (Transcript x'))) = 91"
    using Mutual_challenge_signed by blast
  have flags: "Flags (Local_Capability (LocalContext MutualContext)) AND
      SPDM_GET_CAPABILITIES_REQUEST_FLAGS_MUT_AUTH_CAP = 0"
    "Flags (Conn_Capability (ConnectionInfo MutualContext)) AND
      SPDM_GET_CAPABILITIES_REQUEST_FLAGS_MUT_AUTH_CAP = 0x100"
    by (simp_all add: MutualContext_fields SPDM_GET_CAPABILITIES_REQUEST_FLAGS_MUT_AUTH_CAP_def)
  have rsp: "MutualResponse ! 1 = SPDM_CHALLENGE_AUTH"
    "AuthAttribute_BasicMutAuthReq (MutualResponse ! 2) = 1"
    by (simp_all add: MutualResponse_def ChallengeAuthBytes_def SPDM_CHALLENGE_AUTH_def
        AuthAttribute_BasicMutAuthReq_def)
  show ?thesis
    using run len flags rsp
    by (simp add: MutAuthEnv_fields MutualContext_fields LedgerContext_ledgers)
qed

section \<open>Appends and resets of the transcript ledgers\<close>

lemma AppendManagedBuffer_snd_prefix [simp]:
  "prefix (Buffer b) (Buffer (snd (AppendManagedBuffer b d)))"
  by (simp add: AppendManagedBuffer_def)

lemma two_appends [simp]:
  "prefix (Buffer b)
     (Buffer (snd (AppendManagedBuffer (snd (AppendManagedBuffer b x)) y)))"
  by (simp add: AppendManagedBuffer_def)

lemma three_appends [simp]:
  "prefix (Buffer b)
     (Buffer (snd (AppendManagedBuffer (snd (AppendManagedBuffer (snd (AppendManagedBuffer b x)) y)) z)))"
  by (simp add: AppendManagedBuffer_def)

lemma TranscriptExtended_refl [simp]: "TranscriptExtended t t"
  by (simp add: TranscriptExtended_def)

lemma TranscriptExtended_trans:
  "TranscriptExtended t0 t1 \<Longrightarrow> TranscriptExtended t1 t2 \<Longrightarrow> TranscriptExtended t0 t2"
  unfolding TranscriptExtended_def by (meson prefix_order.trans)

lemma TranscriptExtended_kept:
  "TranscriptExtended t0 t1 \<Longrightarrow> TranscriptKept t0 t1"
  by (simp add: TranscriptExtended_def TranscriptKept_def LedgerKept_def)

lemma TranscriptKept_refl [simp]: "TranscriptKept t t"
  by (simp add: TranscriptKept_def LedgerKept_def)

lemma TranscriptExtended_then_kept:
  "TranscriptExtended t0 t1 \<Longrightarrow> TranscriptKept t1 t2 \<Longrightarrow> TranscriptKept t0 t2"
  unfolding TranscriptExtended_def TranscriptKept_def LedgerKept_def
  by (meson prefix_order.trans)

lemma TranscriptExtended_reset:
  "TranscriptExtended t0 (Transcript x) \<Longrightarrow>
   TranscriptKept t0
     (Transcript (SetTranscript x (\<lambda>t. t\<lparr>M1M2 := ResetManagedBuffer (M1M2 t)\<rparr>)))"
  by (simp add: TranscriptExtended_def TranscriptKept_def LedgerKept_def SetTranscript_def
      ResetManagedBuffer_def)

lemma SpdmGenerateChallengeAuthSignature_extended:
  "TranscriptExtended (Transcript c)
     (Transcript (snd (SpdmGenerateChallengeAuthSignature Crypto c IsRequester Message)))"
  by (simp add: SpdmGenerateChallengeAuthSignature_def Let_def SetTranscript_def
      TranscriptExtended_def case_prod_beta)

lemma TrySpdmChallengeAuth_reset:
  "TrySpdmChallengeAuth Cfg Crypto Env c SlotNum Response = (Inr Result, c1) \<Longrightarrow>
   Buffer (M1M2 (Transcript c1)) = []"
  by (auto simp: TrySpdmChallengeAuth_def Let_def SetTranscript_def ResetManagedBuffer_def
      split: if_splits)

lemma TrySpdmChallengeAuth_error:
  "TrySpdmChallengeAuth Cfg Crypto Env c SlotNum Response = (Inl Status, c1) \<Longrightarrow>
   RETURN_ERROR Status"
  by (auto simp: TrySpdmChallengeAuth_def Let_def RETURN_ERROR_def split: if_splits)

lemma TrySpdmChallengeAuth_kept:
  "TranscriptKept (Transcript c)
     (Transcript (snd (TrySpdmChallengeAuth Cfg Crypto Env c SlotNum Response)))"
  by (simp add: TrySpdmChallengeAuth_def Let_def SetTranscript_def ResetManagedBuffer_def
      TranscriptKept_def LedgerKept_def)

lemma TrySpdmChallengeExchange_reset:
  "TrySpdmChallengeExchange Cfg Crypto Env c SlotNum HashType Nonce = (Inr Result, c1) \<Longrightarrow>
   Buffer (M1M2 (Transcript c1)) = []"
  by (auto simp: TrySpdmChallengeExchange_def Let_def
      dest: TrySpdmChallengeAuth_reset split: if_splits prod.splits)

lemma TrySpdmChallengeExchange_error:
  "TrySpdmChallengeExchange Cfg Crypto Env c SlotNum HashType Nonce = (Inl Status, c1) \<Longrightarrow>
   RETURN_ERROR Status"
  by (auto simp: TrySpdmChallengeExchange_def Let_def RETURN_ERROR_def
      dest: TrySpdmChallengeAuth_error split: if_splits prod.splits)

lemma request_appended_extended:
  "TranscriptExtended (Transcript c)
     (Transcript (SetTranscript (c\<lparr>ErrorState := e\<rparr>)
        (\<lambda>t. t\<lparr>MessageC := snd (AppendManagedBuffer (MessageC t) r)\<rparr>)))"
  by (simp add: SetTranscript_def TranscriptExtended_def)

lemma request_appended_auth_kept:
  "TranscriptKept (Transcript c)
     (Transcript (snd (TrySpdmChallengeAuth Cfg Crypto Env
        (SetTranscript (c\<lparr>ErrorState := e\<rparr>)
           (\<lambda>t. t\<lparr>MessageC := snd (AppendManagedBuffer (MessageC t) r)\<rparr>))
        SlotNum Response)))"
  by (rule TranscriptExtended_then_kept [OF request_appended_extended TrySpdmChallengeAuth_kept])

lemma TrySpdmChallengeExchange_kept:
  assumes recv: "SpdmReceiveSpdmResponse Env (SIZEOF_SPDM_CHALLENGE_AUTH_RESPONSE_MAX Cfg) =
                 (Status, Response)"
    and code: "Response ! 1 \<noteq> SPDM_ERROR"
  shows "TranscriptKept (Transcript c)
     (Transcript (snd (TrySpdmChallengeExchange Cfg Crypto Env c SlotNum HashType Nonce)))"
  using recv code
  by (simp add: TrySpdmChallengeExchange_def Let_def request_appended_auth_kept
      TranscriptExtended_kept [OF request_appended_extended])

lemma encap_reset:
  "SpdmGetEncapResponseChallengeAuth Crypto c Request Nonce Stack =
     Some (SpdmMessageResponse Rsp, c') \<Longrightarrow> Buffer (M1M2 (Transcript c')) = []"
  by (auto simp: SpdmGetEncapResponseChallengeAuth_def Let_def SetTranscript_def
      ResetManagedBuffer_def split: if_splits prod.splits option.splits)

lemma request_received_extended:
  "TranscriptExtended (Transcript c)
     (Transcript (SetTranscript c
        (\<lambda>t. t\<lparr>MessageMutC := snd (AppendManagedBuffer (MessageMutC (Transcript c)) r)\<rparr>)))"
  by (simp add: SetTranscript_def TranscriptExtended_def)

lemma request_received_signature_extended:
  "TranscriptExtended (Transcript c)
     (Transcript (snd (SpdmGenerateChallengeAuthSignature Crypto
        (SetTranscript c
          (\<lambda>t. t\<lparr>MessageMutC := snd (AppendManagedBuffer (MessageMutC (Transcript c)) r)\<rparr>))
        IsRequester Message)))"
  by (rule TranscriptExtended_trans
      [OF request_received_extended SpdmGenerateChallengeAuthSignature_extended])

lemma encap_kept_cases:
  "case SpdmGetEncapResponseChallengeAuth Crypto c Request Nonce Stack of
     None \<Rightarrow> True
   | Some result \<Rightarrow> TranscriptKept (Transcript c) (Transcript (snd result))"
  by (simp add: SpdmGetEncapResponseChallengeAuth_def Let_def case_prod_beta
      TranscriptExtended_kept [OF request_received_extended]
      TranscriptExtended_kept [OF request_received_signature_extended]
      TranscriptExtended_reset [OF request_received_signature_extended]
      split: option.split)

lemma encap_kept:
  "SpdmGetEncapResponseChallengeAuth Crypto c Request Nonce Stack = Some (r, c') \<Longrightarrow>
   TranscriptKept (Transcript c) (Transcript c')"
  using encap_kept_cases [where Crypto = Crypto and c = c and Request = Request
      and Nonce = Nonce and Stack = Stack] by simp

lemma SpdmGenerateChallengeSignature_extended:
  "TranscriptExtended (Responder_Transcript c)
     (Responder_Transcript (snd (SpdmGenerateChallengeSignature Lib c Message)))"
  by (simp add: SpdmGenerateChallengeSignature_def Let_def TranscriptExtended_def
      split: option.split)

lemma responder_extended_cases:
  "case SpdmGetResponseChallenge Lib c Request Nonce of
     None \<Rightarrow> True
   | Some result \<Rightarrow>
       TranscriptExtended (Responder_Transcript c) (Responder_Transcript (snd result))"
  by (simp add: SpdmGetResponseChallenge_def Let_def case_prod_beta
      SpdmGenerateChallengeSignature_extended split: option.split)

lemma responder_extended:
  "SpdmGetResponseChallenge Lib c Request Nonce = Some (r, c') \<Longrightarrow>
   TranscriptExtended (Responder_Transcript c) (Responder_Transcript c')"
  using responder_extended_cases [where Lib = Lib and c = c and Request = Request
      and Nonce = Nonce] by simp

lemma reset_after_append:
  "(snd (AppendManagedBuffer b d))\<lparr>Buffer := []\<rparr> = b\<lparr>Buffer := []\<rparr>"
  by (simp add: AppendManagedBuffer_def)

lemma take_padded_prefix:
  "n \<le> length xs \<Longrightarrow> prefix (take n (xs @ ys)) xs"
  by (simp add: take_is_prefix)

text \<open>Where TrySpdmChallenge goes on after its tests of the response, it has appended the
  signed part of the response to ledger C, appended A, B and C to M1M2, verified the
  signature in that state, and reset M1M2.\<close>

lemma TrySpdmChallengeAuth_verified:
  assumes "TrySpdmChallengeAuth Cfg Crypto Env c SlotNum Response = (Inr Result, c1)"
  shows "\<exists>Signed Sig. prefix Signed Response \<and>
      SpdmVerifyChallengeAuthSignature Crypto
        (c\<lparr>Transcript := (Transcript c)
            \<lparr>MessageC := snd (AppendManagedBuffer (MessageC (Transcript c)) Signed),
             M1M2 := snd (AppendManagedBuffer
                       (snd (AppendManagedBuffer
                         (snd (AppendManagedBuffer (M1M2 (Transcript c))
                            (Buffer (MessageA (Transcript c)))))
                         (Buffer (MessageB (Transcript c)))))
                       (Buffer (snd (AppendManagedBuffer (MessageC (Transcript c)) Signed))))\<rparr>\<rparr>)
        True Sig \<and>
      Transcript c1 = (Transcript c)
        \<lparr>MessageC := snd (AppendManagedBuffer (MessageC (Transcript c)) Signed),
         M1M2 := (M1M2 (Transcript c))\<lparr>Buffer := []\<rparr>\<rparr>"
proof -
  let ?P = "Response @ replicate (SIZEOF_SPDM_CHALLENGE_AUTH_RESPONSE_MAX Cfg - length Response) 0"
  let ?H = "Requester_GetSpdmHashSize Env c"
  let ?Fixed = "SIZEOF_SPDM_CHALLENGE_AUTH_RESPONSE + ?H + SPDM_NONCE_SIZE + ?H + 2"
  let ?Total = "?Fixed + unat (ReadUint16 (drop (?Fixed - 2) ?P)) + Requester_GetSpdmAsymSize Env c"
  let ?Signed = "take (?Total - Requester_GetSpdmAsymSize Env c) ?P"
  let ?Sig = "take (Requester_GetSpdmAsymSize Env c)
      (drop (?Fixed + unat (ReadUint16 (drop (?Fixed - 2) ?P))) ?P)"
  from assms have fit: "?Total \<le> length Response"
    by (simp add: TrySpdmChallengeAuth_def Let_def split: if_splits)
  have pre: "prefix ?Signed Response"
    by (rule take_padded_prefix [OF le_trans [OF diff_le_self fit]])
  from assms have
    "SpdmVerifyChallengeAuthSignature Crypto
        (c\<lparr>Transcript := (Transcript c)
            \<lparr>MessageC := snd (AppendManagedBuffer (MessageC (Transcript c)) ?Signed),
             M1M2 := snd (AppendManagedBuffer
                       (snd (AppendManagedBuffer
                         (snd (AppendManagedBuffer (M1M2 (Transcript c))
                            (Buffer (MessageA (Transcript c)))))
                         (Buffer (MessageB (Transcript c)))))
                       (Buffer (snd (AppendManagedBuffer (MessageC (Transcript c)) ?Signed))))\<rparr>\<rparr>)
        True ?Sig \<and>
      Transcript c1 = (Transcript c)
        \<lparr>MessageC := snd (AppendManagedBuffer (MessageC (Transcript c)) ?Signed),
         M1M2 := (M1M2 (Transcript c))\<lparr>Buffer := []\<rparr>\<rparr>"
    by (auto simp: TrySpdmChallengeAuth_def Let_def SetTranscript_def ResetManagedBuffer_def
        GetManagedBuffer_def reset_after_append split: if_splits)
  with pre show ?thesis by blast
qed

text \<open>Where SpdmGetEncapResponseChallengeAuth produces a CHALLENGE_AUTH, it has appended
  the request and the message to MutC, the requester signature in the response is that of
  M1M2 with MutB and MutC appended, and M1M2 is reset.\<close>

lemma encap_produced:
  assumes "SpdmGetEncapResponseChallengeAuth Crypto c Request Nonce Stack =
             Some (SpdmMessageResponse Rsp, c')"
  shows "\<exists>Message Sig.
      Rsp = Message @ WriteField (GetSpdmReqAsymSize Crypto
                                   (ReqBaseAsymAlg (Conn_Algorithm (ConnectionInfo c)))) Sig \<and>
      SpdmRequesterDataSignFunc Crypto (ReqBaseAsymAlg (Conn_Algorithm (ConnectionInfo c)))
        (HashData Crypto c
           (Buffer (M1M2 (Transcript c)) @ Buffer (MessageMutB (Transcript c)) @
            Buffer (MessageMutC (Transcript c)) @ Request @ Message)) = Some Sig \<and>
      Transcript c' = (Transcript c)
        \<lparr>MessageMutC := (MessageMutC (Transcript c))
           \<lparr>Buffer := Buffer (MessageMutC (Transcript c)) @ Request @ Message\<rparr>,
         M1M2 := (M1M2 (Transcript c))\<lparr>Buffer := []\<rparr>\<rparr>"
  using assms
  apply (simp add: SpdmGetEncapResponseChallengeAuth_def Let_def case_prod_beta
      split: if_splits option.splits)
  apply (simp_all add: SpdmGenerateChallengeAuthSignature_requester Let_def SetTranscript_def
      AppendManagedBuffer_def RETURN_ERROR_def ResetManagedBuffer_def HashData_def
      split: if_splits)
  subgoal for h s g
    by (rule exI [where x = "[if SpdmIsVersionSupported c SPDM_MESSAGE_VERSION_11
             then SPDM_MESSAGE_VERSION_11 else SPDM_MESSAGE_VERSION_10,
             SPDM_CHALLENGE_AUTH, Request ! 2 AND 0xF,
             if Request ! 2 = 0xFF then 0 else SlotMask (Request ! 2)] @
            WriteField (GetSpdmHashSize Crypto
                          (BaseHashAlgo (Conn_Algorithm (ConnectionInfo c)))) h @
            WriteField SPDM_NONCE_SIZE Nonce @
            WriteField (GetSpdmHashSize Crypto
                          (BaseHashAlgo (Conn_Algorithm (ConnectionInfo c)))) s @
            WriteUint16 (of_nat (length (OpaqueChallengeAuthRsp (LocalContext c)))) @
            OpaqueChallengeAuthRsp (LocalContext c)"], rule exI [where x = g])
      (auto simp: SpdmIsVersionSupported_def HashData_def)
  subgoal for h s g
    by (rule exI [where x = "[if SpdmIsVersionSupported c SPDM_MESSAGE_VERSION_11
             then SPDM_MESSAGE_VERSION_11 else SPDM_MESSAGE_VERSION_10,
             SPDM_CHALLENGE_AUTH, Request ! 2 AND 0xF,
             if Request ! 2 = 0xFF then 0 else SlotMask (Request ! 2)] @
            WriteField (GetSpdmHashSize Crypto
                          (BaseHashAlgo (Conn_Algorithm (ConnectionInfo c)))) h @
            WriteField SPDM_NONCE_SIZE Nonce @
            WriteField (GetSpdmHashSize Crypto
                          (BaseHashAlgo (Conn_Algorithm (ConnectionInfo c)))) s @
            WriteUint16 (of_nat (length (OpaqueChallengeAuthRsp (LocalContext c)))) @
            OpaqueChallengeAuthRsp (LocalContext c)"], rule exI [where x = g])
      (auto simp: SpdmIsVersionSupported_def HashData_def)
  subgoal for h s g
    by (rule exI [where x = "[if SpdmIsVersionSupported c SPDM_MESSAGE_VERSION_11
             then SPDM_MESSAGE_VERSION_11 else SPDM_MESSAGE_VERSION_10,
             SPDM_CHALLENGE_AUTH, Request ! 2 AND 0xF,
             if Request ! 2 = 0xFF then 0 else SlotMask (Request ! 2)] @
            WriteField (GetSpdmHashSize Crypto
                          (BaseHashAlgo (Conn_Algorithm (ConnectionInfo c)))) h @
            WriteField SPDM_NONCE_SIZE Nonce @
            WriteField (GetSpdmHashSize Crypto
                          (BaseHashAlgo (Conn_Algorithm (ConnectionInfo c)))) s @
            WriteUint16 (of_nat (length (OpaqueChallengeAuthRsp (LocalContext c)))) @
            OpaqueChallengeAuthRsp (LocalContext c)"], rule exI [where x = g])
      (auto simp: SpdmIsVersionSupported_def HashData_def)
  subgoal for h s g
    by (rule exI [where x = "[if SpdmIsVersionSupported c SPDM_MESSAGE_VERSION_11
             then SPDM_MESSAGE_VERSION_11 else SPDM_MESSAGE_VERSION_10,
             SPDM_CHALLENGE_AUTH, Request ! 2 AND 0xF,
             if Request ! 2 = 0xFF then 0 else SlotMask (Request ! 2)] @
            WriteField (GetSpdmHashSize Crypto
                          (BaseHashAlgo (Conn_Algorithm (ConnectionInfo c)))) h @
            WriteField SPDM_NONCE_SIZE Nonce @
            WriteField (GetSpdmHashSize Crypto
                          (BaseHashAlgo (Conn_Algorithm (ConnectionInfo c)))) s @
            WriteUint16 (of_nat (length (OpaqueChallengeAuthRsp (LocalContext c)))) @
            OpaqueChallengeAuthRsp (LocalContext c)"], rule exI [where x = g])
      (auto simp: SpdmIsVersionSupported_def HashData_def)
  done

text \<open>On an ERROR response TrySpdmChallenge hands ledger C to SpdmHandleErrorResponseMain,
  which is not among the sources. Whatever context that function leaves, TrySpdmChallenge
  itself keeps the transcript it found or the transcript the function left.\<close>

lemma TrySpdmChallengeExchange_error_path_kept:
  assumes recv: "SpdmReceiveSpdmResponse Env (SIZEOF_SPDM_CHALLENGE_AUTH_RESPONSE_MAX Cfg) =
                 (Status, Response)"
    and handler: "SpdmHandleErrorResponseMain Env
                    (AfterRequest c (ChallengeRequest c SlotNum HashType Nonce)) Response =
                  (Status2, c3, Response2)"
  shows "TranscriptKept (Transcript c)
           (Transcript (snd (TrySpdmChallengeExchange Cfg Crypto Env c SlotNum HashType Nonce))) \<or>
         TranscriptKept (Transcript c3)
           (Transcript (snd (TrySpdmChallengeExchange Cfg Crypto Env c SlotNum HashType Nonce)))"
proof (cases "Response ! 1 = SPDM_ERROR")
  case False
  with recv show ?thesis
    using TrySpdmChallengeExchange_kept by blast
next
  case True
  show ?thesis
  proof (cases "SpdmIsVersionSupported c SPDM_MESSAGE_VERSION_11")
    case v: True
    show ?thesis
      using recv True handler [unfolded AfterRequest_def ChallengeRequest_def] v
      by (simp add: TrySpdmChallengeExchange_def Let_def TrySpdmChallengeAuth_kept
          TranscriptExtended_kept [OF request_appended_extended])
  next
    case v: False
    show ?thesis
      using recv True handler [unfolded AfterRequest_def ChallengeRequest_def] v
      by (simp add: TrySpdmChallengeExchange_def Let_def TrySpdmChallengeAuth_kept
          TranscriptExtended_kept [OF request_appended_extended])
  qed
qed

text \<open>A successful TrySpdmChallenge has passed the reset of M1M2; without mutual
  authentication it returns that transcript, with it the transcript that
  SpdmEncapsulatedRequest left.\<close>

lemma TrySpdmChallenge_success:
  assumes run: "TrySpdmChallenge Cfg Crypto Env c SlotNum HashType Want Nonce =
                  (RETURN_SUCCESS, c2, Out)"
  shows "\<exists>Mut Hash c1.
      TrySpdmChallengeExchange Cfg Crypto Env c SlotNum HashType Nonce = (Inr (Mut, Hash), c1) \<and>
      Buffer (M1M2 (Transcript c1)) = [] \<and>
      (Mut \<noteq> 1 \<and> Transcript c2 = Transcript c1 \<or>
       Mut = 1 \<and> Transcript c2 = Transcript (snd (SpdmEncapsulatedRequest Env c1)))"
proof (cases "TrySpdmChallengeExchange Cfg Crypto Env c SlotNum HashType Nonce")
  case (Pair res c1)
  show ?thesis
  proof (cases res)
    case (Inl Status)
    with Pair have "RETURN_ERROR Status"
      using TrySpdmChallengeExchange_error by blast
    with Pair Inl run show ?thesis
      by (simp add: TrySpdmChallenge_def RETURN_ERROR_def)
  next
    case (Inr Result)
    with Pair have empty: "Buffer (M1M2 (Transcript c1)) = []"
      using TrySpdmChallengeExchange_reset by blast
    obtain Mut Hash where Result: "Result = (Mut, Hash)"
      by (cases Result)
    have "Mut \<noteq> 1 \<and> Transcript c2 = Transcript c1 \<or>
       Mut = 1 \<and> Transcript c2 = Transcript (snd (SpdmEncapsulatedRequest Env c1))"
      using Pair Inr Result run
      by (auto simp: TrySpdmChallenge_def Let_def ChallengeReceived_def
          split: prod.splits if_splits)
    with Pair Inr Result empty show ?thesis by blast
  qed
qed

text \<open>
  C6, as the code has it. (1) Where TrySpdmChallenge has passed its tests of the
  CHALLENGE_AUTH, it has appended the signed part of the response to ledger C, appended A,
  B and C to M1M2, verified the signature in that state and then reset M1M2: M1M2 is
  empty at that point. (2) A TrySpdmChallenge that returns RETURN_SUCCESS has passed that
  point; without mutual authentication it returns the transcript of that point, whose
  M1M2 is empty, and with BasicMutAuthReq = 1 it returns the transcript that
  SpdmEncapsulatedRequest left, having started it on the empty M1M2: nothing resets M1M2
  after the encapsulated flow. (3) Where SpdmGetEncapResponseChallengeAuth produces a
  CHALLENGE_AUTH, it has appended the request and the message to MutC, signed M1M2 with
  MutB and MutC appended, and reset M1M2. (4) The operations keep the bytes that a ledger
  holds: each of TrySpdmChallenge up to its reset and SpdmGetEncapResponseChallengeAuth
  leaves every ledger starting with the bytes it held, except that M1M2 may be left empty
  (on an ERROR response, with respect to the transcript found or to the one that
  SpdmHandleErrorResponseMain left); SpdmGenerateChallengeAuthSignature and the
  responder's SpdmGetResponseChallenge leave all seven ledgers starting with the bytes
  they held.
\<close>

theorem Challenge_ledgers_kept_and_reset:
  "(TrySpdmChallengeAuth Cfg Crypto Env c SlotNum Response = (Inr Result, c1) \<longrightarrow>
      (\<exists>Signed Sig. prefix Signed Response \<and>
         SpdmVerifyChallengeAuthSignature Crypto
           (c\<lparr>Transcript := (Transcript c)
               \<lparr>MessageC := snd (AppendManagedBuffer (MessageC (Transcript c)) Signed),
                M1M2 := snd (AppendManagedBuffer
                          (snd (AppendManagedBuffer
                            (snd (AppendManagedBuffer (M1M2 (Transcript c))
                               (Buffer (MessageA (Transcript c)))))
                            (Buffer (MessageB (Transcript c)))))
                          (Buffer (snd (AppendManagedBuffer (MessageC (Transcript c)) Signed))))\<rparr>\<rparr>)
           True Sig \<and>
         Transcript c1 = (Transcript c)
           \<lparr>MessageC := snd (AppendManagedBuffer (MessageC (Transcript c)) Signed),
            M1M2 := (M1M2 (Transcript c))\<lparr>Buffer := []\<rparr>\<rparr>)) \<and>
   (TrySpdmChallengeExchange Cfg Crypto Env c SlotNum HashType Nonce = (Inr XResult, x1) \<longrightarrow>
      Buffer (M1M2 (Transcript x1)) = []) \<and>
   (TrySpdmChallenge Cfg Crypto Env c SlotNum HashType Want Nonce = (RETURN_SUCCESS, c2, Out) \<longrightarrow>
      (\<exists>Mut Hash x.
         TrySpdmChallengeExchange Cfg Crypto Env c SlotNum HashType Nonce =
           (Inr (Mut, Hash), x) \<and>
         Buffer (M1M2 (Transcript x)) = [] \<and>
         (Mut \<noteq> 1 \<and> Transcript c2 = Transcript x \<or>
          Mut = 1 \<and> Transcript c2 = Transcript (snd (SpdmEncapsulatedRequest Env x))))) \<and>
   (SpdmGetEncapResponseChallengeAuth ECrypto ec Request ENonce Stack =
      Some (SpdmMessageResponse Rsp, ec1) \<longrightarrow>
      (\<exists>Message Sig.
         Rsp = Message @ WriteField (GetSpdmReqAsymSize ECrypto
                                      (ReqBaseAsymAlg (Conn_Algorithm (ConnectionInfo ec)))) Sig \<and>
         SpdmRequesterDataSignFunc ECrypto (ReqBaseAsymAlg (Conn_Algorithm (ConnectionInfo ec)))
           (HashData ECrypto ec
              (Buffer (M1M2 (Transcript ec)) @ Buffer (MessageMutB (Transcript ec)) @
               Buffer (MessageMutC (Transcript ec)) @ Request @ Message)) = Some Sig \<and>
         Transcript ec1 = (Transcript ec)
           \<lparr>MessageMutC := (MessageMutC (Transcript ec))
              \<lparr>Buffer := Buffer (MessageMutC (Transcript ec)) @ Request @ Message\<rparr>,
            M1M2 := (M1M2 (Transcript ec))\<lparr>Buffer := []\<rparr>\<rparr>)) \<and>
   TranscriptKept (Transcript c)
     (Transcript (snd (TrySpdmChallengeAuth Cfg Crypto Env c SlotNum Response))) \<and>
   (SpdmReceiveSpdmResponse Env (SIZEOF_SPDM_CHALLENGE_AUTH_RESPONSE_MAX Cfg) =
      (Status, Received) \<and> Received ! 1 \<noteq> SPDM_ERROR \<longrightarrow>
      TranscriptKept (Transcript c)
        (Transcript (snd (TrySpdmChallengeExchange Cfg Crypto Env c SlotNum HashType Nonce)))) \<and>
   (SpdmReceiveSpdmResponse Env (SIZEOF_SPDM_CHALLENGE_AUTH_RESPONSE_MAX Cfg) =
      (Status, Received) \<and>
    SpdmHandleErrorResponseMain Env
      (AfterRequest c (ChallengeRequest c SlotNum HashType Nonce)) Received =
      (Status2, c3, Response2) \<longrightarrow>
      TranscriptKept (Transcript c)
        (Transcript (snd (TrySpdmChallengeExchange Cfg Crypto Env c SlotNum HashType Nonce))) \<or>
      TranscriptKept (Transcript c3)
        (Transcript (snd (TrySpdmChallengeExchange Cfg Crypto Env c SlotNum HashType Nonce)))) \<and>
   (SpdmGetEncapResponseChallengeAuth ECrypto ec Request ENonce Stack = Some (er, ec2) \<longrightarrow>
      TranscriptKept (Transcript ec) (Transcript ec2)) \<and>
   TranscriptExtended (Transcript sc)
     (Transcript (snd (SpdmGenerateChallengeAuthSignature SCrypto sc IsRequester Message))) \<and>
   (SpdmGetResponseChallenge Lib rc RRequest RNonce = Some (rr, rc1) \<longrightarrow>
      TranscriptExtended (Responder_Transcript rc) (Responder_Transcript rc1))"
proof (intro conjI impI)
  assume "TrySpdmChallengeAuth Cfg Crypto Env c SlotNum Response = (Inr Result, c1)"
  then show "\<exists>Signed Sig. prefix Signed Response \<and>
         SpdmVerifyChallengeAuthSignature Crypto
           (c\<lparr>Transcript := (Transcript c)
               \<lparr>MessageC := snd (AppendManagedBuffer (MessageC (Transcript c)) Signed),
                M1M2 := snd (AppendManagedBuffer
                          (snd (AppendManagedBuffer
                            (snd (AppendManagedBuffer (M1M2 (Transcript c))
                               (Buffer (MessageA (Transcript c)))))
                            (Buffer (MessageB (Transcript c)))))
                          (Buffer (snd (AppendManagedBuffer (MessageC (Transcript c)) Signed))))\<rparr>\<rparr>)
           True Sig \<and>
         Transcript c1 = (Transcript c)
           \<lparr>MessageC := snd (AppendManagedBuffer (MessageC (Transcript c)) Signed),
            M1M2 := (M1M2 (Transcript c))\<lparr>Buffer := []\<rparr>\<rparr>"
    by (rule TrySpdmChallengeAuth_verified)
next
  assume "TrySpdmChallengeExchange Cfg Crypto Env c SlotNum HashType Nonce = (Inr XResult, x1)"
  then show "Buffer (M1M2 (Transcript x1)) = []"
    by (rule TrySpdmChallengeExchange_reset)
next
  assume "TrySpdmChallenge Cfg Crypto Env c SlotNum HashType Want Nonce = (RETURN_SUCCESS, c2, Out)"
  then show "\<exists>Mut Hash x.
         TrySpdmChallengeExchange Cfg Crypto Env c SlotNum HashType Nonce =
           (Inr (Mut, Hash), x) \<and>
         Buffer (M1M2 (Transcript x)) = [] \<and>
         (Mut \<noteq> 1 \<and> Transcript c2 = Transcript x \<or>
          Mut = 1 \<and> Transcript c2 = Transcript (snd (SpdmEncapsulatedRequest Env x)))"
    by (rule TrySpdmChallenge_success)
next
  assume "SpdmGetEncapResponseChallengeAuth ECrypto ec Request ENonce Stack =
      Some (SpdmMessageResponse Rsp, ec1)"
  then show "\<exists>Message Sig.
         Rsp = Message @ WriteField (GetSpdmReqAsymSize ECrypto
                                      (ReqBaseAsymAlg (Conn_Algorithm (ConnectionInfo ec)))) Sig \<and>
         SpdmRequesterDataSignFunc ECrypto (ReqBaseAsymAlg (Conn_Algorithm (ConnectionInfo ec)))
           (HashData ECrypto ec
              (Buffer (M1M2 (Transcript ec)) @ Buffer (MessageMutB (Transcript ec)) @
               Buffer (MessageMutC (Transcript ec)) @ Request @ Message)) = Some Sig \<and>
         Transcript ec1 = (Transcript ec)
           \<lparr>MessageMutC := (MessageMutC (Transcript ec))
              \<lparr>Buffer := Buffer (MessageMutC (Transcript ec)) @ Request @ Message\<rparr>,
            M1M2 := (M1M2 (Transcript ec))\<lparr>Buffer := []\<rparr>\<rparr>"
    by (rule encap_produced)
next
  show "TranscriptKept (Transcript c)
     (Transcript (snd (TrySpdmChallengeAuth Cfg Crypto Env c SlotNum Response)))"
    by (rule TrySpdmChallengeAuth_kept)
next
  assume "SpdmReceiveSpdmResponse Env (SIZEOF_SPDM_CHALLENGE_AUTH_RESPONSE_MAX Cfg) =
      (Status, Received) \<and> Received ! 1 \<noteq> SPDM_ERROR"
  then show "TranscriptKept (Transcript c)
        (Transcript (snd (TrySpdmChallengeExchange Cfg Crypto Env c SlotNum HashType Nonce)))"
    using TrySpdmChallengeExchange_kept by blast
next
  assume "SpdmReceiveSpdmResponse Env (SIZEOF_SPDM_CHALLENGE_AUTH_RESPONSE_MAX Cfg) =
      (Status, Received) \<and>
    SpdmHandleErrorResponseMain Env
      (AfterRequest c (ChallengeRequest c SlotNum HashType Nonce)) Received =
      (Status2, c3, Response2)"
  then show "TranscriptKept (Transcript c)
        (Transcript (snd (TrySpdmChallengeExchange Cfg Crypto Env c SlotNum HashType Nonce))) \<or>
      TranscriptKept (Transcript c3)
        (Transcript (snd (TrySpdmChallengeExchange Cfg Crypto Env c SlotNum HashType Nonce)))"
    using TrySpdmChallengeExchange_error_path_kept by blast
next
  assume "SpdmGetEncapResponseChallengeAuth ECrypto ec Request ENonce Stack = Some (er, ec2)"
  then show "TranscriptKept (Transcript ec) (Transcript ec2)"
    by (rule encap_kept)
next
  show "TranscriptExtended (Transcript sc)
     (Transcript (snd (SpdmGenerateChallengeAuthSignature SCrypto sc IsRequester Message)))"
    by (rule SpdmGenerateChallengeAuthSignature_extended)
next
  assume "SpdmGetResponseChallenge Lib rc RRequest RNonce = Some (rr, rc1)"
  then show "TranscriptExtended (Responder_Transcript rc) (Responder_Transcript rc1)"
    by (rule responder_extended)
qed

lemma StaleEncapContext_fields:
  "MessageMutB (Transcript StaleEncapContext) = \<lparr>MaxBufferSize = 256, Buffer = [0x1B]\<rparr>"
  "MessageMutC (Transcript StaleEncapContext) = \<lparr>MaxBufferSize = 128, Buffer = [0x1C]\<rparr>"
  "M1M2 (Transcript StaleEncapContext) = \<lparr>MaxBufferSize = 256, Buffer = [0x99]\<rparr>"
  "length [0x99 :: UINT8] \<le> 8"
  "CertificateChain (LocalContext StaleEncapContext) = [[0xC0], []]"
  "SlotCount (LocalContext StaleEncapContext) = 1"
  "OpaqueChallengeAuthRsp (LocalContext StaleEncapContext) = []"
  by (simp_all add: StaleEncapContext_def SetTranscript_def EncapContextExample_fields
      LedgerContext_ledgers)

text \<open>
  The requester whose M1M2 holds the byte 0x99 accepts StaleResponse for slot 0 and
  returns with M1M2 empty and the 90 bytes of the request and of the signed part of the
  response appended to ledger C; the encapsulated handler on a context whose M1M2 holds
  the byte 0x99 answers a CHALLENGE for slot 0 and leaves M1M2 empty and 91 bytes in
  MutC; the responder answers slot 1.
\<close>

theorem Challenge_ledgers_kept_and_reset_witness:
  "Buffer (M1M2 (Transcript StaleContext)) = [0x99] \<and>
   (\<exists>Result x1. TrySpdmChallengeExchange SmallConfig TransparentCrypto
        (ResponseEnv StaleResponse) StaleContext 0 0 [] = (Inr Result, x1) \<and>
      Buffer (M1M2 (Transcript x1)) = []) \<and>
   (\<exists>c2 Out. TrySpdmChallenge SmallConfig TransparentCrypto (ResponseEnv StaleResponse)
        StaleContext 0 0 True [] = (RETURN_SUCCESS, c2, Out) \<and>
      Buffer (M1M2 (Transcript c2)) = [] \<and>
      length (Buffer (MessageC (Transcript c2))) = 91) \<and>
   Buffer (M1M2 (Transcript StaleEncapContext)) = [0x99] \<and>
   (\<exists>Rsp ec1. SpdmGetEncapResponseChallengeAuth TransparentCrypto StaleEncapContext
        (ChallengeRequestBytes 0 0) [] [] = Some (SpdmMessageResponse Rsp, ec1) \<and>
      Buffer (M1M2 (Transcript ec1)) = [] \<and>
      length (Buffer (MessageMutC (Transcript ec1))) = 91 \<and>
      TranscriptKept (Transcript StaleEncapContext) (Transcript ec1)) \<and>
   TranscriptKept (Transcript StaleContext)
     (Transcript (snd (TrySpdmChallengeExchange SmallConfig TransparentCrypto
        (ResponseEnv StaleResponse) StaleContext 0 0 []))) \<and>
   (\<exists>rr rc1. SpdmGetResponseChallenge SmallResponderLib SmallResponderContext
        (ChallengeRequestBytes 1 0) [] = Some (rr, rc1) \<and>
      TranscriptExtended (Responder_Transcript SmallResponderContext) (Responder_Transcript rc1))"
proof -
  let ?x = "(AfterRequest StaleContext (ChallengeRequest StaleContext 0 0 []))
      \<lparr>Transcript := (Transcript (AfterRequest StaleContext (ChallengeRequest StaleContext 0 0 [])))
          \<lparr>MessageC := \<lparr>MaxBufferSize = 128,
                         Buffer = 0x0C # ChallengeRequest StaleContext 0 0 [] @
                                  take 54 StaleResponse\<rparr>,
           M1M2 := \<lparr>MaxBufferSize = 256, Buffer = []\<rparr>\<rparr>,
       ErrorState := SPDM_STATUS_SUCCESS\<rparr>"
  have ex: "TrySpdmChallengeExchange SmallConfig TransparentCrypto (ResponseEnv StaleResponse)
      StaleContext 0 0 [] = (Inr (0, replicate 8 0), ?x)"
    by (rule Stale_exchange)
  have whole: "TrySpdmChallenge SmallConfig TransparentCrypto (ResponseEnv StaleResponse)
      StaleContext 0 0 True [] = (RETURN_SUCCESS, ChallengeReceived ?x, Some (replicate 8 0))"
    using ex by (simp add: TrySpdmChallenge_def)
  have len: "length (Buffer (MessageC (Transcript (ChallengeReceived ?x)))) = 91"
    by (simp add: ChallengeReceived_def ChallengeRequest_bytes [OF StaleContext_fields(4)]
        StaleResponse_def ChallengeAuthBytes_segments)
  obtain Rsp ec1 where encap: "SpdmGetEncapResponseChallengeAuth TransparentCrypto
      StaleEncapContext (ChallengeRequestBytes 0 0) [] [] = Some (SpdmMessageResponse Rsp, ec1)"
    and mutc: "length (Buffer (MessageMutC (Transcript ec1))) = 91"
    using encap_flow_signed [OF StaleEncapContext_fields] by blast
  obtain RRsp rc1 where resp: "SpdmGetResponseChallenge SmallResponderLib SmallResponderContext
      (ChallengeRequestBytes 1 0) [] = Some (SpdmMessageResponse RRsp, rc1)"
    using SmallResponder_slot1 by auto
  have recv: "SpdmReceiveSpdmResponse (ResponseEnv StaleResponse)
      (SIZEOF_SPDM_CHALLENGE_AUTH_RESPONSE_MAX SmallConfig) = (RETURN_SUCCESS, StaleResponse)"
    by (simp add: MutAuthEnv_fields)
  have code: "StaleResponse ! 1 \<noteq> SPDM_ERROR"
    by (simp add: StaleResponse_def ChallengeAuthBytes_def SPDM_ERROR_def)
  have stale: "Buffer (M1M2 (Transcript StaleContext)) = [0x99]"
    "Buffer (M1M2 (Transcript StaleEncapContext)) = [0x99]"
    by (simp_all add: StaleContext_fields StaleEncapContext_fields)
  note inst = Challenge_ledgers_kept_and_reset [where Cfg = SmallConfig
      and Crypto = TransparentCrypto and Env = "ResponseEnv StaleResponse" and c = StaleContext
      and SlotNum = 0 and HashType = 0 and Nonce = "[]" and XResult = "(0, replicate 8 0)"
      and ?x1.0 = ?x and Want = True and ?c2.0 = "ChallengeReceived ?x"
      and Out = "Some (replicate 8 0)" and ECrypto = TransparentCrypto
      and ec = StaleEncapContext and Request = "ChallengeRequestBytes 0 0"
      and ENonce = "[]" and Stack = "[]" and Rsp = Rsp and ?ec1.0 = ec1
      and er = "SpdmMessageResponse Rsp" and ?ec2.0 = ec1
      and Status = RETURN_SUCCESS and Received = StaleResponse
      and Lib = SmallResponderLib and rc = SmallResponderContext
      and RRequest = "ChallengeRequestBytes 1 0" and RNonce = "[]"
      and rr = "SpdmMessageResponse RRsp" and ?rc1.0 = rc1]
  note after_reset = inst [THEN conjunct2, THEN conjunct1]
  note success = inst [THEN conjunct2, THEN conjunct2, THEN conjunct1]
  note produced = inst [THEN conjunct2, THEN conjunct2, THEN conjunct2, THEN conjunct1]
  note rest = inst [THEN conjunct2, THEN conjunct2, THEN conjunct2, THEN conjunct2,
      THEN conjunct2]
  note direct = rest [THEN conjunct1]
  note handler_kept = rest [THEN conjunct2, THEN conjunct2, THEN conjunct1]
  note responder = rest [THEN conjunct2, THEN conjunct2, THEN conjunct2, THEN conjunct2]
  from after_reset ex have a: "Buffer (M1M2 (Transcript ?x)) = []"
    by blast
  from success whole obtain Mut Hash x where
    "TrySpdmChallengeExchange SmallConfig TransparentCrypto (ResponseEnv StaleResponse)
       StaleContext 0 0 [] = (Inr (Mut, Hash), x)"
    and "Buffer (M1M2 (Transcript x)) = []"
    and "Mut \<noteq> 1 \<and> Transcript (ChallengeReceived ?x) = Transcript x \<or>
         Mut = 1 \<and> Transcript (ChallengeReceived ?x) =
           Transcript (snd (SpdmEncapsulatedRequest (ResponseEnv StaleResponse) x))"
    by blast
  with ex have b: "Buffer (M1M2 (Transcript (ChallengeReceived ?x))) = []"
    by auto
  from produced encap obtain EMessage ESig where
    "Transcript ec1 = (Transcript StaleEncapContext)
       \<lparr>MessageMutC := (MessageMutC (Transcript StaleEncapContext))
          \<lparr>Buffer := Buffer (MessageMutC (Transcript StaleEncapContext)) @
             ChallengeRequestBytes 0 0 @ EMessage\<rparr>,
        M1M2 := (M1M2 (Transcript StaleEncapContext))\<lparr>Buffer := []\<rparr>\<rparr>"
    by blast
  then have d: "Buffer (M1M2 (Transcript ec1)) = []"
    by simp
  from handler_kept encap have e: "TranscriptKept (Transcript StaleEncapContext) (Transcript ec1)"
    by blast
  from direct recv code have f: "TranscriptKept (Transcript StaleContext)
     (Transcript (snd (TrySpdmChallengeExchange SmallConfig TransparentCrypto
        (ResponseEnv StaleResponse) StaleContext 0 0 [])))"
    by blast
  from responder resp have g: "TranscriptExtended (Responder_Transcript SmallResponderContext)
      (Responder_Transcript rc1)"
    by blast
  from stale ex a whole b len encap d mutc e f resp g show ?thesis by blast
qed

text \<open>
  C6 as stated fails for a requester challenge that succeeds after mutual authentication.
  On MutualContext, with the encapsulated flow that hands one CHALLENGE to
  SpdmGetEncapResponseChallengeAuth and a requester signing that fails, TrySpdmChallenge
  returns RETURN_SUCCESS with 92 bytes in M1M2: MutB and MutC, which the handler appended
  before the signing. The handler resets M1M2 only after a signature was made, and the
  reset of TrySpdmChallenge precedes the encapsulated flow.
\<close>

theorem Challenge_M1M2_after_mutual_auth_counterexample:
  "fst (TrySpdmChallenge SmallConfig FailingSignCrypto (FlowEnv FailingSignCrypto)
          MutualContext 0 0 True []) = RETURN_SUCCESS \<and>
   length (Buffer (M1M2 (Transcript (fst (snd
     (TrySpdmChallenge SmallConfig FailingSignCrypto (FlowEnv FailingSignCrypto)
        MutualContext 0 0 True [])))))) = 92"
proof -
  obtain x' where "TrySpdmChallenge SmallConfig FailingSignCrypto (FlowEnv FailingSignCrypto)
      MutualContext 0 0 True [] = (RETURN_SUCCESS, x', Some (replicate 8 0))"
    and "length (Buffer (M1M2 (Transcript x'))) = 92"
    using Mutual_challenge_sign_failure by blast
  then show ?thesis by simp
qed
end
